theory Spec2Isabelle
  imports Main
begin

section \<open>Data model\<close>

text \<open>
  The OpenAI bindings of langchaingo (package \<^verbatim>\<open>openai\<close>: the completion model \<^verbatim>\<open>LLM\<close>,
  the chat model \<^verbatim>\<open>Chat\<close>) and the structured JSON output parser (package
  \<^verbatim>\<open>outputparser\<close>), as a shallow embedding.

  Go structs are records; of the provider's structs they keep the fields that the
  code reads or writes. Where Go uses one field name in several structs, the record
  fields carry a prefix for their struct (\<open>req_Model\<close>, \<open>choice_Text\<close>, \<open>fn_Name\<close>,
  \<open>schema_Name\<close>, ...); the fields of \<^verbatim>\<open>Generation\<close>, \<^verbatim>\<open>AIChatMessage\<close>, \<^verbatim>\<open>FunctionCall\<close>,
  \<^verbatim>\<open>CallOptions\<close> and \<^verbatim>\<open>Usage\<close> keep their names. The four floating point options
  (temperature, top-p and the two penalties) are only narrowed and copied into the
  request; no function of this theory reads them and the records leave them out.
  The deferred \<^verbatim>\<open>stream.Close()\<close> is left out, and so are the calls to the logger: they
  return nothing and decide nothing.
\<close>

subsection \<open>Errors and results\<close>

text \<open>
  The four sentinel errors of the package, the errors of the provider's client
  (\<open>ClientError\<close>, with the client's message; the client is another module and cannot
  return one of the sentinels), and any other error value (\<open>OtherError\<close>), which a
  caller's streaming function may return beside the others.
\<close>

datatype error =
    ErrEmptyResponse
  | ErrMissingToken
  | ErrUnexpectedResponseLength
  | ErrUnexpectedEmbeddingModel
  | ClientError string
  | OtherError string

text \<open>
  A Go call either returns its results or panics. A function returning
  \<^verbatim>\<open>(*T, error)\<close> is modelled with the sum \<open>error + T\<close> (\<open>Inl err\<close> is
  \<^verbatim>\<open>return nil, err\<close>), a function returning a slice and an error with a pair.
\<close>

datatype 'a exec = Returns 'a | Panics

subsection \<open>Generation records\<close>

text \<open>The values stored in \<^verbatim>\<open>map[string]any\<close>: an \<^verbatim>\<open>int\<close> or a \<^verbatim>\<open>string\<close>.\<close>

datatype any = AnyInt int | AnyString string

record FunctionCall =
  Name :: string
  Arguments :: string

record AIChatMessage =
  Content :: string
  FunctionCall :: "FunctionCall option"

record Generation =
  Text :: string
  Message :: "AIChatMessage option"
  GenerationInfo :: "string \<rightharpoonup> any"

subsection \<open>JSON values\<close>

datatype json =
    JNull
  | JBool bool
  | JNumber string
  | JString string
  | JArray "json list"
  | JObject "(string \<times> json) list"

subsection \<open>Call options\<close>

record FunctionDefinition =
  fn_Name :: string
  fn_Description :: string
  fn_Parameters :: json

text \<open>
  The streaming function is a closure of the caller. Its state is the component
  \<open>sink\<close> of the world below: it takes the state and the chunk and returns its error
  (or none) and the next state.
\<close>

record 's CallOptions =
  Model :: string
  MaxTokens :: int
  StopWords :: "string list"
  N :: int
  StreamingFunc :: "('s \<Rightarrow> string \<Rightarrow> error option \<times> 's) option"
  Functions :: "FunctionDefinition list"

subsection \<open>The provider's requests and responses\<close>

record Usage =
  PromptTokens :: int
  CompletionTokens :: int
  TotalTokens :: int

record CompletionRequest =
  req_Model :: string
  req_Prompt :: string
  req_MaxTokens :: int
  req_Stream :: bool
  req_Stop :: "string list"
  req_N :: int

record CompletionChoice =
  choice_Text :: string
  choice_FinishReason :: string

record CompletionResponse =
  resp_Choices :: "CompletionChoice list"
  resp_Usage :: Usage

record ChatCompletionMessage =
  msg_Role :: string
  msg_Content :: string
  msg_FunctionCall :: "FunctionCall option"

record ChatCompletionRequest =
  chat_req_Model :: string
  chat_req_Messages :: "ChatCompletionMessage list"
  chat_req_MaxTokens :: int
  chat_req_Stream :: bool
  chat_req_Stop :: "string list"
  chat_req_N :: int
  chat_req_Functions :: "FunctionDefinition list"
  chat_req_FunctionCall :: "string option"

record ChatCompletionChoice =
  chat_choice_Message :: ChatCompletionMessage
  chat_choice_FinishReason :: string

record ChatCompletionResponse =
  chat_resp_Choices :: "ChatCompletionChoice list"
  chat_resp_Usage :: Usage

record ChatCompletionStreamChoiceDelta =
  delta_Content :: string
  delta_FunctionCall :: "FunctionCall option"

record ChatCompletionStreamChoice =
  stream_choice_Delta :: ChatCompletionStreamChoiceDelta
  stream_choice_FinishReason :: string

record ChatCompletionStreamResponse =
  stream_resp_Choices :: "ChatCompletionStreamChoice list"

record EmbeddingRequest =
  emb_req_Model :: int
  emb_req_Input :: "string list"

record 'f Embedding =
  Embedding :: "'f list"

record 'f EmbeddingResponse =
  Data :: "'f Embedding list"

subsection \<open>Streams, the client and the world\<close>

text \<open>
  What one call of \<^verbatim>\<open>stream.Recv()\<close> gives: an error that is \<^verbatim>\<open>io.EOF\<close>, another
  error, or the next response. A stream is the sequence of the results of its
  successive \<^verbatim>\<open>Recv\<close> calls; nothing says that it ever ends.
\<close>

datatype 'r recv = RecvEOF | RecvErr string | RecvOK 'r

type_synonym 'r stream = "nat \<Rightarrow> 'r recv"

text \<open>
  The client of the provider. Each operation takes the number of requests issued
  before this one (so that a provider may answer one request differently the second
  time) and the request, and gives the client's error message or its answer. \<open>'f\<close> is
  the provider's type of vector elements (\<^verbatim>\<open>float32\<close>).
\<close>

record 'f Client =
  CreateCompletion :: "nat \<Rightarrow> CompletionRequest \<Rightarrow> string + CompletionResponse"
  CreateCompletionStream :: "nat \<Rightarrow> CompletionRequest \<Rightarrow> string + CompletionResponse stream"
  CreateChatCompletion :: "nat \<Rightarrow> ChatCompletionRequest \<Rightarrow> string + ChatCompletionResponse"
  CreateChatCompletionStream ::
    "nat \<Rightarrow> ChatCompletionRequest \<Rightarrow> string + ChatCompletionStreamResponse stream"
  CreateEmbeddings :: "nat \<Rightarrow> EmbeddingRequest \<Rightarrow> string + 'f EmbeddingResponse"

record 'f LLM =
  model :: string
  client :: "'f Client"

record 'f Chat =
  chat_model :: string
  chat_client :: "'f Client"

text \<open>
  What a call changes outside itself: the state of the caller's streaming function,
  the chunks handed to it so far (in the order of the calls), and the number of
  requests issued to the provider.
\<close>

record 's world =
  sink :: 's
  delivered :: "string list"
  calls :: nat

subsection \<open>Chat messages\<close>

datatype ChatMessageType =
    ChatMessageTypeSystem
  | ChatMessageTypeAI
  | ChatMessageTypeHuman
  | ChatMessageTypeGeneric
  | ChatMessageTypeFunction
  | ChatMessageTypeOther string

text \<open>
  The interface \<^verbatim>\<open>schema.ChatMessage\<close>: a value of the struct \<^verbatim>\<open>AIChatMessage\<close>, for
  which the type assertion of \<^verbatim>\<open>Chat.Generate\<close> succeeds, or any other implementation,
  given by what its two methods return.
\<close>

datatype ChatMessage =
    AIMessage AIChatMessage
  | OtherMessage ChatMessageType string

fun GetContent :: "ChatMessage \<Rightarrow> string" where
  "GetContent (AIMessage m) = Content m"
| "GetContent (OtherMessage t c) = c"

fun GetType :: "ChatMessage \<Rightarrow> ChatMessageType" where
  "GetType (AIMessage m) = ChatMessageTypeAI"
| "GetType (OtherMessage t c) = t"

section \<open>Constants\<close>

definition defaultChatModel :: string where
  "defaultChatModel = ''gpt-3.5-turbo''"

definition defaultCompletionModel :: string where
  "defaultCompletionModel = ''text-davinci-003''"

definition defaultEmbeddingModel :: string where
  "defaultEmbeddingModel = ''text-embedding-ada-002''"

definition defaultMaxTokens :: int where
  "defaultMaxTokens = 1024"

text \<open>The provider library's finish reason of a function call, and its four roles.\<close>

definition FinishReasonFunctionCall :: string where
  "FinishReasonFunctionCall = ''function_call''"

definition ChatMessageRoleSystem :: string where
  "ChatMessageRoleSystem = ''system''"

definition ChatMessageRoleAssistant :: string where
  "ChatMessageRoleAssistant = ''assistant''"

definition ChatMessageRoleUser :: string where
  "ChatMessageRoleUser = ''user''"

definition ChatMessageRoleFunction :: string where
  "ChatMessageRoleFunction = ''function''"

text \<open>
  Modelled from the spec: \<^verbatim>\<open>llms.FunctionCallBehaviorAuto\<close>, declared outside
  these sources; the spec calls it the automatic-selection flag.
\<close>

definition FunctionCallBehaviorAuto :: string where
  "FunctionCallBehaviorAuto = ''auto''"

text \<open>The zero value of \<^verbatim>\<open>llms.CallOptions\<close>.\<close>

definition CallOptions_zero :: "'s CallOptions" where
  "CallOptions_zero =
     \<lparr>Model = [], MaxTokens = 0, StopWords = [], N = 0, StreamingFunc = None, Functions = []\<rparr>"

section \<open>Completion: \<^verbatim>\<open>LLM\<close>\<close>

text \<open>
  The loop of \<^verbatim>\<open>createCompletionStream\<close>, from the \<open>i\<close>-th \<^verbatim>\<open>Recv\<close> on, with the
  locals \<^verbatim>\<open>output\<close> and \<^verbatim>\<open>finishReason\<close>. The loop has no bound of its own: on a stream
  that never ends it does not return, which is the value \<open>None\<close>. Calling a nil
  streaming function panics.
\<close>

partial_function (option) createCompletionStream_loop ::
  "CompletionResponse stream \<Rightarrow> 's CallOptions \<Rightarrow> nat \<Rightarrow> string \<Rightarrow> string \<Rightarrow> 's world
    \<Rightarrow> ((error + Generation) exec \<times> 's world) option"
where
  "createCompletionStream_loop stream opts i output finishReason w =
    (case stream i of
       RecvEOF \<Rightarrow>
         Some (Returns (Inr \<lparr>Text = output, Message = None,
                 GenerationInfo = [''FinishReason'' \<mapsto> AnyString finishReason]\<rparr>), w)
     | RecvErr e \<Rightarrow> Some (Returns (Inl (ClientError e)), w)
     | RecvOK resp \<Rightarrow>
        (case resp_Choices resp of
           [] \<Rightarrow> Some (Returns (Inl ErrEmptyResponse), w)
         | c # _ \<Rightarrow>
            (case StreamingFunc opts of
               None \<Rightarrow> Some (Panics, w)
             | Some f \<Rightarrow>
                (case f (sink w) (choice_Text c) of
                   (Some err, s') \<Rightarrow>
                     Some (Returns (Inl err),
                       w\<lparr>sink := s', delivered := delivered w @ [choice_Text c]\<rparr>)
                 | (None, s') \<Rightarrow>
                     createCompletionStream_loop stream opts (i + 1)
                       (output @ choice_Text c) (choice_FinishReason c)
                       (w\<lparr>sink := s', delivered := delivered w @ [choice_Text c]\<rparr>)))))"

declare createCompletionStream_loop.simps [code]

definition createCompletionStream ::
  "'f LLM \<Rightarrow> CompletionRequest \<Rightarrow> 's CallOptions \<Rightarrow> 's world
    \<Rightarrow> ((error + Generation) exec \<times> 's world) option"
where
  "createCompletionStream llm request opts w =
    (case CreateCompletionStream (client llm) (calls w) request of
       Inl e \<Rightarrow> Some (Returns (Inl (ClientError e)), w\<lparr>calls := calls w + 1\<rparr>)
     | Inr stream \<Rightarrow>
         createCompletionStream_loop stream opts 0 [] [] (w\<lparr>calls := calls w + 1\<rparr>))"

definition createCompletion ::
  "'f LLM \<Rightarrow> CompletionRequest \<Rightarrow> 's world \<Rightarrow> (error + Generation) \<times> 's world"
where
  "createCompletion llm request w =
    (case CreateCompletion (client llm) (calls w) request of
       Inl e \<Rightarrow> (Inl (ClientError e), w\<lparr>calls := calls w + 1\<rparr>)
     | Inr resp \<Rightarrow>
        (case resp_Choices resp of
           [] \<Rightarrow> (Inl ErrEmptyResponse, w\<lparr>calls := calls w + 1\<rparr>)
         | c # _ \<Rightarrow>
            (Inr \<lparr>Text = choice_Text c, Message = None,
               GenerationInfo =
                 [''CompletionTokens'' \<mapsto> AnyInt (CompletionTokens (resp_Usage resp)),
                  ''PromptTokens'' \<mapsto> AnyInt (PromptTokens (resp_Usage resp)),
                  ''TotalTokens'' \<mapsto> AnyInt (TotalTokens (resp_Usage resp)),
                  ''FinishReason'' \<mapsto> AnyString (choice_FinishReason c)]\<rparr>,
             w\<lparr>calls := calls w + 1\<rparr>)))"

text \<open>
  The request of \<^verbatim>\<open>Generate\<close> before a prompt is put in, and its loop over the
  prompts with the slice \<^verbatim>\<open>generations\<close>.
\<close>

definition Generate_request :: "'f LLM \<Rightarrow> 's CallOptions \<Rightarrow> CompletionRequest" where
  "Generate_request llm opts =
     \<lparr>req_Model = (if length (Model opts) = 0 then model llm else Model opts),
      req_Prompt = [],
      req_MaxTokens = MaxTokens opts,
      req_Stream = (case StreamingFunc opts of None \<Rightarrow> False | Some f \<Rightarrow> True),
      req_Stop = StopWords opts,
      req_N = N opts\<rparr>"

fun Generate_loop ::
  "'f LLM \<Rightarrow> 's CallOptions \<Rightarrow> CompletionRequest \<Rightarrow> string list \<Rightarrow> Generation list \<Rightarrow> 's world
    \<Rightarrow> ((Generation list \<times> error option) exec \<times> 's world) option"
where
  "Generate_loop llm opts request [] generations w = Some (Returns (generations, None), w)"
| "Generate_loop llm opts request (prompt # prompts) generations w =
    (if req_Stream request then
       (case createCompletionStream llm (request\<lparr>req_Prompt := prompt\<rparr>) opts w of
          None \<Rightarrow> None
        | Some (Panics, w') \<Rightarrow> Some (Panics, w')
        | Some (Returns (Inl err), w') \<Rightarrow> Some (Returns ([], Some err), w')
        | Some (Returns (Inr generation), w') \<Rightarrow>
            Generate_loop llm opts (request\<lparr>req_Prompt := prompt\<rparr>) prompts
              (generations @ [generation]) w')
     else
       (case createCompletion llm (request\<lparr>req_Prompt := prompt\<rparr>) w of
          (Inl err, w') \<Rightarrow> Some (Returns ([], Some err), w')
        | (Inr generation, w') \<Rightarrow>
            Generate_loop llm opts (request\<lparr>req_Prompt := prompt\<rparr>) prompts
              (generations @ [generation]) w'))"

definition Generate ::
  "'f LLM \<Rightarrow> string list \<Rightarrow> ('s CallOptions \<Rightarrow> 's CallOptions) list \<Rightarrow> 's world
    \<Rightarrow> ((Generation list \<times> error option) exec \<times> 's world) option"
where
  "Generate llm prompts options w =
    (let opts = foldl (\<lambda>opts opt. opt opts) CallOptions_zero options
     in Generate_loop llm opts (Generate_request llm opts) prompts [] w)"

definition Call ::
  "'f LLM \<Rightarrow> string \<Rightarrow> ('s CallOptions \<Rightarrow> 's CallOptions) list \<Rightarrow> 's world
    \<Rightarrow> ((string \<times> error option) exec \<times> 's world) option"
where
  "Call llm prompt options w =
    (case Generate llm [prompt] options w of
       None \<Rightarrow> None
     | Some (Panics, w') \<Rightarrow> Some (Panics, w')
     | Some (Returns (r, Some err), w') \<Rightarrow> Some (Returns ([], Some err), w')
     | Some (Returns (r, None), w') \<Rightarrow>
        (case r of
           [] \<Rightarrow> Some (Returns ([], Some ErrEmptyResponse), w')
         | g # _ \<Rightarrow> Some (Returns (Text g, None), w')))"

text \<open>
  \<^verbatim>\<open>CreateEmbedding\<close>. The table \<^verbatim>\<open>stringToEmbeddingModel\<close> is declared outside these
  sources and is a parameter, as is the conversion \<^verbatim>\<open>float64(x)\<close> from the provider's
  \<^verbatim>\<open>float32\<close>. The two loops fill the result index by index.
\<close>

definition CreateEmbedding ::
  "(string \<rightharpoonup> int) \<Rightarrow> ('f \<Rightarrow> 'd) \<Rightarrow> 'f LLM \<Rightarrow> string \<Rightarrow> string list \<Rightarrow> 's world
    \<Rightarrow> ('d list list \<times> error option) \<times> 's world"
where
  "CreateEmbedding stringToEmbeddingModel float64 llm model0 inputTexts w =
    (let model = (if length model0 = 0 then defaultEmbeddingModel else model0) in
     case stringToEmbeddingModel model of
       None \<Rightarrow> (([], Some ErrUnexpectedEmbeddingModel), w)
     | Some embeddingModel \<Rightarrow>
        (case CreateEmbeddings (client llm) (calls w)
                \<lparr>emb_req_Model = embeddingModel, emb_req_Input = inputTexts\<rparr> of
           Inl e \<Rightarrow> (([], Some (ClientError e)), w\<lparr>calls := calls w + 1\<rparr>)
         | Inr resp \<Rightarrow>
            (let data = Data resp in
             if length data = 0 then (([], Some ErrEmptyResponse), w\<lparr>calls := calls w + 1\<rparr>)
             else if length inputTexts \<noteq> length data
               then (([], Some ErrUnexpectedResponseLength), w\<lparr>calls := calls w + 1\<rparr>)
             else
               ((map (\<lambda>i. map (\<lambda>j. float64 (Embedding (data ! i) ! j))
                               [0..<length (Embedding (data ! i))])
                     [0..<length data], None),
                w\<lparr>calls := calls w + 1\<rparr>))))"

section \<open>Chat: \<^verbatim>\<open>Chat\<close>\<close>

text \<open>
  The body of the inner loop of \<^verbatim>\<open>Chat.Generate\<close>: one message of the caller as a
  message of the provider. The switch has no default: another type leaves the role
  empty.
\<close>

definition Chat_Generate_message :: "ChatMessage \<Rightarrow> ChatCompletionMessage" where
  "Chat_Generate_message m =
    (let msg = \<lparr>msg_Role = [], msg_Content = GetContent m, msg_FunctionCall = None\<rparr> in
     case GetType m of
       ChatMessageTypeSystem \<Rightarrow> msg\<lparr>msg_Role := ChatMessageRoleSystem\<rparr>
     | ChatMessageTypeAI \<Rightarrow>
        (case m of
           AIMessage aiChatMsg \<Rightarrow>
            (case FunctionCall aiChatMsg of
               None \<Rightarrow> msg\<lparr>msg_Role := ChatMessageRoleAssistant\<rparr>
             | Some fc \<Rightarrow>
                 msg\<lparr>msg_Role := ChatMessageRoleAssistant,
                     msg_FunctionCall := Some \<lparr>Name = Name fc, Arguments = Arguments fc\<rparr>\<rparr>)
         | OtherMessage t c \<Rightarrow> msg\<lparr>msg_Role := ChatMessageRoleAssistant\<rparr>)
     | ChatMessageTypeHuman \<Rightarrow> msg\<lparr>msg_Role := ChatMessageRoleUser\<rparr>
     | ChatMessageTypeGeneric \<Rightarrow> msg\<lparr>msg_Role := ChatMessageRoleUser\<rparr>
     | ChatMessageTypeFunction \<Rightarrow> msg\<lparr>msg_Role := ChatMessageRoleFunction\<rparr>
     | ChatMessageTypeOther t \<Rightarrow> msg)"

text \<open>
  The loop of \<^verbatim>\<open>createChatCompletionStream\<close>, with the locals \<^verbatim>\<open>text\<close>,
  \<^verbatim>\<open>finishReason\<close> and \<^verbatim>\<open>functionCall\<close>. The delta's function call is a pointer: reading
  its name when it is nil panics. The record built at the end sets \<^verbatim>\<open>Message\<close> and
  \<^verbatim>\<open>GenerationInfo\<close>; its \<^verbatim>\<open>Text\<close> keeps the zero value.
\<close>

partial_function (option) createChatCompletionStream_loop ::
  "ChatCompletionStreamResponse stream \<Rightarrow> 's CallOptions \<Rightarrow> nat \<Rightarrow> string \<Rightarrow> string
    \<Rightarrow> FunctionCall option \<Rightarrow> 's world \<Rightarrow> ((error + Generation) exec \<times> 's world) option"
where
  "createChatCompletionStream_loop stream opts i text finishReason functionCall w =
    (case stream i of
       RecvEOF \<Rightarrow>
         Some (Returns (Inr \<lparr>Text = [],
                 Message = Some \<lparr>Content = text, FunctionCall = functionCall\<rparr>,
                 GenerationInfo = [''FinishReason'' \<mapsto> AnyString finishReason]\<rparr>), w)
     | RecvErr e \<Rightarrow> Some (Returns (Inl (ClientError e)), w)
     | RecvOK resp \<Rightarrow>
        (case stream_resp_Choices resp of
           [] \<Rightarrow> Some (Returns (Inl ErrEmptyResponse), w)
         | c # _ \<Rightarrow>
            (case StreamingFunc opts of
               None \<Rightarrow> Some (Panics, w)
             | Some f \<Rightarrow>
                (case f (sink w) (delta_Content (stream_choice_Delta c)) of
                   (Some err, s') \<Rightarrow>
                     Some (Returns (Inl err),
                       w\<lparr>sink := s',
                         delivered := delivered w @ [delta_Content (stream_choice_Delta c)]\<rparr>)
                 | (None, s') \<Rightarrow>
                     (if stream_choice_FinishReason c = FinishReasonFunctionCall then
                        (case delta_FunctionCall (stream_choice_Delta c) of
                           None \<Rightarrow>
                             Some (Panics,
                               w\<lparr>sink := s',
                                 delivered :=
                                   delivered w @ [delta_Content (stream_choice_Delta c)]\<rparr>)
                         | Some fc \<Rightarrow>
                             createChatCompletionStream_loop stream opts (i + 1)
                               (text @ delta_Content (stream_choice_Delta c))
                               (stream_choice_FinishReason c)
                               (Some \<lparr>Name = Name fc, Arguments = Arguments fc\<rparr>)
                               (w\<lparr>sink := s',
                                  delivered :=
                                    delivered w @ [delta_Content (stream_choice_Delta c)]\<rparr>))
                      else
                        createChatCompletionStream_loop stream opts (i + 1)
                          (text @ delta_Content (stream_choice_Delta c))
                          (stream_choice_FinishReason c) functionCall
                          (w\<lparr>sink := s',
                             delivered :=
                               delivered w @ [delta_Content (stream_choice_Delta c)]\<rparr>))))))"

declare createChatCompletionStream_loop.simps [code]

definition createChatCompletionStream ::
  "'f Chat \<Rightarrow> ChatCompletionRequest \<Rightarrow> 's CallOptions \<Rightarrow> 's world
    \<Rightarrow> ((error + Generation) exec \<times> 's world) option"
where
  "createChatCompletionStream chat request opts w =
    (case CreateChatCompletionStream (chat_client chat) (calls w) request of
       Inl e \<Rightarrow> Some (Returns (Inl (ClientError e)), w\<lparr>calls := calls w + 1\<rparr>)
     | Inr stream \<Rightarrow>
         createChatCompletionStream_loop stream opts 0 [] [] None (w\<lparr>calls := calls w + 1\<rparr>))"

text \<open>
  \<^verbatim>\<open>createChatCompletion\<close>. The message's function call is a pointer as well, read
  when the finish reason is that of a function call.
\<close>

definition createChatCompletion ::
  "'f Chat \<Rightarrow> ChatCompletionRequest \<Rightarrow> 's world \<Rightarrow> (error + Generation) exec \<times> 's world"
where
  "createChatCompletion chat request w =
    (case CreateChatCompletion (chat_client chat) (calls w) request of
       Inl e \<Rightarrow> (Returns (Inl (ClientError e)), w\<lparr>calls := calls w + 1\<rparr>)
     | Inr resp \<Rightarrow>
        (case chat_resp_Choices resp of
           [] \<Rightarrow> (Returns (Inl ErrEmptyResponse), w\<lparr>calls := calls w + 1\<rparr>)
         | c # _ \<Rightarrow>
            (let text = msg_Content (chat_choice_Message c);
                 finishReason = chat_choice_FinishReason c;
                 generation = (\<lambda>functionCall.
                   \<lparr>Text = text,
                    Message = Some \<lparr>Content = text, FunctionCall = functionCall\<rparr>,
                    GenerationInfo =
                      [''CompletionTokens'' \<mapsto> AnyInt (CompletionTokens (chat_resp_Usage resp)),
                       ''PromptTokens'' \<mapsto> AnyInt (PromptTokens (chat_resp_Usage resp)),
                       ''TotalTokens'' \<mapsto> AnyInt (TotalTokens (chat_resp_Usage resp)),
                       ''FinishReason'' \<mapsto> AnyString finishReason]\<rparr>)
             in
               if chat_choice_FinishReason c = FinishReasonFunctionCall then
                 (case msg_FunctionCall (chat_choice_Message c) of
                    None \<Rightarrow> (Panics, w\<lparr>calls := calls w + 1\<rparr>)
                  | Some fc \<Rightarrow>
                      (Returns (Inr (generation
                         (Some \<lparr>Name = Name fc, Arguments = Arguments fc\<rparr>))),
                       w\<lparr>calls := calls w + 1\<rparr>))
               else (Returns (Inr (generation None)), w\<lparr>calls := calls w + 1\<rparr>))))"

text \<open>
  The request of \<^verbatim>\<open>Chat.Generate\<close> before a message set is put in (the loop over
  the declared functions included), and its loop over the translated message sets.
\<close>

definition Chat_Generate_request :: "'f Chat \<Rightarrow> 's CallOptions \<Rightarrow> ChatCompletionRequest" where
  "Chat_Generate_request chat opts =
     foldl (\<lambda>request fn.
         request\<lparr>chat_req_Functions := chat_req_Functions request @
                    [\<lparr>fn_Name = fn_Name fn, fn_Description = fn_Description fn,
                      fn_Parameters = fn_Parameters fn\<rparr>],
                 chat_req_FunctionCall := Some FunctionCallBehaviorAuto\<rparr>)
       \<lparr>chat_req_Model = (if length (Model opts) = 0 then chat_model chat else Model opts),
        chat_req_Messages = [],
        chat_req_MaxTokens = MaxTokens opts,
        chat_req_Stream = (case StreamingFunc opts of None \<Rightarrow> False | Some f \<Rightarrow> True),
        chat_req_Stop = StopWords opts,
        chat_req_N = N opts,
        chat_req_Functions = [],
        chat_req_FunctionCall = None\<rparr>
       (Functions opts)"

fun Chat_Generate_loop ::
  "'f Chat \<Rightarrow> 's CallOptions \<Rightarrow> ChatCompletionRequest \<Rightarrow> ChatCompletionMessage list list
    \<Rightarrow> Generation list \<Rightarrow> 's world
    \<Rightarrow> ((Generation list \<times> error option) exec \<times> 's world) option"
where
  "Chat_Generate_loop chat opts request [] generations w =
     Some (Returns (generations, None), w)"
| "Chat_Generate_loop chat opts request (msgs # openaiMessageSets) generations w =
    (if chat_req_Stream request then
       (case createChatCompletionStream chat (request\<lparr>chat_req_Messages := msgs\<rparr>) opts w of
          None \<Rightarrow> None
        | Some (Panics, w') \<Rightarrow> Some (Panics, w')
        | Some (Returns (Inl err), w') \<Rightarrow> Some (Returns ([], Some err), w')
        | Some (Returns (Inr generation), w') \<Rightarrow>
            Chat_Generate_loop chat opts (request\<lparr>chat_req_Messages := msgs\<rparr>)
              openaiMessageSets (generations @ [generation]) w')
     else
       (case createChatCompletion chat (request\<lparr>chat_req_Messages := msgs\<rparr>) w of
          (Panics, w') \<Rightarrow> Some (Panics, w')
        | (Returns (Inl err), w') \<Rightarrow> Some (Returns ([], Some err), w')
        | (Returns (Inr generation), w') \<Rightarrow>
            Chat_Generate_loop chat opts (request\<lparr>chat_req_Messages := msgs\<rparr>)
              openaiMessageSets (generations @ [generation]) w'))"

definition Chat_Generate ::
  "'f Chat \<Rightarrow> ChatMessage list list \<Rightarrow> ('s CallOptions \<Rightarrow> 's CallOptions) list \<Rightarrow> 's world
    \<Rightarrow> ((Generation list \<times> error option) exec \<times> 's world) option"
where
  "Chat_Generate chat messageSets options w =
    (let opts = foldl (\<lambda>opts opt. opt opts)
                  (CallOptions_zero\<lparr>MaxTokens := defaultMaxTokens\<rparr>) options
     in Chat_Generate_loop chat opts (Chat_Generate_request chat opts)
          (map (map Chat_Generate_message) messageSets) [] w)"

definition Chat_Call ::
  "'f Chat \<Rightarrow> ChatMessage list \<Rightarrow> ('s CallOptions \<Rightarrow> 's CallOptions) list \<Rightarrow> 's world
    \<Rightarrow> ((AIChatMessage option \<times> error option) exec \<times> 's world) option"
where
  "Chat_Call chat messages options w =
    (case Chat_Generate chat [messages] options w of
       None \<Rightarrow> None
     | Some (Panics, w') \<Rightarrow> Some (Panics, w')
     | Some (Returns (r, Some err), w') \<Rightarrow> Some (Returns (None, Some err), w')
     | Some (Returns (r, None), w') \<Rightarrow>
        (case r of
           [] \<Rightarrow> Some (Returns (None, Some ErrEmptyResponse), w')
         | g # _ \<Rightarrow> Some (Returns (Message g, None), w')))"

section \<open>The structured JSON output parser\<close>

record ResponseJSONSchema =
  schema_Name :: string
  schema_Description :: string

record StructuredJSON =
  ResponseJSONSchemas :: "ResponseJSONSchema list"

datatype json_error = SyntaxError | UnmarshalTypeError string

datatype parse_error = UnmarshalError json_error | ParseJSONError string string

text \<open>
  \<^verbatim>\<open>json.Unmarshal\<close> into a \<^verbatim>\<open>map[string]string\<close>, after the documentation of the
  standard library. The grammar of JSON texts is the parameter \<open>decode\<close> (\<open>None\<close>: the
  text is not valid JSON, else the value it denotes, the members of an object in the
  order of the text). Into a string element, a JSON string is stored; \<^verbatim>\<open>null\<close> has no
  effect and is no error, so the element keeps the zero value; any other value is a
  type error, of which the first is returned after the whole object has been read.
  A later member of the same name overwrites an earlier one.
\<close>

fun json_kind :: "json \<Rightarrow> string" where
  "json_kind JNull = ''null''"
| "json_kind (JBool b) = ''bool''"
| "json_kind (JNumber n) = ''number''"
| "json_kind (JString s) = ''string''"
| "json_kind (JArray vs) = ''array''"
| "json_kind (JObject kvs) = ''object''"

fun Unmarshal_members ::
  "(string \<times> json) list \<Rightarrow> (string \<rightharpoonup> string) \<Rightarrow> json_error option
    \<Rightarrow> (string \<rightharpoonup> string) \<times> json_error option"
where
  "Unmarshal_members [] m err = (m, err)"
| "Unmarshal_members ((k, v) # kvs) m err =
    (case v of
       JString s \<Rightarrow> Unmarshal_members kvs (m(k \<mapsto> s)) err
     | JNull \<Rightarrow> Unmarshal_members kvs (m(k \<mapsto> [])) err
     | _ \<Rightarrow>
        Unmarshal_members kvs (m(k \<mapsto> []))
          (case err of None \<Rightarrow> Some (UnmarshalTypeError (json_kind v)) | Some e \<Rightarrow> Some e))"

definition Unmarshal ::
  "(string \<Rightarrow> json option) \<Rightarrow> string \<Rightarrow> (string \<rightharpoonup> string) \<times> json_error option"
where
  "Unmarshal decode text =
    (case decode text of
       None \<Rightarrow> (Map.empty, Some SyntaxError)
     | Some v \<Rightarrow>
        (case v of
           JObject kvs \<Rightarrow> Unmarshal_members kvs Map.empty None
         | JNull \<Rightarrow> (Map.empty, None)
         | _ \<Rightarrow> (Map.empty, Some (UnmarshalTypeError (json_kind v)))))"

text \<open>\<^verbatim>\<open>fmt.Sprintf("%v", keys)\<close> for a slice of strings: the elements between brackets,
  separated by one space.\<close>

fun join_space :: "string list \<Rightarrow> string" where
  "join_space [] = []"
| "join_space [k] = k"
| "join_space (k # ks) = k @ '' '' @ join_space ks"

definition format_v :: "string list \<Rightarrow> string" where
  "format_v keys = ''['' @ join_space keys @ '']''"

definition parse ::
  "(string \<Rightarrow> json option) \<Rightarrow> StructuredJSON \<Rightarrow> string \<Rightarrow> parse_error + (string \<rightharpoonup> string)"
where
  "parse decode p text =
    (case Unmarshal decode text of
       (parsed, Some err) \<Rightarrow> Inl (UnmarshalError err)
     | (parsed, None) \<Rightarrow>
        (let missingKeys =
               map schema_Name
                 (filter (\<lambda>rs. parsed (schema_Name rs) = None) (ResponseJSONSchemas p))
         in if length missingKeys > 0
            then Inl (ParseJSONError text
                   (''output is missing the following fields '' @ format_v missingKeys))
            else Inr parsed))"

definition Parse ::
  "(string \<Rightarrow> json option) \<Rightarrow> StructuredJSON \<Rightarrow> string \<Rightarrow> parse_error + (string \<rightharpoonup> string)"
where
  "Parse decode p text = parse decode p text"

section \<open>Streams that end, and example values\<close>

text \<open>
  A stream delivers the responses \<open>ds\<close> and then ends: its first \<open>length ds\<close> results
  are these responses and the next one is \<^verbatim>\<open>io.EOF\<close>. \<open>stream_of ds\<close> is such a
  stream.
\<close>

definition stream_yields :: "'r stream \<Rightarrow> 'r list \<Rightarrow> bool" where
  "stream_yields stream ds \<longleftrightarrow>
     (\<forall>j<length ds. stream j = RecvOK (ds ! j)) \<and> stream (length ds) = RecvEOF"

definition stream_of :: "'r list \<Rightarrow> 'r stream" where
  "stream_of ds = (\<lambda>i. if i < length ds then RecvOK (ds ! i) else RecvEOF)"

text \<open>
  What the loops read of a response: the text, the content and the finish reason of
  its first choice (\<^verbatim>\<open>resp.Choices[0]\<close>), empty for a response without choices.
\<close>

definition first_Text :: "CompletionResponse \<Rightarrow> string" where
  "first_Text resp = (case resp_Choices resp of [] \<Rightarrow> [] | c # cs \<Rightarrow> choice_Text c)"

definition first_FinishReason :: "CompletionResponse \<Rightarrow> string" where
  "first_FinishReason resp =
     (case resp_Choices resp of [] \<Rightarrow> [] | c # cs \<Rightarrow> choice_FinishReason c)"

definition first_Content :: "ChatCompletionStreamResponse \<Rightarrow> string" where
  "first_Content resp =
     (case stream_resp_Choices resp of [] \<Rightarrow> []
      | c # cs \<Rightarrow> delta_Content (stream_choice_Delta c))"

definition first_stream_FinishReason :: "ChatCompletionStreamResponse \<Rightarrow> string" where
  "first_stream_FinishReason resp =
     (case stream_resp_Choices resp of [] \<Rightarrow> [] | c # cs \<Rightarrow> stream_choice_FinishReason c)"

text \<open>
  In the words of the specification: the last non-empty value among the finish
  reasons of the deltas (the empty string when none is non-empty).
\<close>

definition spec_last_non_empty :: "string list \<Rightarrow> string" where
  "spec_last_non_empty rs =
     (case filter (\<lambda>r. r \<noteq> []) rs of [] \<Rightarrow> [] | x # xs \<Rightarrow> last (x # xs))"

text \<open>
  A provider and a streaming function for the examples. The provider answers the
  prompt \<open>fail\<close> with an error and the prompt \<open>none\<close> with no choice (in a stream, after
  one delta); its stream for the prompt \<open>trail\<close> carries the finish reason on the
  first of two deltas only, its stream for the prompt \<open>bad\<close> has the chunk \<open>bad\<close> as
  the second of three, and its other streams are two deltas with the finish reason
  on the last. A chat request without messages is an error; one of three messages is
  answered with no choice, and the stream for one of two messages carries the finish
  reason on the first delta only. Its embeddings have two elements per text, except
  that it answers three texts with two vectors; vector elements are natural numbers,
  converted to integers. The streaming function counts its calls and refuses the
  chunk \<open>bad\<close>. \<open>WithStreamingFunc\<close> is the option of the package \<^verbatim>\<open>llms\<close> that sets
  the streaming function.
\<close>

definition demo_table :: "string \<rightharpoonup> int" where
  "demo_table = [''text-embedding-ada-002'' \<mapsto> 7]"

definition demo_delta :: "string \<Rightarrow> string \<Rightarrow> CompletionResponse" where
  "demo_delta t r =
     \<lparr>resp_Choices = [\<lparr>choice_Text = t, choice_FinishReason = r\<rparr>],
      resp_Usage = \<lparr>PromptTokens = 0, CompletionTokens = 0, TotalTokens = 0\<rparr>\<rparr>"

definition demo_no_choice :: CompletionResponse where
  "demo_no_choice =
     \<lparr>resp_Choices = [],
      resp_Usage = \<lparr>PromptTokens = 0, CompletionTokens = 0, TotalTokens = 0\<rparr>\<rparr>"

definition demo_completion :: "nat \<Rightarrow> CompletionRequest \<Rightarrow> string + CompletionResponse" where
  "demo_completion k request =
     (if req_Prompt request = ''fail'' then Inl ''boom''
      else if req_Prompt request = ''none'' then Inr demo_no_choice
      else Inr \<lparr>resp_Choices =
                  [\<lparr>choice_Text = ''re: '' @ req_Prompt request, choice_FinishReason = ''stop''\<rparr>],
                resp_Usage = \<lparr>PromptTokens = int (length (req_Prompt request)),
                              CompletionTokens = 4 + int k,
                              TotalTokens = int (length (req_Prompt request)) + 4 + int k\<rparr>\<rparr>)"

definition demo_completion_stream ::
  "nat \<Rightarrow> CompletionRequest \<Rightarrow> string + CompletionResponse stream"
where
  "demo_completion_stream k request =
     (if req_Prompt request = ''fail'' then Inl ''boom''
      else if req_Prompt request = ''none''
        then Inr (stream_of [demo_delta ''a'' [], demo_no_choice])
      else if req_Prompt request = ''trail''
        then Inr (stream_of [demo_delta ''Hel'' ''stop'', demo_delta ''lo'' []])
      else if req_Prompt request = ''bad''
        then Inr (stream_of [demo_delta ''ok'' [], demo_delta ''bad'' [], demo_delta ''more'' ''stop''])
      else Inr (stream_of [demo_delta ''Hel'' [], demo_delta ''lo'' ''stop'']))"

definition demo_chat_delta :: "string \<Rightarrow> string \<Rightarrow> ChatCompletionStreamResponse" where
  "demo_chat_delta t r =
     \<lparr>stream_resp_Choices =
        [\<lparr>stream_choice_Delta = \<lparr>delta_Content = t, delta_FunctionCall = None\<rparr>,
          stream_choice_FinishReason = r\<rparr>]\<rparr>"

definition demo_chat :: "nat \<Rightarrow> ChatCompletionRequest \<Rightarrow> string + ChatCompletionResponse" where
  "demo_chat k request =
     (if chat_req_Messages request = [] then Inl ''no messages''
      else if length (chat_req_Messages request) = 3
        then Inr \<lparr>chat_resp_Choices = [],
                  chat_resp_Usage = \<lparr>PromptTokens = 3, CompletionTokens = 0, TotalTokens = 3\<rparr>\<rparr>
      else Inr \<lparr>chat_resp_Choices =
                  [\<lparr>chat_choice_Message =
                      \<lparr>msg_Role = ''assistant'', msg_Content = ''Hello'', msg_FunctionCall = None\<rparr>,
                    chat_choice_FinishReason = ''stop''\<rparr>],
                chat_resp_Usage = \<lparr>PromptTokens = 3, CompletionTokens = 1, TotalTokens = 4\<rparr>\<rparr>)"

definition demo_chat_stream ::
  "nat \<Rightarrow> ChatCompletionRequest \<Rightarrow> string + ChatCompletionStreamResponse stream"
where
  "demo_chat_stream k request =
     (if chat_req_Messages request = [] then Inl ''no messages''
      else if length (chat_req_Messages request) = 3
        then Inr (stream_of [demo_chat_delta ''a'' [], \<lparr>stream_resp_Choices = []\<rparr>])
      else if length (chat_req_Messages request) = 2
        then Inr (stream_of [demo_chat_delta ''Hel'' ''stop'', demo_chat_delta ''lo'' []])
      else Inr (stream_of [demo_chat_delta ''Hel'' [], demo_chat_delta ''lo'' ''stop'']))"

definition demo_embeddings :: "nat \<Rightarrow> EmbeddingRequest \<Rightarrow> string + nat EmbeddingResponse" where
  "demo_embeddings k request =
     (if length (emb_req_Input request) = 3
      then Inr \<lparr>Data = [\<lparr>Embedding = [1, 2]\<rparr>, \<lparr>Embedding = [3]\<rparr>]\<rparr>
      else Inr \<lparr>Data = map (\<lambda>t. \<lparr>Embedding = [length t, 5]\<rparr>) (emb_req_Input request)\<rparr>)"

definition demo_client :: "nat Client" where
  "demo_client =
     \<lparr>CreateCompletion = demo_completion,
      CreateCompletionStream = demo_completion_stream,
      CreateChatCompletion = demo_chat,
      CreateChatCompletionStream = demo_chat_stream,
      CreateEmbeddings = demo_embeddings\<rparr>"

definition demo_llm :: "nat LLM" where
  "demo_llm = \<lparr>model = defaultCompletionModel, client = demo_client\<rparr>"

definition demo_chat_llm :: "nat Chat" where
  "demo_chat_llm = \<lparr>chat_model = defaultChatModel, chat_client = demo_client\<rparr>"

definition demo_sink :: "nat \<Rightarrow> string \<Rightarrow> error option \<times> nat" where
  "demo_sink s chunk =
     (if chunk = ''bad'' then (Some (OtherError ''refused''), s + 1) else (None, s + 1))"

definition WithStreamingFunc ::
  "('s \<Rightarrow> string \<Rightarrow> error option \<times> 's) \<Rightarrow> 's CallOptions \<Rightarrow> 's CallOptions"
where
  "WithStreamingFunc f opts = opts\<lparr>StreamingFunc := Some f\<rparr>"

definition demo_world :: "nat world" where
  "demo_world = \<lparr>sink = 0, delivered = [], calls = 0\<rparr>"

text \<open>
  For the parser: in the words of the specification, a mapping restricted to its
  string-valued entries; and two JSON texts with the values they denote, the first
  with a number among its values, the second with strings only. The example grammar
  knows these two texts.
\<close>

definition string_entries :: "(string \<rightharpoonup> json) \<Rightarrow> (string \<rightharpoonup> string)" where
  "string_entries M = (\<lambda>k. case M k of Some (JString s) \<Rightarrow> Some s | _ \<Rightarrow> None)"

definition demo_text :: string where
  \<open>demo_text = ''{"prompt":"a cat","steps":20}''\<close>

definition demo_text_strings :: string where
  \<open>demo_text_strings = ''{"prompt":"a cat","style":"oil"}''\<close>

definition demo_decode :: "string \<Rightarrow> json option" where
  "demo_decode t =
     (if t = demo_text
      then Some (JObject [(''prompt'', JString ''a cat''), (''steps'', JNumber ''20'')])
      else if t = demo_text_strings
      then Some (JObject [(''prompt'', JString ''a cat''), (''style'', JString ''oil'')])
      else None)"

definition demo_parser :: StructuredJSON where
  "demo_parser =
     \<lparr>ResponseJSONSchemas = [\<lparr>schema_Name = ''prompt'', schema_Description = ''what to draw''\<rparr>]\<rparr>"

definition demo_parser_two :: StructuredJSON where
  "demo_parser_two =
     \<lparr>ResponseJSONSchemas =
        [\<lparr>schema_Name = ''prompt'', schema_Description = ''what to draw''\<rparr>,
         \<lparr>schema_Name = ''negativePrompt'', schema_Description = ''what to leave out''\<rparr>]\<rparr>"

text \<open>
  For the failing items: a second provider, like the first except that its completion
  stream for the prompt \<open>cut\<close> and its chat stream for four messages deliver one
  delta and then an error, and its chat stream for five messages has the chunk \<open>bad\<close>
  as the second of two; a message set of one message; and a second table, which
  holds an entry for the empty name and none for the default name.
\<close>

definition demo_cut_completion_stream ::
  "nat \<Rightarrow> CompletionRequest \<Rightarrow> string + CompletionResponse stream"
where
  "demo_cut_completion_stream k request =
     (if req_Prompt request = ''cut''
      then Inr (\<lambda>i. if i = 0 then RecvOK (demo_delta ''Hel'' []) else RecvErr ''reset'')
      else demo_completion_stream k request)"

definition demo_cut_chat_stream ::
  "nat \<Rightarrow> ChatCompletionRequest \<Rightarrow> string + ChatCompletionStreamResponse stream"
where
  "demo_cut_chat_stream k request =
     (if length (chat_req_Messages request) = 4
      then Inr (\<lambda>i. if i = 0 then RecvOK (demo_chat_delta ''Hel'' []) else RecvErr ''reset'')
      else if length (chat_req_Messages request) = 5
      then Inr (stream_of [demo_chat_delta ''ok'' [], demo_chat_delta ''bad'' []])
      else demo_chat_stream k request)"

definition demo_cut_client :: "nat Client" where
  "demo_cut_client =
     demo_client\<lparr>CreateCompletionStream := demo_cut_completion_stream,
                 CreateChatCompletionStream := demo_cut_chat_stream\<rparr>"

definition demo_cut_llm :: "nat LLM" where
  "demo_cut_llm = \<lparr>model = defaultCompletionModel, client = demo_cut_client\<rparr>"

definition demo_cut_chat_llm :: "nat Chat" where
  "demo_cut_chat_llm = \<lparr>chat_model = defaultChatModel, chat_client = demo_cut_client\<rparr>"

definition demo_hi :: "ChatMessage list" where
  "demo_hi = [OtherMessage ChatMessageTypeHuman ''hi'']"

definition demo_table_other :: "string \<rightharpoonup> int" where
  "demo_table_other = [''text-embedding-3-small'' \<mapsto> 9, '''' \<mapsto> 1]"

section \<open>Embeddings\<close>

text \<open>
  C7: a call of \<^verbatim>\<open>CreateEmbedding\<close> with a non-empty model name that the table
  \<^verbatim>\<open>stringToEmbeddingModel\<close> does not hold fails with \<^verbatim>\<open>ErrUnexpectedEmbeddingModel\<close>
  before any request is issued: no vector is returned and the world, with its count
  of requests, is the one the call started in.
\<close>

theorem CreateEmbedding_unrecognized_model:
  assumes "model0 \<noteq> []" and "stringToEmbeddingModel model0 = None"
  shows "CreateEmbedding stringToEmbeddingModel float64 llm model0 inputTexts w =
           (([], Some ErrUnexpectedEmbeddingModel), w)"
  using assms by (simp add: CreateEmbedding_def)

theorem CreateEmbedding_unrecognized_model_witness:
  "CreateEmbedding demo_table int demo_llm ''not-a-real-model'' [''a'', ''b''] demo_world =
     (([], Some ErrUnexpectedEmbeddingModel), demo_world)"
  by (rule CreateEmbedding_unrecognized_model) (simp_all add: demo_table_def)

text \<open>The two index loops of \<^verbatim>\<open>CreateEmbedding\<close> convert every vector element by element.\<close>

lemma CreateEmbedding_vectors:
  "map (\<lambda>i. map (\<lambda>j. float64 (Embedding (data ! i) ! j)) [0..<length (Embedding (data ! i))])
       [0..<length data] = map (\<lambda>e. map float64 (Embedding e)) data"
proof (rule nth_equalityI)
  show "length (map (\<lambda>i. map (\<lambda>j. float64 (Embedding (data ! i) ! j))
           [0..<length (Embedding (data ! i))]) [0..<length data])
        = length (map (\<lambda>e. map float64 (Embedding e)) data)"
    by simp
next
  fix i
  assume "i < length (map (\<lambda>i. map (\<lambda>j. float64 (Embedding (data ! i) ! j))
           [0..<length (Embedding (data ! i))]) [0..<length data])"
  then have i: "i < length data" by simp
  have "map (\<lambda>j. float64 (Embedding (data ! i) ! j)) [0..<length (Embedding (data ! i))]
          = map float64 (Embedding (data ! i))"
    by (rule nth_equalityI) auto
  with i show "map (\<lambda>i. map (\<lambda>j. float64 (Embedding (data ! i) ! j))
           [0..<length (Embedding (data ! i))]) [0..<length data] ! i
        = map (\<lambda>e. map float64 (Embedding e)) data ! i"
    by simp
qed





text \<open>
  C10: in a call of \<^verbatim>\<open>CreateEmbedding\<close> with the empty model name the table is read
  at the default name \<open>text-embedding-ada-002\<close>, not at the empty name. The call gives
  \<^verbatim>\<open>ErrUnexpectedEmbeddingModel\<close> exactly when the table has no entry for the default
  name, so never for a table that holds it; the call is the call with the default
  name; and the request to the provider carries the table's entry for the default
  name: when the provider answers that request with as many vectors as there are
  texts, these vectors, converted, are returned.
\<close>

theorem CreateEmbedding_empty_model_is_default:
  "(snd (fst (CreateEmbedding stringToEmbeddingModel float64 llm [] inputTexts w))
      = Some ErrUnexpectedEmbeddingModel)
     = (stringToEmbeddingModel ''text-embedding-ada-002'' = None) \<and>
   CreateEmbedding stringToEmbeddingModel float64 llm [] inputTexts w
     = CreateEmbedding stringToEmbeddingModel float64 llm ''text-embedding-ada-002'' inputTexts w \<and>
   (stringToEmbeddingModel ''text-embedding-ada-002'' = Some embeddingModel \<and>
    CreateEmbeddings (client llm) (calls w)
      \<lparr>emb_req_Model = embeddingModel, emb_req_Input = inputTexts\<rparr> = Inr resp \<and>
    Data resp \<noteq> [] \<and> length (Data resp) = length inputTexts \<longrightarrow>
      CreateEmbedding stringToEmbeddingModel float64 llm [] inputTexts w
        = ((map (\<lambda>e. map float64 (Embedding e)) (Data resp), None),
           w\<lparr>calls := calls w + 1\<rparr>))"
  by (auto simp: CreateEmbedding_def defaultEmbeddingModel_def Let_def CreateEmbedding_vectors
        split: option.splits sum.splits)

theorem CreateEmbedding_empty_model_is_default_witness:
  "CreateEmbedding demo_table int demo_llm [] [''ab'', ''c''] demo_world
     = (([[2, 5], [1, 5]], None), demo_world\<lparr>calls := 1\<rparr>) \<and>
   snd (fst (CreateEmbedding demo_table int demo_llm [] [''ab'', ''c''] demo_world))
     \<noteq> Some ErrUnexpectedEmbeddingModel \<and>
   demo_table_other [] = Some 1 \<and>
   snd (fst (CreateEmbedding demo_table_other int demo_llm [] [''ab'', ''c''] demo_world))
     = Some ErrUnexpectedEmbeddingModel"
proof -
  note T = CreateEmbedding_empty_model_is_default
  have a: "demo_table ''text-embedding-ada-002'' = Some 7"
    by (simp add: demo_table_def)
  have b: "demo_table_other ''text-embedding-ada-002'' = None"
    by (simp add: demo_table_other_def)
  have c: "demo_table ''text-embedding-ada-002'' = Some 7 \<and>
    CreateEmbeddings (client demo_llm) (calls demo_world)
      \<lparr>emb_req_Model = 7, emb_req_Input = [''ab'', ''c'']\<rparr>
      = Inr \<lparr>Data = [\<lparr>Embedding = [2, 5]\<rparr>, \<lparr>Embedding = [1, 5]\<rparr>]\<rparr> \<and>
    Data \<lparr>Data = [\<lparr>Embedding = [2, 5::nat]\<rparr>, \<lparr>Embedding = [1, 5]\<rparr>]\<rparr> \<noteq> [] \<and>
    length (Data \<lparr>Data = [\<lparr>Embedding = [2, 5::nat]\<rparr>, \<lparr>Embedding = [1, 5]\<rparr>]\<rparr>)
      = length [''ab'', ''c'']"
    by (simp add: a demo_llm_def demo_client_def demo_embeddings_def)
  have "CreateEmbedding demo_table int demo_llm [] [''ab'', ''c''] demo_world
     = (([[2, 5], [1, 5]], None), demo_world\<lparr>calls := 1\<rparr>)"
    using T [of demo_table int demo_llm "[''ab'', ''c'']" demo_world,
        THEN conjunct2, THEN conjunct2, THEN mp, OF c]
    by (simp add: demo_world_def)
  moreover have "snd (fst (CreateEmbedding demo_table int demo_llm [] [''ab'', ''c''] demo_world))
     \<noteq> Some ErrUnexpectedEmbeddingModel"
    using T [of demo_table int demo_llm "[''ab'', ''c'']" demo_world, THEN conjunct1]
    by (simp add: a)
  moreover have "demo_table_other [] = Some 1"
    by (simp add: demo_table_other_def)
  moreover have "snd (fst (CreateEmbedding demo_table_other int demo_llm [] [''ab'', ''c'']
      demo_world)) = Some ErrUnexpectedEmbeddingModel"
    using T [of demo_table_other int demo_llm "[''ab'', ''c'']" demo_world, THEN conjunct1]
    by (simp add: b)
  ultimately show ?thesis by simp
qed

section \<open>\<^verbatim>\<open>Generate\<close> without streaming\<close>

lemma createCompletion_record:
  assumes "CreateCompletion (client llm) (calls w) request = Inr resp"
    and "resp_Choices resp \<noteq> []"
  shows "\<exists>g. createCompletion llm request w = (Inr g, w\<lparr>calls := calls w + 1\<rparr>) \<and>
           Text g = choice_Text (hd (resp_Choices resp)) \<and>
           GenerationInfo g ''PromptTokens'' = Some (AnyInt (PromptTokens (resp_Usage resp))) \<and>
           GenerationInfo g ''CompletionTokens''
             = Some (AnyInt (CompletionTokens (resp_Usage resp))) \<and>
           GenerationInfo g ''TotalTokens'' = Some (AnyInt (TotalTokens (resp_Usage resp)))"
proof -
  from assms(2) obtain c cs where "resp_Choices resp = c # cs"
    by (cases "resp_Choices resp") auto
  with assms(1) show ?thesis
    by (simp add: createCompletion_def)
qed

lemma Generate_loop_nonstreaming:
  assumes "\<not> req_Stream request"
    and "length resps = length prompts"
    and "\<forall>i<length prompts.
           CreateCompletion (client llm) (calls w + i) (request\<lparr>req_Prompt := prompts ! i\<rparr>)
             = Inr (resps ! i) \<and> resp_Choices (resps ! i) \<noteq> []"
  shows "\<exists>gs. Generate_loop llm opts request prompts generations w =
           Some (Returns (generations @ gs, None), w\<lparr>calls := calls w + length prompts\<rparr>) \<and>
           length gs = length prompts \<and>
           (\<forall>i<length prompts.
              Text (gs ! i) = choice_Text (hd (resp_Choices (resps ! i))) \<and>
              GenerationInfo (gs ! i) ''PromptTokens''
                = Some (AnyInt (PromptTokens (resp_Usage (resps ! i)))) \<and>
              GenerationInfo (gs ! i) ''CompletionTokens''
                = Some (AnyInt (CompletionTokens (resp_Usage (resps ! i)))) \<and>
              GenerationInfo (gs ! i) ''TotalTokens''
                = Some (AnyInt (TotalTokens (resp_Usage (resps ! i)))))"
  using assms
proof (induction prompts arbitrary: resps request generations w)
  case Nil
  then show ?case by simp
next
  case (Cons p ps)
  from Cons.prems(2) obtain r rs where resps: "resps = r # rs" and len: "length rs = length ps"
    by (cases resps) auto
  from Cons.prems(3) have first:
    "CreateCompletion (client llm) (calls w) (request\<lparr>req_Prompt := p\<rparr>) = Inr r"
    "resp_Choices r \<noteq> []"
    using resps by force+
  from createCompletion_record [OF first] obtain g where
    g: "createCompletion llm (request\<lparr>req_Prompt := p\<rparr>) w = (Inr g, w\<lparr>calls := calls w + 1\<rparr>)"
    and g_props: "Text g = choice_Text (hd (resp_Choices r))"
      "GenerationInfo g ''PromptTokens'' = Some (AnyInt (PromptTokens (resp_Usage r)))"
      "GenerationInfo g ''CompletionTokens'' = Some (AnyInt (CompletionTokens (resp_Usage r)))"
      "GenerationInfo g ''TotalTokens'' = Some (AnyInt (TotalTokens (resp_Usage r)))"
    by blast
  have rest: "\<forall>i<length ps.
      CreateCompletion (client llm) (calls (w\<lparr>calls := calls w + 1\<rparr>) + i)
        (request\<lparr>req_Prompt := p\<rparr>\<lparr>req_Prompt := ps ! i\<rparr>) = Inr (rs ! i) \<and>
      resp_Choices (rs ! i) \<noteq> []"
  proof (intro allI impI)
    fix i assume "i < length ps"
    then have "Suc i < length (p # ps)" by simp
    with Cons.prems(3) have
      "CreateCompletion (client llm) (calls w + Suc i)
         (request\<lparr>req_Prompt := (p # ps) ! Suc i\<rparr>) = Inr (resps ! Suc i) \<and>
       resp_Choices (resps ! Suc i) \<noteq> []"
      by blast
    then show "CreateCompletion (client llm) (calls (w\<lparr>calls := calls w + 1\<rparr>) + i)
        (request\<lparr>req_Prompt := p\<rparr>\<lparr>req_Prompt := ps ! i\<rparr>) = Inr (rs ! i) \<and>
      resp_Choices (rs ! i) \<noteq> []"
      using resps by simp
  qed
  have stream: "\<not> req_Stream (request\<lparr>req_Prompt := p\<rparr>)"
    using Cons.prems(1) by simp
  from Cons.IH [OF stream len rest, of "generations @ [g]"] obtain gs where
    run: "Generate_loop llm opts (request\<lparr>req_Prompt := p\<rparr>) ps (generations @ [g])
            (w\<lparr>calls := calls w + 1\<rparr>) =
          Some (Returns ((generations @ [g]) @ gs, None),
            w\<lparr>calls := calls w + 1\<rparr>\<lparr>calls := calls (w\<lparr>calls := calls w + 1\<rparr>) + length ps\<rparr>)"
    and gs_len: "length gs = length ps"
    and gs_props: "\<forall>i<length ps.
              Text (gs ! i) = choice_Text (hd (resp_Choices (rs ! i))) \<and>
              GenerationInfo (gs ! i) ''PromptTokens''
                = Some (AnyInt (PromptTokens (resp_Usage (rs ! i)))) \<and>
              GenerationInfo (gs ! i) ''CompletionTokens''
                = Some (AnyInt (CompletionTokens (resp_Usage (rs ! i)))) \<and>
              GenerationInfo (gs ! i) ''TotalTokens''
                = Some (AnyInt (TotalTokens (resp_Usage (rs ! i))))"
    by blast
  have "Generate_loop llm opts request (p # ps) generations w =
          Some (Returns (generations @ (g # gs), None), w\<lparr>calls := calls w + length (p # ps)\<rparr>)"
    using Cons.prems(1) g run by simp
  moreover have "length (g # gs) = length (p # ps)"
    using gs_len by simp
  moreover have "\<forall>i<length (p # ps).
              Text ((g # gs) ! i) = choice_Text (hd (resp_Choices (resps ! i))) \<and>
              GenerationInfo ((g # gs) ! i) ''PromptTokens''
                = Some (AnyInt (PromptTokens (resp_Usage (resps ! i)))) \<and>
              GenerationInfo ((g # gs) ! i) ''CompletionTokens''
                = Some (AnyInt (CompletionTokens (resp_Usage (resps ! i)))) \<and>
              GenerationInfo ((g # gs) ! i) ''TotalTokens''
                = Some (AnyInt (TotalTokens (resp_Usage (resps ! i))))"
  proof (intro allI impI)
    fix i assume i: "i < length (p # ps)"
    show "Text ((g # gs) ! i) = choice_Text (hd (resp_Choices (resps ! i))) \<and>
              GenerationInfo ((g # gs) ! i) ''PromptTokens''
                = Some (AnyInt (PromptTokens (resp_Usage (resps ! i)))) \<and>
              GenerationInfo ((g # gs) ! i) ''CompletionTokens''
                = Some (AnyInt (CompletionTokens (resp_Usage (resps ! i)))) \<and>
              GenerationInfo ((g # gs) ! i) ''TotalTokens''
                = Some (AnyInt (TotalTokens (resp_Usage (resps ! i))))"
    proof (cases i)
      case 0
      then show ?thesis using g_props resps by simp
    next
      case (Suc j)
      with i have "j < length ps" by simp
      with gs_props Suc resps show ?thesis by simp
    qed
  qed
  ultimately show ?case by blast
qed

text \<open>
  C5: when the caller gave no streaming function and the provider answers the
  request of every prompt with a response of at least one choice, \<^verbatim>\<open>Generate\<close> returns
  without an error one record per prompt, in the order of the prompts, and the usage
  counters of each record (stored under the keys \<open>PromptTokens\<close>, \<open>CompletionTokens\<close>
  and \<open>TotalTokens\<close>) are those of the response to its prompt; its text is the text of
  the first choice.
\<close>

theorem Generate_nonstreaming_usage:
  assumes "opts = foldl (\<lambda>opts opt. opt opts) CallOptions_zero options"
    and "StreamingFunc opts = None"
    and "length resps = length prompts"
    and "\<forall>i<length prompts.
           CreateCompletion (client llm) (calls w + i)
             ((Generate_request llm opts)\<lparr>req_Prompt := prompts ! i\<rparr>) = Inr (resps ! i) \<and>
           resp_Choices (resps ! i) \<noteq> []"
  shows "\<exists>generations w'.
           Generate llm prompts options w = Some (Returns (generations, None), w') \<and>
           length generations = length prompts \<and>
           (\<forall>i<length prompts.
              Text (generations ! i) = choice_Text (hd (resp_Choices (resps ! i))) \<and>
              GenerationInfo (generations ! i) ''PromptTokens''
                = Some (AnyInt (PromptTokens (resp_Usage (resps ! i)))) \<and>
              GenerationInfo (generations ! i) ''CompletionTokens''
                = Some (AnyInt (CompletionTokens (resp_Usage (resps ! i)))) \<and>
              GenerationInfo (generations ! i) ''TotalTokens''
                = Some (AnyInt (TotalTokens (resp_Usage (resps ! i)))))"
proof -
  have "\<not> req_Stream (Generate_request llm opts)"
    using assms(2) by (simp add: Generate_request_def)
  from Generate_loop_nonstreaming [OF this assms(3) assms(4), of opts "[]"]
  obtain gs where
    "Generate_loop llm opts (Generate_request llm opts) prompts [] w =
       Some (Returns ([] @ gs, None), w\<lparr>calls := calls w + length prompts\<rparr>)"
    and rest: "length gs = length prompts"
      "\<forall>i<length prompts.
              Text (gs ! i) = choice_Text (hd (resp_Choices (resps ! i))) \<and>
              GenerationInfo (gs ! i) ''PromptTokens''
                = Some (AnyInt (PromptTokens (resp_Usage (resps ! i)))) \<and>
              GenerationInfo (gs ! i) ''CompletionTokens''
                = Some (AnyInt (CompletionTokens (resp_Usage (resps ! i)))) \<and>
              GenerationInfo (gs ! i) ''TotalTokens''
                = Some (AnyInt (TotalTokens (resp_Usage (resps ! i))))"
    by blast
  then have "Generate llm prompts options w =
       Some (Returns (gs, None), w\<lparr>calls := calls w + length prompts\<rparr>)"
    using assms(1) by (simp add: Generate_def)
  with rest show ?thesis by blast
qed

theorem Generate_nonstreaming_usage_witness:
  "\<exists>generations w'.
     Generate demo_llm [''ab'', ''c''] [] demo_world = Some (Returns (generations, None), w') \<and>
     length generations = 2 \<and>
     Text (generations ! 0) = ''re: ab'' \<and>
     GenerationInfo (generations ! 0) ''PromptTokens'' = Some (AnyInt 2) \<and>
     GenerationInfo (generations ! 1) ''CompletionTokens'' = Some (AnyInt 5) \<and>
     GenerationInfo (generations ! 1) ''TotalTokens'' = Some (AnyInt 6)"
proof -
  let ?opts = "CallOptions_zero :: nat CallOptions"
  let ?resps = "[\<lparr>resp_Choices = [\<lparr>choice_Text = ''re: ab'', choice_FinishReason = ''stop''\<rparr>],
                  resp_Usage = \<lparr>PromptTokens = 2, CompletionTokens = 4, TotalTokens = 6\<rparr>\<rparr>,
                 \<lparr>resp_Choices = [\<lparr>choice_Text = ''re: c'', choice_FinishReason = ''stop''\<rparr>],
                  resp_Usage = \<lparr>PromptTokens = 1, CompletionTokens = 5, TotalTokens = 6\<rparr>\<rparr>]"
  have 1: "?opts = foldl (\<lambda>opts opt. opt opts) CallOptions_zero []" by simp
  have 2: "StreamingFunc ?opts = None" by (simp add: CallOptions_zero_def)
  have 3: "length ?resps = length [''ab'', ''c'']" by simp
  have 4: "\<forall>i<length [''ab'', ''c''].
           CreateCompletion (client demo_llm) (calls demo_world + i)
             ((Generate_request demo_llm ?opts)\<lparr>req_Prompt := [''ab'', ''c''] ! i\<rparr>)
               = Inr (?resps ! i) \<and>
           resp_Choices (?resps ! i) \<noteq> []"
    by (simp add: All_less_Suc demo_llm_def demo_client_def demo_completion_def demo_world_def)
  from Generate_nonstreaming_usage [OF 1 2 3 4] obtain generations w' where
    a: "Generate demo_llm [''ab'', ''c''] [] demo_world = Some (Returns (generations, None), w')"
    and b: "length generations = length [''ab'', ''c'']"
    and c: "\<forall>i<length [''ab'', ''c''].
              Text (generations ! i) = choice_Text (hd (resp_Choices (?resps ! i))) \<and>
              GenerationInfo (generations ! i) ''PromptTokens''
                = Some (AnyInt (PromptTokens (resp_Usage (?resps ! i)))) \<and>
              GenerationInfo (generations ! i) ''CompletionTokens''
                = Some (AnyInt (CompletionTokens (resp_Usage (?resps ! i)))) \<and>
              GenerationInfo (generations ! i) ''TotalTokens''
                = Some (AnyInt (TotalTokens (resp_Usage (?resps ! i))))"
    by blast
  from c have "Text (generations ! 0) = ''re: ab'' \<and>
     GenerationInfo (generations ! 0) ''PromptTokens'' = Some (AnyInt 2) \<and>
     GenerationInfo (generations ! 1) ''CompletionTokens'' = Some (AnyInt 5) \<and>
     GenerationInfo (generations ! 1) ''TotalTokens'' = Some (AnyInt 6)"
    by (simp add: All_less_Suc)
  with a b show ?thesis by auto
qed

section \<open>The examples, evaluated\<close>

lemmas demo_defs =
  demo_llm_def demo_chat_llm_def demo_client_def demo_completion_def demo_completion_stream_def
  demo_chat_def demo_chat_stream_def demo_delta_def demo_no_choice_def demo_chat_delta_def
  demo_sink_def demo_world_def WithStreamingFunc_def stream_of_def CallOptions_zero_def

lemmas loop_defs =
  createCompletionStream_def createCompletionStream_loop.simps
  createChatCompletionStream_def createChatCompletionStream_loop.simps
  FinishReasonFunctionCall_def

lemmas cut_defs =
  demo_cut_llm_def demo_cut_chat_llm_def demo_cut_client_def demo_cut_completion_stream_def
  demo_cut_chat_stream_def

section \<open>A failing item\<close>

text \<open>
  \<^verbatim>\<open>Generate\<close> returns no record with an error.
\<close>

lemma Generate_loop_error:
  "Generate_loop llm opts request prompts generations w = Some (Returns (rs, Some e), w')
    \<Longrightarrow> rs = []"
proof (induction prompts arbitrary: request generations w)
  case Nil
  then show ?case by simp
next
  case (Cons p ps)
  then show ?case
    by (auto split: if_splits option.splits prod.splits exec.splits sum.splits)
qed

lemma Chat_Generate_loop_error:
  "Chat_Generate_loop chat opts request sets generations w = Some (Returns (rs, Some e), w')
    \<Longrightarrow> rs = []"
proof (induction sets arbitrary: request generations w)
  case Nil
  then show ?case by simp
next
  case (Cons p ps)
  then show ?case
    by (auto split: if_splits option.splits prod.splits exec.splits sum.splits)
qed

text \<open>
  The loop of \<^verbatim>\<open>Generate\<close> over the items \<open>ps\<close>, \<open>p\<close>, \<open>qs\<close>, when processing each item
  of \<open>ps\<close> gives a record and processing \<open>p\<close> gives an error: \<open>ws\<close> lists the states
  in which the items are processed, the item \<open>i\<close> of \<open>ps\<close> in \<open>ws ! i\<close> and \<open>p\<close> in the
  last one. The loop returns the error of \<open>p\<close> and no record, in the state in which
  processing \<open>p\<close> ended.
\<close>

lemma Generate_loop_collector_fails:
  assumes "\<not> req_Stream request"
    and "length ws = Suc (length ps)"
    and "\<forall>i<length ps. \<exists>g.
           createCompletion llm (request\<lparr>req_Prompt := ps ! i\<rparr>) (ws ! i) = (Inr g, ws ! Suc i)"
    and "createCompletion llm (request\<lparr>req_Prompt := p\<rparr>) (ws ! length ps) = (Inl e, w2)"
  shows "Generate_loop llm opts request (ps @ p # qs) generations (ws ! 0)
           = Some (Returns ([], Some e), w2)"
  using assms
proof (induction ps arbitrary: ws generations request)
  case Nil
  then show ?case by simp
next
  case (Cons a ps)
  from Cons.prems(2) obtain w0 ws' where ws: "ws = w0 # ws'" and len: "length ws' = Suc (length ps)"
    by (cases ws) auto
  from Cons.prems(3) have "\<exists>g. createCompletion llm (request\<lparr>req_Prompt := (a # ps) ! 0\<rparr>) (ws ! 0)
           = (Inr g, ws ! Suc 0)"
    by blast
  then obtain g where first:
    "createCompletion llm (request\<lparr>req_Prompt := a\<rparr>) w0 = (Inr g, ws' ! 0)"
    using ws by auto
  have rest: "\<forall>i<length ps. \<exists>g.
      createCompletion llm (request\<lparr>req_Prompt := a\<rparr>\<lparr>req_Prompt := ps ! i\<rparr>) (ws' ! i)
        = (Inr g, ws' ! Suc i)"
  proof (intro allI impI)
    fix i assume "i < length ps"
    then have "Suc i < length (a # ps)" by simp
    with Cons.prems(3) have "\<exists>g. createCompletion llm (request\<lparr>req_Prompt := (a # ps) ! Suc i\<rparr>)
        (ws ! Suc i) = (Inr g, ws ! Suc (Suc i))"
      by blast
    then show "\<exists>g. createCompletion llm (request\<lparr>req_Prompt := a\<rparr>\<lparr>req_Prompt := ps ! i\<rparr>) (ws' ! i)
        = (Inr g, ws' ! Suc i)"
      using ws by simp
  qed
  have last: "createCompletion llm (request\<lparr>req_Prompt := a\<rparr>\<lparr>req_Prompt := p\<rparr>) (ws' ! length ps)
        = (Inl e, w2)"
    using Cons.prems(4) ws by simp
  have stream: "\<not> req_Stream (request\<lparr>req_Prompt := a\<rparr>)"
    using Cons.prems(1) by simp
  from Cons.IH [OF stream len rest last, of "generations @ [g]"] Cons.prems(1) first ws
  show ?case by simp
qed

lemma Generate_loop_stream_fails:
  assumes "req_Stream request"
    and "length ws = Suc (length ps)"
    and "\<forall>i<length ps. \<exists>g.
           createCompletionStream llm (request\<lparr>req_Prompt := ps ! i\<rparr>) opts (ws ! i)
             = Some (Returns (Inr g), ws ! Suc i)"
    and "createCompletionStream llm (request\<lparr>req_Prompt := p\<rparr>) opts (ws ! length ps)
           = Some (Returns (Inl e), w2)"
  shows "Generate_loop llm opts request (ps @ p # qs) generations (ws ! 0)
           = Some (Returns ([], Some e), w2)"
  using assms
proof (induction ps arbitrary: ws generations request)
  case Nil
  then show ?case by simp
next
  case (Cons a ps)
  from Cons.prems(2) obtain w0 ws' where ws: "ws = w0 # ws'" and len: "length ws' = Suc (length ps)"
    by (cases ws) auto
  from Cons.prems(3) have "\<exists>g. createCompletionStream llm (request\<lparr>req_Prompt := (a # ps) ! 0\<rparr>) opts
           (ws ! 0) = Some (Returns (Inr g), ws ! Suc 0)"
    by blast
  then obtain g where first:
    "createCompletionStream llm (request\<lparr>req_Prompt := a\<rparr>) opts w0 = Some (Returns (Inr g), ws' ! 0)"
    using ws by auto
  have rest: "\<forall>i<length ps. \<exists>g.
      createCompletionStream llm (request\<lparr>req_Prompt := a\<rparr>\<lparr>req_Prompt := ps ! i\<rparr>) opts (ws' ! i)
        = Some (Returns (Inr g), ws' ! Suc i)"
  proof (intro allI impI)
    fix i assume "i < length ps"
    then have "Suc i < length (a # ps)" by simp
    with Cons.prems(3) have "\<exists>g. createCompletionStream llm
        (request\<lparr>req_Prompt := (a # ps) ! Suc i\<rparr>) opts
        (ws ! Suc i) = Some (Returns (Inr g), ws ! Suc (Suc i))"
      by blast
    then show "\<exists>g. createCompletionStream llm (request\<lparr>req_Prompt := a\<rparr>\<lparr>req_Prompt := ps ! i\<rparr>) opts
        (ws' ! i) = Some (Returns (Inr g), ws' ! Suc i)"
      using ws by simp
  qed
  have last: "createCompletionStream llm (request\<lparr>req_Prompt := a\<rparr>\<lparr>req_Prompt := p\<rparr>) opts
        (ws' ! length ps) = Some (Returns (Inl e), w2)"
    using Cons.prems(4) ws by simp
  have stream: "req_Stream (request\<lparr>req_Prompt := a\<rparr>)"
    using Cons.prems(1) by simp
  from Cons.IH [OF stream len rest last, of "generations @ [g]"] Cons.prems(1) first ws
  show ?case by simp
qed

lemma Chat_Generate_loop_collector_fails:
  assumes "\<not> chat_req_Stream request"
    and "length ws = Suc (length ms)"
    and "\<forall>i<length ms. \<exists>g.
           createChatCompletion chat (request\<lparr>chat_req_Messages := ms ! i\<rparr>) (ws ! i)
             = (Returns (Inr g), ws ! Suc i)"
    and "createChatCompletion chat (request\<lparr>chat_req_Messages := m\<rparr>) (ws ! length ms)
           = (Returns (Inl e), w2)"
  shows "Chat_Generate_loop chat opts request (ms @ m # ns) generations (ws ! 0)
           = Some (Returns ([], Some e), w2)"
  using assms
proof (induction ms arbitrary: ws generations request)
  case Nil
  then show ?case by simp
next
  case (Cons a ms)
  from Cons.prems(2) obtain w0 ws' where ws: "ws = w0 # ws'" and len: "length ws' = Suc (length ms)"
    by (cases ws) auto
  from Cons.prems(3) have "\<exists>g. createChatCompletion chat
           (request\<lparr>chat_req_Messages := (a # ms) ! 0\<rparr>) (ws ! 0) = (Returns (Inr g), ws ! Suc 0)"
    by blast
  then obtain g where first:
    "createChatCompletion chat (request\<lparr>chat_req_Messages := a\<rparr>) w0 = (Returns (Inr g), ws' ! 0)"
    using ws by auto
  have rest: "\<forall>i<length ms. \<exists>g.
      createChatCompletion chat (request\<lparr>chat_req_Messages := a\<rparr>\<lparr>chat_req_Messages := ms ! i\<rparr>)
        (ws' ! i) = (Returns (Inr g), ws' ! Suc i)"
  proof (intro allI impI)
    fix i assume "i < length ms"
    then have "Suc i < length (a # ms)" by simp
    with Cons.prems(3) have "\<exists>g. createChatCompletion chat
        (request\<lparr>chat_req_Messages := (a # ms) ! Suc i\<rparr>)
        (ws ! Suc i) = (Returns (Inr g), ws ! Suc (Suc i))"
      by blast
    then show "\<exists>g. createChatCompletion chat
        (request\<lparr>chat_req_Messages := a\<rparr>\<lparr>chat_req_Messages := ms ! i\<rparr>)
        (ws' ! i) = (Returns (Inr g), ws' ! Suc i)"
      using ws by simp
  qed
  have last: "createChatCompletion chat (request\<lparr>chat_req_Messages := a\<rparr>\<lparr>chat_req_Messages := m\<rparr>)
        (ws' ! length ms) = (Returns (Inl e), w2)"
    using Cons.prems(4) ws by simp
  have stream: "\<not> chat_req_Stream (request\<lparr>chat_req_Messages := a\<rparr>)"
    using Cons.prems(1) by simp
  from Cons.IH [OF stream len rest last, of "generations @ [g]"] Cons.prems(1) first ws
  show ?case by simp
qed

lemma Chat_Generate_loop_stream_fails:
  assumes "chat_req_Stream request"
    and "length ws = Suc (length ms)"
    and "\<forall>i<length ms. \<exists>g.
           createChatCompletionStream chat (request\<lparr>chat_req_Messages := ms ! i\<rparr>) opts (ws ! i)
             = Some (Returns (Inr g), ws ! Suc i)"
    and "createChatCompletionStream chat (request\<lparr>chat_req_Messages := m\<rparr>) opts (ws ! length ms)
           = Some (Returns (Inl e), w2)"
  shows "Chat_Generate_loop chat opts request (ms @ m # ns) generations (ws ! 0)
           = Some (Returns ([], Some e), w2)"
  using assms
proof (induction ms arbitrary: ws generations request)
  case Nil
  then show ?case by simp
next
  case (Cons a ms)
  from Cons.prems(2) obtain w0 ws' where ws: "ws = w0 # ws'" and len: "length ws' = Suc (length ms)"
    by (cases ws) auto
  from Cons.prems(3) have "\<exists>g. createChatCompletionStream chat
           (request\<lparr>chat_req_Messages := (a # ms) ! 0\<rparr>) opts (ws ! 0)
             = Some (Returns (Inr g), ws ! Suc 0)"
    by blast
  then obtain g where first:
    "createChatCompletionStream chat (request\<lparr>chat_req_Messages := a\<rparr>) opts w0
       = Some (Returns (Inr g), ws' ! 0)"
    using ws by auto
  have rest: "\<forall>i<length ms. \<exists>g.
      createChatCompletionStream chat (request\<lparr>chat_req_Messages := a\<rparr>\<lparr>chat_req_Messages := ms ! i\<rparr>)
        opts (ws' ! i) = Some (Returns (Inr g), ws' ! Suc i)"
  proof (intro allI impI)
    fix i assume "i < length ms"
    then have "Suc i < length (a # ms)" by simp
    with Cons.prems(3) have "\<exists>g. createChatCompletionStream chat
        (request\<lparr>chat_req_Messages := (a # ms) ! Suc i\<rparr>) opts
        (ws ! Suc i) = Some (Returns (Inr g), ws ! Suc (Suc i))"
      by blast
    then show "\<exists>g. createChatCompletionStream chat
        (request\<lparr>chat_req_Messages := a\<rparr>\<lparr>chat_req_Messages := ms ! i\<rparr>) opts
        (ws' ! i) = Some (Returns (Inr g), ws' ! Suc i)"
      using ws by simp
  qed
  have last: "createChatCompletionStream chat
        (request\<lparr>chat_req_Messages := a\<rparr>\<lparr>chat_req_Messages := m\<rparr>) opts
        (ws' ! length ms) = Some (Returns (Inl e), w2)"
    using Cons.prems(4) ws by simp
  have stream: "chat_req_Stream (request\<lparr>chat_req_Messages := a\<rparr>)"
    using Cons.prems(1) by simp
  from Cons.IH [OF stream len rest last, of "generations @ [g]"] Cons.prems(1) first ws
  show ?case by simp
qed

text \<open>The streaming flag of the request of \<^verbatim>\<open>Chat.Generate\<close>.\<close>

lemma Chat_Generate_request_fold_Stream:
  "chat_req_Stream
     (foldl (\<lambda>request fn.
         request\<lparr>chat_req_Functions := chat_req_Functions request @
                    [\<lparr>fn_Name = fn_Name fn, fn_Description = fn_Description fn,
                      fn_Parameters = fn_Parameters fn\<rparr>],
                 chat_req_FunctionCall := Some FunctionCallBehaviorAuto\<rparr>) r fs)
     = chat_req_Stream r"
  by (induction fs arbitrary: r) simp_all

lemma Chat_Generate_request_Stream:
  "chat_req_Stream (Chat_Generate_request chat opts) = (StreamingFunc opts \<noteq> None)"
  by (simp add: Chat_Generate_request_def Chat_Generate_request_fold_Stream split: option.splits)

text \<open>The same for the calls of \<^verbatim>\<open>Generate\<close> and \<^verbatim>\<open>Chat.Generate\<close>.\<close>

lemma Generate_collector_fails:
  assumes "opts = foldl (\<lambda>opts opt. opt opts) CallOptions_zero options"
    and "StreamingFunc opts = None"
    and "length ws = Suc (length ps)"
    and "ws ! 0 = w"
    and "\<forall>i<length ps. \<exists>g.
       createCompletion llm ((Generate_request llm opts)\<lparr>req_Prompt := ps ! i\<rparr>) (ws ! i)
         = (Inr g, ws ! Suc i)"
    and "createCompletion llm ((Generate_request llm opts)\<lparr>req_Prompt := p\<rparr>) (ws ! length ps)
      = (Inl e, w2)"
  shows "Generate llm (ps @ p # qs) options w = Some (Returns ([], Some e), w2)"
proof -
  have "\<not> req_Stream (Generate_request llm opts)"
    using assms(2) by (simp add: Generate_request_def)
  from Generate_loop_collector_fails [OF this assms(3) assms(5) assms(6), of opts qs "[]"]
  show ?thesis
    using assms(1) assms(4) by (simp add: Generate_def Let_def)
qed

lemma Generate_stream_fails:
  assumes "opts = foldl (\<lambda>opts opt. opt opts) CallOptions_zero options"
    and "StreamingFunc opts \<noteq> None"
    and "length ws = Suc (length ps)"
    and "ws ! 0 = w"
    and "\<forall>i<length ps. \<exists>g.
       createCompletionStream llm ((Generate_request llm opts)\<lparr>req_Prompt := ps ! i\<rparr>) opts
         (ws ! i) = Some (Returns (Inr g), ws ! Suc i)"
    and "createCompletionStream llm ((Generate_request llm opts)\<lparr>req_Prompt := p\<rparr>) opts
      (ws ! length ps) = Some (Returns (Inl e), w2)"
  shows "Generate llm (ps @ p # qs) options w = Some (Returns ([], Some e), w2)"
proof -
  have "req_Stream (Generate_request llm opts)"
    using assms(2) by (auto simp: Generate_request_def)
  from Generate_loop_stream_fails [OF this assms(3) assms(5) assms(6), of qs "[]"]
  show ?thesis
    using assms(1) assms(4) by (simp add: Generate_def Let_def)
qed

lemma Chat_Generate_collector_fails:
  assumes "chat_opts = foldl (\<lambda>opts opt. opt opts)
                         (CallOptions_zero\<lparr>MaxTokens := defaultMaxTokens\<rparr>) options"
    and "StreamingFunc chat_opts = None"
    and "length ws = Suc (length ms)"
    and "ws ! 0 = w"
    and "\<forall>i<length ms. \<exists>g.
       createChatCompletion chat
         ((Chat_Generate_request chat chat_opts)
            \<lparr>chat_req_Messages := map Chat_Generate_message (ms ! i)\<rparr>) (ws ! i)
         = (Returns (Inr g), ws ! Suc i)"
    and "createChatCompletion chat
      ((Chat_Generate_request chat chat_opts)\<lparr>chat_req_Messages := map Chat_Generate_message m\<rparr>)
      (ws ! length ms) = (Returns (Inl e), w2)"
  shows "Chat_Generate chat (ms @ m # ns) options w = Some (Returns ([], Some e), w2)"
proof -
  let ?tr = "map (map Chat_Generate_message)"
  have s: "\<not> chat_req_Stream (Chat_Generate_request chat chat_opts)"
    using assms(2) by (simp add: Chat_Generate_request_Stream)
  have len: "length ws = Suc (length (?tr ms))" using assms(3) by simp
  have items: "\<forall>i<length (?tr ms). \<exists>g.
       createChatCompletion chat
         ((Chat_Generate_request chat chat_opts)\<lparr>chat_req_Messages := ?tr ms ! i\<rparr>) (ws ! i)
         = (Returns (Inr g), ws ! Suc i)"
    using assms(5) by simp
  have last: "createChatCompletion chat
      ((Chat_Generate_request chat chat_opts)\<lparr>chat_req_Messages := map Chat_Generate_message m\<rparr>)
      (ws ! length (?tr ms)) = (Returns (Inl e), w2)"
    using assms(6) by simp
  from Chat_Generate_loop_collector_fails [OF s len items last, of chat_opts "?tr ns" "[]"]
  show ?thesis
    using assms(1) assms(4) by (simp add: Chat_Generate_def Let_def)
qed

lemma Chat_Generate_stream_fails:
  assumes "chat_opts = foldl (\<lambda>opts opt. opt opts)
                         (CallOptions_zero\<lparr>MaxTokens := defaultMaxTokens\<rparr>) options"
    and "StreamingFunc chat_opts \<noteq> None"
    and "length ws = Suc (length ms)"
    and "ws ! 0 = w"
    and "\<forall>i<length ms. \<exists>g.
       createChatCompletionStream chat
         ((Chat_Generate_request chat chat_opts)
            \<lparr>chat_req_Messages := map Chat_Generate_message (ms ! i)\<rparr>) chat_opts (ws ! i)
         = Some (Returns (Inr g), ws ! Suc i)"
    and "createChatCompletionStream chat
      ((Chat_Generate_request chat chat_opts)\<lparr>chat_req_Messages := map Chat_Generate_message m\<rparr>)
      chat_opts (ws ! length ms) = Some (Returns (Inl e), w2)"
  shows "Chat_Generate chat (ms @ m # ns) options w = Some (Returns ([], Some e), w2)"
proof -
  let ?tr = "map (map Chat_Generate_message)"
  have s: "chat_req_Stream (Chat_Generate_request chat chat_opts)"
    using assms(2) by (simp add: Chat_Generate_request_Stream)
  have len: "length ws = Suc (length (?tr ms))" using assms(3) by simp
  have items: "\<forall>i<length (?tr ms). \<exists>g.
       createChatCompletionStream chat
         ((Chat_Generate_request chat chat_opts)\<lparr>chat_req_Messages := ?tr ms ! i\<rparr>) chat_opts
         (ws ! i) = Some (Returns (Inr g), ws ! Suc i)"
    using assms(5) by simp
  have last: "createChatCompletionStream chat
      ((Chat_Generate_request chat chat_opts)\<lparr>chat_req_Messages := map Chat_Generate_message m\<rparr>)
      chat_opts (ws ! length (?tr ms)) = Some (Returns (Inl e), w2)"
    using assms(6) by simp
  from Chat_Generate_loop_stream_fails [OF s len items last, of "?tr ns" "[]"]
  show ?thesis
    using assms(1) assms(4) by (simp add: Chat_Generate_def Let_def)
qed

text \<open>
  A run of the loop of a streaming call over deltas that each have a choice and whose
  chunks the streaming function accepts: \<open>ss\<close> lists the states of the sink, before
  the first chunk and after each. The loop goes on after them, with the chunks
  delivered.
\<close>

lemma createCompletionStream_loop_accepts:
  assumes "StreamingFunc opts = Some f"
    and "length ss = Suc (length ds)"
    and "ss ! 0 = sink w"
    and "\<forall>j<length ds. stream (i + j) = RecvOK (ds ! j) \<and> resp_Choices (ds ! j) \<noteq> [] \<and>
           f (ss ! j) (first_Text (ds ! j)) = (None, ss ! Suc j)"
  shows "\<exists>out' fr'. createCompletionStream_loop stream opts i out fr w =
           createCompletionStream_loop stream opts (i + length ds) out' fr'
             (w\<lparr>sink := ss ! length ds, delivered := delivered w @ map first_Text ds\<rparr>)"
  using assms
proof (induction ds arbitrary: i out fr w ss)
  case Nil
  then have "w\<lparr>sink := ss ! length ([] :: CompletionResponse list),
               delivered := delivered w @ map first_Text []\<rparr> = w"
    by simp
  then show ?case by auto
next
  case (Cons d ds)
  from Cons.prems(2) obtain s0 ss' where ss: "ss = s0 # ss'" and len: "length ss' = Suc (length ds)"
    by (cases ss) auto
  from Cons.prems(4) have "stream (i + 0) = RecvOK ((d # ds) ! 0) \<and>
      resp_Choices ((d # ds) ! 0) \<noteq> [] \<and>
      f (ss ! 0) (first_Text ((d # ds) ! 0)) = (None, ss ! Suc 0)"
    by blast
  then have d: "stream i = RecvOK d" "resp_Choices d \<noteq> []"
    "f (sink w) (first_Text d) = (None, ss' ! 0)"
    using ss Cons.prems(3) by simp_all
  from d(2) obtain c cs where c: "resp_Choices d = c # cs"
    by (cases "resp_Choices d") auto
  let ?w = "w\<lparr>sink := ss' ! 0, delivered := delivered w @ [choice_Text c]\<rparr>"
  have step: "createCompletionStream_loop stream opts i out fr w =
      createCompletionStream_loop stream opts (i + 1) (out @ choice_Text c) (choice_FinishReason c) ?w"
    using d c Cons.prems(1)
    by (subst createCompletionStream_loop.simps) (simp add: first_Text_def)
  have rest: "\<forall>j<length ds. stream ((i + 1) + j) = RecvOK (ds ! j) \<and> resp_Choices (ds ! j) \<noteq> [] \<and>
           f (ss' ! j) (first_Text (ds ! j)) = (None, ss' ! Suc j)"
  proof (intro allI impI)
    fix j assume "j < length ds"
    then have "Suc j < length (d # ds)" by simp
    with Cons.prems(4) have "stream (i + Suc j) = RecvOK ((d # ds) ! Suc j) \<and>
        resp_Choices ((d # ds) ! Suc j) \<noteq> [] \<and>
        f (ss ! Suc j) (first_Text ((d # ds) ! Suc j)) = (None, ss ! Suc (Suc j))"
      by blast
    then show "stream ((i + 1) + j) = RecvOK (ds ! j) \<and> resp_Choices (ds ! j) \<noteq> [] \<and>
           f (ss' ! j) (first_Text (ds ! j)) = (None, ss' ! Suc j)"
      using ss by simp
  qed
  have s0: "ss' ! 0 = sink ?w" by simp
  from Cons.IH [OF Cons.prems(1) len s0 rest, of "out @ choice_Text c" "choice_FinishReason c"]
  obtain out' fr' where
    "createCompletionStream_loop stream opts (i + 1) (out @ choice_Text c) (choice_FinishReason c) ?w
      = createCompletionStream_loop stream opts (i + 1 + length ds) out' fr'
          (?w\<lparr>sink := ss' ! length ds, delivered := delivered ?w @ map first_Text ds\<rparr>)"
    by blast
  with step have "createCompletionStream_loop stream opts i out fr w
      = createCompletionStream_loop stream opts (i + length (d # ds)) out' fr'
          (w\<lparr>sink := ss ! length (d # ds),
             delivered := delivered w @ map first_Text (d # ds)\<rparr>)"
    using ss c by (simp add: first_Text_def)
  then show ?case by blast
qed

lemma createChatCompletionStream_loop_accepts:
  assumes "StreamingFunc opts = Some f"
    and "length ss = Suc (length ds)"
    and "ss ! 0 = sink w"
    and "\<forall>j<length ds. \<exists>c cs. stream (i + j) = RecvOK (ds ! j) \<and>
           stream_resp_Choices (ds ! j) = c # cs \<and>
           f (ss ! j) (delta_Content (stream_choice_Delta c)) = (None, ss ! Suc j) \<and>
           (stream_choice_FinishReason c = FinishReasonFunctionCall \<longrightarrow>
              delta_FunctionCall (stream_choice_Delta c) \<noteq> None)"
  shows "\<exists>out' fr' fc'. createChatCompletionStream_loop stream opts i out fr fc w =
           createChatCompletionStream_loop stream opts (i + length ds) out' fr' fc'
             (w\<lparr>sink := ss ! length ds, delivered := delivered w @ map first_Content ds\<rparr>)"
  using assms
proof (induction ds arbitrary: i out fr fc w ss)
  case Nil
  then have "w\<lparr>sink := ss ! length ([] :: ChatCompletionStreamResponse list),
               delivered := delivered w @ map first_Content []\<rparr> = w"
    by simp
  then show ?case by auto
next
  case (Cons d ds)
  from Cons.prems(2) obtain s0 ss' where ss: "ss = s0 # ss'" and len: "length ss' = Suc (length ds)"
    by (cases ss) auto
  from Cons.prems(4) have "\<exists>c cs. stream (i + 0) = RecvOK ((d # ds) ! 0) \<and>
      stream_resp_Choices ((d # ds) ! 0) = c # cs \<and>
      f (ss ! 0) (delta_Content (stream_choice_Delta c)) = (None, ss ! Suc 0) \<and>
      (stream_choice_FinishReason c = FinishReasonFunctionCall \<longrightarrow>
         delta_FunctionCall (stream_choice_Delta c) \<noteq> None)"
    by blast
  then obtain c cs where d: "stream i = RecvOK d" and c: "stream_resp_Choices d = c # cs"
    and acc: "f (sink w) (delta_Content (stream_choice_Delta c)) = (None, ss' ! 0)"
    and fc: "stream_choice_FinishReason c = FinishReasonFunctionCall \<longrightarrow>
         delta_FunctionCall (stream_choice_Delta c) \<noteq> None"
    using ss Cons.prems(3) by auto
  let ?w = "w\<lparr>sink := ss' ! 0,
              delivered := delivered w @ [delta_Content (stream_choice_Delta c)]\<rparr>"
  have step: "\<exists>fc1. createChatCompletionStream_loop stream opts i out fr fc w =
      createChatCompletionStream_loop stream opts (i + 1)
        (out @ delta_Content (stream_choice_Delta c)) (stream_choice_FinishReason c) fc1 ?w"
  proof (cases "stream_choice_FinishReason c = FinishReasonFunctionCall")
    case True
    with fc obtain x where "delta_FunctionCall (stream_choice_Delta c) = Some x" by auto
    with True d c acc Cons.prems(1) show ?thesis
      by (subst createChatCompletionStream_loop.simps) auto
  next
    case False
    with d c acc Cons.prems(1) show ?thesis
      by (subst createChatCompletionStream_loop.simps) auto
  qed
  then obtain fc1 where step1: "createChatCompletionStream_loop stream opts i out fr fc w =
      createChatCompletionStream_loop stream opts (i + 1)
        (out @ delta_Content (stream_choice_Delta c)) (stream_choice_FinishReason c) fc1 ?w"
    by blast
  have rest: "\<forall>j<length ds. \<exists>c cs. stream ((i + 1) + j) = RecvOK (ds ! j) \<and>
           stream_resp_Choices (ds ! j) = c # cs \<and>
           f (ss' ! j) (delta_Content (stream_choice_Delta c)) = (None, ss' ! Suc j) \<and>
           (stream_choice_FinishReason c = FinishReasonFunctionCall \<longrightarrow>
              delta_FunctionCall (stream_choice_Delta c) \<noteq> None)"
  proof (intro allI impI)
    fix j assume "j < length ds"
    then have "Suc j < length (d # ds)" by simp
    with Cons.prems(4) have "\<exists>c cs. stream (i + Suc j) = RecvOK ((d # ds) ! Suc j) \<and>
        stream_resp_Choices ((d # ds) ! Suc j) = c # cs \<and>
        f (ss ! Suc j) (delta_Content (stream_choice_Delta c)) = (None, ss ! Suc (Suc j)) \<and>
        (stream_choice_FinishReason c = FinishReasonFunctionCall \<longrightarrow>
           delta_FunctionCall (stream_choice_Delta c) \<noteq> None)"
      by blast
    then show "\<exists>c cs. stream ((i + 1) + j) = RecvOK (ds ! j) \<and>
           stream_resp_Choices (ds ! j) = c # cs \<and>
           f (ss' ! j) (delta_Content (stream_choice_Delta c)) = (None, ss' ! Suc j) \<and>
           (stream_choice_FinishReason c = FinishReasonFunctionCall \<longrightarrow>
              delta_FunctionCall (stream_choice_Delta c) \<noteq> None)"
      using ss by simp
  qed
  have s0: "ss' ! 0 = sink ?w" by simp
  from Cons.IH [OF Cons.prems(1) len s0 rest,
      of "out @ delta_Content (stream_choice_Delta c)" "stream_choice_FinishReason c" fc1]
  obtain out' fr' fc' where
    "createChatCompletionStream_loop stream opts (i + 1)
        (out @ delta_Content (stream_choice_Delta c)) (stream_choice_FinishReason c) fc1 ?w
      = createChatCompletionStream_loop stream opts (i + 1 + length ds) out' fr' fc'
          (?w\<lparr>sink := ss' ! length ds, delivered := delivered ?w @ map first_Content ds\<rparr>)"
    by blast
  with step1 have "createChatCompletionStream_loop stream opts i out fr fc w
      = createChatCompletionStream_loop stream opts (i + length (d # ds)) out' fr' fc'
          (w\<lparr>sink := ss ! length (d # ds),
             delivered := delivered w @ map first_Content (d # ds)\<rparr>)"
    using ss c by (simp add: first_Content_def)
  then show ?case by blast
qed

text \<open>
  So a streaming call whose stream, after such deltas, gives an error, a delta without
  a choice or a delta that the streaming function refuses returns that error, in the
  state with one more request and with the chunks delivered up to there.
\<close>

lemma createCompletionStream_fails:
  assumes "StreamingFunc opts = Some f"
    and "CreateCompletionStream (client llm) (calls w) request = Inr stream"
    and "length ss = Suc (length ds)"
    and "ss ! 0 = sink w"
    and "\<forall>j<length ds. stream j = RecvOK (ds ! j) \<and> resp_Choices (ds ! j) \<noteq> [] \<and>
           f (ss ! j) (first_Text (ds ! j)) = (None, ss ! Suc j)"
  shows "(stream (length ds) = RecvErr msg \<longrightarrow>
            createCompletionStream llm request opts w
              = Some (Returns (Inl (ClientError msg)),
                  w\<lparr>calls := calls w + 1, sink := ss ! length ds,
                    delivered := delivered w @ map first_Text ds\<rparr>)) \<and>
         (stream (length ds) = RecvOK resp \<and> resp_Choices resp = [] \<longrightarrow>
            createCompletionStream llm request opts w
              = Some (Returns (Inl ErrEmptyResponse),
                  w\<lparr>calls := calls w + 1, sink := ss ! length ds,
                    delivered := delivered w @ map first_Text ds\<rparr>)) \<and>
         (stream (length ds) = RecvOK resp \<and> resp_Choices resp \<noteq> [] \<and>
          f (ss ! length ds) (first_Text resp) = (Some err, s') \<longrightarrow>
            createCompletionStream llm request opts w
              = Some (Returns (Inl err),
                  w\<lparr>calls := calls w + 1, sink := s',
                    delivered := delivered w @ map first_Text ds @ [first_Text resp]\<rparr>))"
proof -
  let ?w = "w\<lparr>calls := calls w + 1\<rparr>"
  let ?w' = "?w\<lparr>sink := ss ! length ds, delivered := delivered ?w @ map first_Text ds\<rparr>"
  have s0: "ss ! 0 = sink ?w" using assms(4) by simp
  have pre: "\<forall>j<length ds. stream (0 + j) = RecvOK (ds ! j) \<and> resp_Choices (ds ! j) \<noteq> [] \<and>
           f (ss ! j) (first_Text (ds ! j)) = (None, ss ! Suc j)"
    using assms(5) by simp
  from createCompletionStream_loop_accepts [OF assms(1) assms(3) s0 pre, of "[]" "[]"]
  obtain out' fr' where run: "createCompletionStream_loop stream opts 0 [] [] ?w
      = createCompletionStream_loop stream opts (length ds) out' fr' ?w'"
    by auto
  have start: "createCompletionStream llm request opts w
      = createCompletionStream_loop stream opts (length ds) out' fr' ?w'"
    using assms(2) run by (simp add: createCompletionStream_def)
  show ?thesis
  proof (intro conjI impI)
    assume "stream (length ds) = RecvErr msg"
    then have "createCompletionStream_loop stream opts (length ds) out' fr' ?w'
        = Some (Returns (Inl (ClientError msg)), ?w')"
      by (subst createCompletionStream_loop.simps) simp
    with start show "createCompletionStream llm request opts w
              = Some (Returns (Inl (ClientError msg)),
                  w\<lparr>calls := calls w + 1, sink := ss ! length ds,
                    delivered := delivered w @ map first_Text ds\<rparr>)"
      by simp
  next
    assume "stream (length ds) = RecvOK resp \<and> resp_Choices resp = []"
    then have "createCompletionStream_loop stream opts (length ds) out' fr' ?w'
        = Some (Returns (Inl ErrEmptyResponse), ?w')"
      by (subst createCompletionStream_loop.simps) simp
    with start show "createCompletionStream llm request opts w
              = Some (Returns (Inl ErrEmptyResponse),
                  w\<lparr>calls := calls w + 1, sink := ss ! length ds,
                    delivered := delivered w @ map first_Text ds\<rparr>)"
      by simp
  next
    assume h: "stream (length ds) = RecvOK resp \<and> resp_Choices resp \<noteq> [] \<and>
          f (ss ! length ds) (first_Text resp) = (Some err, s')"
    then obtain c cs where c: "resp_Choices resp = c # cs"
      by (cases "resp_Choices resp") auto
    with h assms(1) have "createCompletionStream_loop stream opts (length ds) out' fr' ?w'
        = Some (Returns (Inl err),
            ?w'\<lparr>sink := s', delivered := delivered ?w' @ [choice_Text c]\<rparr>)"
      by (subst createCompletionStream_loop.simps) (simp add: first_Text_def)
    with start c show "createCompletionStream llm request opts w
              = Some (Returns (Inl err),
                  w\<lparr>calls := calls w + 1, sink := s',
                    delivered := delivered w @ map first_Text ds @ [first_Text resp]\<rparr>)"
      by (simp add: first_Text_def)
  qed
qed

lemma createChatCompletionStream_fails:
  assumes "StreamingFunc opts = Some f"
    and "CreateChatCompletionStream (chat_client chat) (calls w) request = Inr stream"
    and "length ss = Suc (length ds)"
    and "ss ! 0 = sink w"
    and "\<forall>j<length ds. \<exists>c cs. stream j = RecvOK (ds ! j) \<and>
           stream_resp_Choices (ds ! j) = c # cs \<and>
           f (ss ! j) (delta_Content (stream_choice_Delta c)) = (None, ss ! Suc j) \<and>
           (stream_choice_FinishReason c = FinishReasonFunctionCall \<longrightarrow>
              delta_FunctionCall (stream_choice_Delta c) \<noteq> None)"
  shows "(stream (length ds) = RecvErr msg \<longrightarrow>
            createChatCompletionStream chat request opts w
              = Some (Returns (Inl (ClientError msg)),
                  w\<lparr>calls := calls w + 1, sink := ss ! length ds,
                    delivered := delivered w @ map first_Content ds\<rparr>)) \<and>
         (stream (length ds) = RecvOK resp \<and> stream_resp_Choices resp = [] \<longrightarrow>
            createChatCompletionStream chat request opts w
              = Some (Returns (Inl ErrEmptyResponse),
                  w\<lparr>calls := calls w + 1, sink := ss ! length ds,
                    delivered := delivered w @ map first_Content ds\<rparr>)) \<and>
         (stream (length ds) = RecvOK resp \<and> stream_resp_Choices resp \<noteq> [] \<and>
          f (ss ! length ds) (first_Content resp) = (Some err, s') \<longrightarrow>
            createChatCompletionStream chat request opts w
              = Some (Returns (Inl err),
                  w\<lparr>calls := calls w + 1, sink := s',
                    delivered := delivered w @ map first_Content ds @ [first_Content resp]\<rparr>))"
proof -
  let ?w = "w\<lparr>calls := calls w + 1\<rparr>"
  let ?w' = "?w\<lparr>sink := ss ! length ds, delivered := delivered ?w @ map first_Content ds\<rparr>"
  have s0: "ss ! 0 = sink ?w" using assms(4) by simp
  have pre: "\<forall>j<length ds. \<exists>c cs. stream (0 + j) = RecvOK (ds ! j) \<and>
           stream_resp_Choices (ds ! j) = c # cs \<and>
           f (ss ! j) (delta_Content (stream_choice_Delta c)) = (None, ss ! Suc j) \<and>
           (stream_choice_FinishReason c = FinishReasonFunctionCall \<longrightarrow>
              delta_FunctionCall (stream_choice_Delta c) \<noteq> None)"
    using assms(5) by simp
  from createChatCompletionStream_loop_accepts [OF assms(1) assms(3) s0 pre, of "[]" "[]" None]
  obtain out' fr' fc' where run: "createChatCompletionStream_loop stream opts 0 [] [] None ?w
      = createChatCompletionStream_loop stream opts (length ds) out' fr' fc' ?w'"
    by auto
  have start: "createChatCompletionStream chat request opts w
      = createChatCompletionStream_loop stream opts (length ds) out' fr' fc' ?w'"
    using assms(2) run by (simp add: createChatCompletionStream_def)
  show ?thesis
  proof (intro conjI impI)
    assume "stream (length ds) = RecvErr msg"
    then have "createChatCompletionStream_loop stream opts (length ds) out' fr' fc' ?w'
        = Some (Returns (Inl (ClientError msg)), ?w')"
      by (subst createChatCompletionStream_loop.simps) simp
    with start show "createChatCompletionStream chat request opts w
              = Some (Returns (Inl (ClientError msg)),
                  w\<lparr>calls := calls w + 1, sink := ss ! length ds,
                    delivered := delivered w @ map first_Content ds\<rparr>)"
      by simp
  next
    assume "stream (length ds) = RecvOK resp \<and> stream_resp_Choices resp = []"
    then have "createChatCompletionStream_loop stream opts (length ds) out' fr' fc' ?w'
        = Some (Returns (Inl ErrEmptyResponse), ?w')"
      by (subst createChatCompletionStream_loop.simps) simp
    with start show "createChatCompletionStream chat request opts w
              = Some (Returns (Inl ErrEmptyResponse),
                  w\<lparr>calls := calls w + 1, sink := ss ! length ds,
                    delivered := delivered w @ map first_Content ds\<rparr>)"
      by simp
  next
    assume h: "stream (length ds) = RecvOK resp \<and> stream_resp_Choices resp \<noteq> [] \<and>
          f (ss ! length ds) (first_Content resp) = (Some err, s')"
    then obtain c cs where c: "stream_resp_Choices resp = c # cs"
      by (cases "stream_resp_Choices resp") auto
    with h assms(1) have "createChatCompletionStream_loop stream opts (length ds) out' fr' fc' ?w'
        = Some (Returns (Inl err),
            ?w'\<lparr>sink := s',
               delivered := delivered ?w' @ [delta_Content (stream_choice_Delta c)]\<rparr>)"
      by (subst createChatCompletionStream_loop.simps) (simp add: first_Content_def)
    with start c show "createChatCompletionStream chat request opts w
              = Some (Returns (Inl err),
                  w\<lparr>calls := calls w + 1, sink := s',
                    delivered := delivered w @ map first_Content ds @ [first_Content resp]\<rparr>)"
      by (simp add: first_Content_def)
  qed
qed

text \<open>
  C2: a call of \<^verbatim>\<open>Generate\<close> (of \<^verbatim>\<open>LLM\<close> and of \<^verbatim>\<open>Chat\<close>) that returns an error returns
  no record with it. And when processing an item fails, the call returns no record
  and that item's error.

  Processing an item is the call of \<^verbatim>\<open>createCompletion\<close> or, with a streaming
  function, of \<^verbatim>\<open>createCompletionStream\<close> (for \<^verbatim>\<open>Chat\<close>, of \<^verbatim>\<open>createChatCompletion\<close> or
  \<^verbatim>\<open>createChatCompletionStream\<close>) on the request with the item put in. Let the items
  \<open>ps\<close> come before the item \<open>p\<close>, and let \<open>ws\<close> list the states in which they are
  processed, starting with the state of the call: processing the item \<open>i\<close> of \<open>ps\<close> in
  the state \<open>ws ! i\<close> gives a record and leaves the state \<open>ws ! Suc i\<close>, and processing
  \<open>p\<close> in the last of these states gives the error \<open>e\<close> and leaves the state \<open>w2\<close>. Then
  the call over \<open>ps\<close>, \<open>p\<close> and any further items \<open>qs\<close> returns no record and the error
  \<open>e\<close>: the records of the earlier items are not returned, and the later items are not
  processed, since the call ends in \<open>w2\<close>.

  And processing an item in a state \<open>w1\<close> gives an error in each of these cases: the
  provider answers the request, or the request for a stream, with an error; the
  provider's response has no choice; or the provider's stream, after deltas that each
  have a choice and whose chunks the streaming function accepts one after the other
  (\<open>ss\<close> lists the states of the sink; for \<^verbatim>\<open>Chat\<close>, a delta with the finish reason of
  a function call carries one), gives an error, a delta without a choice, or a delta
  whose chunk the streaming function refuses. The error is the provider's or the
  stream's, \<^verbatim>\<open>ErrEmptyResponse\<close>, or the streaming function's, and the state left is
  \<open>w1\<close> with one more request and with the chunks delivered up to there.
\<close>

theorem Generate_failure_returns_no_records:
  assumes "opts = foldl (\<lambda>opts opt. opt opts) CallOptions_zero options"
    and "chat_opts = foldl (\<lambda>opts opt. opt opts)
                       (CallOptions_zero\<lparr>MaxTokens := defaultMaxTokens\<rparr>) options"
  shows
  "(Generate llm prompts options w = Some (Returns (rs, Some err), w') \<longrightarrow> rs = []) \<and>
   (Chat_Generate chat messageSets options w = Some (Returns (rs, Some err), w') \<longrightarrow> rs = []) \<and>
   (StreamingFunc opts = None \<and> length ws = Suc (length ps) \<and> ws ! 0 = w \<and>
    (\<forall>i<length ps. \<exists>g.
       createCompletion llm ((Generate_request llm opts)\<lparr>req_Prompt := ps ! i\<rparr>) (ws ! i)
         = (Inr g, ws ! Suc i)) \<and>
    createCompletion llm ((Generate_request llm opts)\<lparr>req_Prompt := p\<rparr>) (ws ! length ps)
      = (Inl e, w2) \<longrightarrow>
      Generate llm (ps @ p # qs) options w = Some (Returns ([], Some e), w2)) \<and>
   (StreamingFunc opts \<noteq> None \<and> length ws = Suc (length ps) \<and> ws ! 0 = w \<and>
    (\<forall>i<length ps. \<exists>g.
       createCompletionStream llm ((Generate_request llm opts)\<lparr>req_Prompt := ps ! i\<rparr>) opts
         (ws ! i) = Some (Returns (Inr g), ws ! Suc i)) \<and>
    createCompletionStream llm ((Generate_request llm opts)\<lparr>req_Prompt := p\<rparr>) opts
      (ws ! length ps) = Some (Returns (Inl e), w2) \<longrightarrow>
      Generate llm (ps @ p # qs) options w = Some (Returns ([], Some e), w2)) \<and>
   (StreamingFunc chat_opts = None \<and> length ws = Suc (length ms) \<and> ws ! 0 = w \<and>
    (\<forall>i<length ms. \<exists>g.
       createChatCompletion chat
         ((Chat_Generate_request chat chat_opts)
            \<lparr>chat_req_Messages := map Chat_Generate_message (ms ! i)\<rparr>) (ws ! i)
         = (Returns (Inr g), ws ! Suc i)) \<and>
    createChatCompletion chat
      ((Chat_Generate_request chat chat_opts)\<lparr>chat_req_Messages := map Chat_Generate_message m\<rparr>)
      (ws ! length ms) = (Returns (Inl e), w2) \<longrightarrow>
      Chat_Generate chat (ms @ m # ns) options w = Some (Returns ([], Some e), w2)) \<and>
   (StreamingFunc chat_opts \<noteq> None \<and> length ws = Suc (length ms) \<and> ws ! 0 = w \<and>
    (\<forall>i<length ms. \<exists>g.
       createChatCompletionStream chat
         ((Chat_Generate_request chat chat_opts)
            \<lparr>chat_req_Messages := map Chat_Generate_message (ms ! i)\<rparr>) chat_opts (ws ! i)
         = Some (Returns (Inr g), ws ! Suc i)) \<and>
    createChatCompletionStream chat
      ((Chat_Generate_request chat chat_opts)\<lparr>chat_req_Messages := map Chat_Generate_message m\<rparr>)
      chat_opts (ws ! length ms) = Some (Returns (Inl e), w2) \<longrightarrow>
      Chat_Generate chat (ms @ m # ns) options w = Some (Returns ([], Some e), w2)) \<and>
   (CreateCompletion (client llm) (calls w1) request = Inl msg \<longrightarrow>
      createCompletion llm request w1 = (Inl (ClientError msg), w1\<lparr>calls := calls w1 + 1\<rparr>)) \<and>
   (CreateCompletion (client llm) (calls w1) request = Inr resp \<and> resp_Choices resp = [] \<longrightarrow>
      createCompletion llm request w1 = (Inl ErrEmptyResponse, w1\<lparr>calls := calls w1 + 1\<rparr>)) \<and>
   (CreateCompletionStream (client llm) (calls w1) request = Inl msg \<longrightarrow>
      createCompletionStream llm request opts w1
        = Some (Returns (Inl (ClientError msg)), w1\<lparr>calls := calls w1 + 1\<rparr>)) \<and>
   (StreamingFunc opts = Some f \<and>
    CreateCompletionStream (client llm) (calls w1) request = Inr stream \<and>
    length ss = Suc (length ds) \<and> ss ! 0 = sink w1 \<and>
    (\<forall>j<length ds. stream j = RecvOK (ds ! j) \<and> resp_Choices (ds ! j) \<noteq> [] \<and>
       f (ss ! j) (first_Text (ds ! j)) = (None, ss ! Suc j)) \<longrightarrow>
      (stream (length ds) = RecvErr msg \<longrightarrow>
         createCompletionStream llm request opts w1
           = Some (Returns (Inl (ClientError msg)),
               w1\<lparr>calls := calls w1 + 1, sink := ss ! length ds,
                 delivered := delivered w1 @ map first_Text ds\<rparr>)) \<and>
      (stream (length ds) = RecvOK resp \<and> resp_Choices resp = [] \<longrightarrow>
         createCompletionStream llm request opts w1
           = Some (Returns (Inl ErrEmptyResponse),
               w1\<lparr>calls := calls w1 + 1, sink := ss ! length ds,
                 delivered := delivered w1 @ map first_Text ds\<rparr>)) \<and>
      (stream (length ds) = RecvOK resp \<and> resp_Choices resp \<noteq> [] \<and>
       f (ss ! length ds) (first_Text resp) = (Some e, s') \<longrightarrow>
         createCompletionStream llm request opts w1
           = Some (Returns (Inl e),
               w1\<lparr>calls := calls w1 + 1, sink := s',
                 delivered := delivered w1 @ map first_Text ds @ [first_Text resp]\<rparr>))) \<and>
   (CreateChatCompletion (chat_client chat) (calls w1) chat_request = Inl msg \<longrightarrow>
      createChatCompletion chat chat_request w1
        = (Returns (Inl (ClientError msg)), w1\<lparr>calls := calls w1 + 1\<rparr>)) \<and>
   (CreateChatCompletion (chat_client chat) (calls w1) chat_request = Inr chat_resp \<and>
    chat_resp_Choices chat_resp = [] \<longrightarrow>
      createChatCompletion chat chat_request w1
        = (Returns (Inl ErrEmptyResponse), w1\<lparr>calls := calls w1 + 1\<rparr>)) \<and>
   (CreateChatCompletionStream (chat_client chat) (calls w1) chat_request = Inl msg \<longrightarrow>
      createChatCompletionStream chat chat_request chat_opts w1
        = Some (Returns (Inl (ClientError msg)), w1\<lparr>calls := calls w1 + 1\<rparr>)) \<and>
   (StreamingFunc chat_opts = Some f \<and>
    CreateChatCompletionStream (chat_client chat) (calls w1) chat_request = Inr chat_stream \<and>
    length ss = Suc (length deltas) \<and> ss ! 0 = sink w1 \<and>
    (\<forall>j<length deltas. \<exists>c cs. chat_stream j = RecvOK (deltas ! j) \<and>
       stream_resp_Choices (deltas ! j) = c # cs \<and>
       f (ss ! j) (delta_Content (stream_choice_Delta c)) = (None, ss ! Suc j) \<and>
       (stream_choice_FinishReason c = FinishReasonFunctionCall \<longrightarrow>
          delta_FunctionCall (stream_choice_Delta c) \<noteq> None)) \<longrightarrow>
      (chat_stream (length deltas) = RecvErr msg \<longrightarrow>
         createChatCompletionStream chat chat_request chat_opts w1
           = Some (Returns (Inl (ClientError msg)),
               w1\<lparr>calls := calls w1 + 1, sink := ss ! length deltas,
                 delivered := delivered w1 @ map first_Content deltas\<rparr>)) \<and>
      (chat_stream (length deltas) = RecvOK delta \<and> stream_resp_Choices delta = [] \<longrightarrow>
         createChatCompletionStream chat chat_request chat_opts w1
           = Some (Returns (Inl ErrEmptyResponse),
               w1\<lparr>calls := calls w1 + 1, sink := ss ! length deltas,
                 delivered := delivered w1 @ map first_Content deltas\<rparr>)) \<and>
      (chat_stream (length deltas) = RecvOK delta \<and> stream_resp_Choices delta \<noteq> [] \<and>
       f (ss ! length deltas) (first_Content delta) = (Some e, s') \<longrightarrow>
         createChatCompletionStream chat chat_request chat_opts w1
           = Some (Returns (Inl e),
               w1\<lparr>calls := calls w1 + 1, sink := s',
                 delivered := delivered w1 @ map first_Content deltas @ [first_Content delta]\<rparr>)))"
proof -
  have A: "Generate llm prompts options w = Some (Returns (rs, Some err), w') \<longrightarrow> rs = []"
    by (auto simp: Generate_def Let_def dest: Generate_loop_error)
  have B: "Chat_Generate chat messageSets options w = Some (Returns (rs, Some err), w')
      \<longrightarrow> rs = []"
    by (auto simp: Chat_Generate_def Let_def dest: Chat_Generate_loop_error)
  have K1: "CreateCompletion (client llm) (calls w1) request = Inl msg \<longrightarrow>
      createCompletion llm request w1 = (Inl (ClientError msg), w1\<lparr>calls := calls w1 + 1\<rparr>)"
    by (simp add: createCompletion_def)
  have K2: "CreateCompletion (client llm) (calls w1) request = Inr resp \<and> resp_Choices resp = []
      \<longrightarrow> createCompletion llm request w1 = (Inl ErrEmptyResponse, w1\<lparr>calls := calls w1 + 1\<rparr>)"
    by (simp add: createCompletion_def)
  have K3: "CreateCompletionStream (client llm) (calls w1) request = Inl msg \<longrightarrow>
      createCompletionStream llm request opts w1
        = Some (Returns (Inl (ClientError msg)), w1\<lparr>calls := calls w1 + 1\<rparr>)"
    by (simp add: createCompletionStream_def)
  have K5: "CreateChatCompletion (chat_client chat) (calls w1) chat_request = Inl msg \<longrightarrow>
      createChatCompletion chat chat_request w1
        = (Returns (Inl (ClientError msg)), w1\<lparr>calls := calls w1 + 1\<rparr>)"
    by (simp add: createChatCompletion_def)
  have K6: "CreateChatCompletion (chat_client chat) (calls w1) chat_request = Inr chat_resp \<and>
    chat_resp_Choices chat_resp = [] \<longrightarrow>
      createChatCompletion chat chat_request w1
        = (Returns (Inl ErrEmptyResponse), w1\<lparr>calls := calls w1 + 1\<rparr>)"
    by (simp add: createChatCompletion_def)
  have K7: "CreateChatCompletionStream (chat_client chat) (calls w1) chat_request = Inl msg \<longrightarrow>
      createChatCompletionStream chat chat_request chat_opts w1
        = Some (Returns (Inl (ClientError msg)), w1\<lparr>calls := calls w1 + 1\<rparr>)"
    by (simp add: createChatCompletionStream_def)
  show ?thesis
    apply (intro conjI)
                 apply (rule A)
                apply (rule B)
               apply (rule impI, elim conjE, rule Generate_collector_fails [OF assms(1)],
                 assumption+)
              apply (rule impI, elim conjE, rule Generate_stream_fails [OF assms(1)], assumption+)
             apply (rule impI, elim conjE, rule Chat_Generate_collector_fails [OF assms(2)],
               assumption+)
            apply (rule impI, elim conjE, rule Chat_Generate_stream_fails [OF assms(2)],
              assumption+)
           apply (rule K1)
          apply (rule K2)
         apply (rule K3)
        apply (rule impI, elim conjE, rule createCompletionStream_fails, assumption+)
       apply (rule K5)
      apply (rule K6)
     apply (rule K7)
    apply (rule impI, elim conjE, rule createChatCompletionStream_fails, assumption+)
    done
qed

theorem Generate_failure_returns_no_records_witness:
  "Generate demo_llm [''ab'', ''fail'', ''c''] [] demo_world
     = Some (Returns ([], Some (ClientError ''boom'')),
             \<lparr>sink = 0, delivered = [], calls = 2\<rparr>) \<and>
   Generate demo_llm [''ab'', ''none'', ''c''] [] demo_world
     = Some (Returns ([], Some ErrEmptyResponse), \<lparr>sink = 0, delivered = [], calls = 2\<rparr>) \<and>
   Generate demo_llm [''ab'', ''fail'', ''c''] [WithStreamingFunc demo_sink] demo_world
     = Some (Returns ([], Some (ClientError ''boom'')),
             \<lparr>sink = 2, delivered = [''Hel'', ''lo''], calls = 2\<rparr>) \<and>
   Generate demo_cut_llm [''ab'', ''cut'', ''c''] [WithStreamingFunc demo_sink] demo_world
     = Some (Returns ([], Some (ClientError ''reset'')),
             \<lparr>sink = 3, delivered = [''Hel'', ''lo'', ''Hel''], calls = 2\<rparr>) \<and>
   Generate demo_llm [''ab'', ''none'', ''c''] [WithStreamingFunc demo_sink] demo_world
     = Some (Returns ([], Some ErrEmptyResponse),
             \<lparr>sink = 3, delivered = [''Hel'', ''lo'', ''a''], calls = 2\<rparr>) \<and>
   Generate demo_llm [''ab'', ''bad'', ''c''] [WithStreamingFunc demo_sink] demo_world
     = Some (Returns ([], Some (OtherError ''refused'')),
             \<lparr>sink = 4, delivered = [''Hel'', ''lo'', ''ok'', ''bad''], calls = 2\<rparr>) \<and>
   Chat_Generate demo_chat_llm [demo_hi, [], demo_hi] [] demo_world
     = Some (Returns ([], Some (ClientError ''no messages'')),
             \<lparr>sink = 0, delivered = [], calls = 2\<rparr>) \<and>
   Chat_Generate demo_chat_llm [demo_hi, demo_hi @ demo_hi @ demo_hi, demo_hi] [] demo_world
     = Some (Returns ([], Some ErrEmptyResponse), \<lparr>sink = 0, delivered = [], calls = 2\<rparr>) \<and>
   Chat_Generate demo_chat_llm [demo_hi, [], demo_hi] [WithStreamingFunc demo_sink] demo_world
     = Some (Returns ([], Some (ClientError ''no messages'')),
             \<lparr>sink = 2, delivered = [''Hel'', ''lo''], calls = 2\<rparr>) \<and>
   Chat_Generate demo_cut_chat_llm [demo_hi, demo_hi @ demo_hi @ demo_hi @ demo_hi, demo_hi]
       [WithStreamingFunc demo_sink] demo_world
     = Some (Returns ([], Some (ClientError ''reset'')),
             \<lparr>sink = 3, delivered = [''Hel'', ''lo'', ''Hel''], calls = 2\<rparr>) \<and>
   Chat_Generate demo_chat_llm [demo_hi, demo_hi @ demo_hi @ demo_hi, demo_hi]
       [WithStreamingFunc demo_sink] demo_world
     = Some (Returns ([], Some ErrEmptyResponse),
             \<lparr>sink = 3, delivered = [''Hel'', ''lo'', ''a''], calls = 2\<rparr>) \<and>
   Chat_Generate demo_cut_chat_llm
       [demo_hi, demo_hi @ demo_hi @ demo_hi @ demo_hi @ demo_hi, demo_hi]
       [WithStreamingFunc demo_sink] demo_world
     = Some (Returns ([], Some (OtherError ''refused'')),
             \<lparr>sink = 4, delivered = [''Hel'', ''lo'', ''ok'', ''bad''], calls = 2\<rparr>)"
proof -
  note T = Generate_failure_returns_no_records [OF refl refl]
  have c3: "\<And>P1 P2 P3 R. P1 \<and> P2 \<and> P3 \<and> R \<Longrightarrow> P3" by blast
  have c4: "\<And>P1 P2 P3 P4 R. P1 \<and> P2 \<and> P3 \<and> P4 \<and> R \<Longrightarrow> P4" by blast
  have c5: "\<And>P1 P2 P3 P4 P5 R. P1 \<and> P2 \<and> P3 \<and> P4 \<and> P5 \<and> R \<Longrightarrow> P5" by blast
  have c6: "\<And>P1 P2 P3 P4 P5 P6 R. P1 \<and> P2 \<and> P3 \<and> P4 \<and> P5 \<and> P6 \<and> R \<Longrightarrow> P6" by blast
  have c7: "\<And>P1 P2 P3 P4 P5 P6 P7 R.
      P1 \<and> P2 \<and> P3 \<and> P4 \<and> P5 \<and> P6 \<and> P7 \<and> R \<Longrightarrow> P7" by blast
  have c8: "\<And>P1 P2 P3 P4 P5 P6 P7 P8 R.
      P1 \<and> P2 \<and> P3 \<and> P4 \<and> P5 \<and> P6 \<and> P7 \<and> P8 \<and> R \<Longrightarrow> P8" by blast
  have c9: "\<And>P1 P2 P3 P4 P5 P6 P7 P8 P9 R.
      P1 \<and> P2 \<and> P3 \<and> P4 \<and> P5 \<and> P6 \<and> P7 \<and> P8 \<and> P9 \<and> R \<Longrightarrow> P9" by blast
  have c10: "\<And>P1 P2 P3 P4 P5 P6 P7 P8 P9 P10 R.
      P1 \<and> P2 \<and> P3 \<and> P4 \<and> P5 \<and> P6 \<and> P7 \<and> P8 \<and> P9 \<and> P10 \<and> R \<Longrightarrow> P10" by blast
  have c11: "\<And>P1 P2 P3 P4 P5 P6 P7 P8 P9 P10 P11 R.
      P1 \<and> P2 \<and> P3 \<and> P4 \<and> P5 \<and> P6 \<and> P7 \<and> P8 \<and> P9 \<and> P10 \<and> P11 \<and> R \<Longrightarrow> P11" by blast
  have c12: "\<And>P1 P2 P3 P4 P5 P6 P7 P8 P9 P10 P11 P12 R.
      P1 \<and> P2 \<and> P3 \<and> P4 \<and> P5 \<and> P6 \<and> P7 \<and> P8 \<and> P9 \<and> P10 \<and> P11 \<and> P12 \<and> R \<Longrightarrow> P12"
    by blast
  have c13: "\<And>P1 P2 P3 P4 P5 P6 P7 P8 P9 P10 P11 P12 P13 R.
      P1 \<and> P2 \<and> P3 \<and> P4 \<and> P5 \<and> P6 \<and> P7 \<and> P8 \<and> P9 \<and> P10 \<and> P11 \<and> P12 \<and> P13 \<and> R \<Longrightarrow> P13"
    by blast
  have c14: "\<And>P1 P2 P3 P4 P5 P6 P7 P8 P9 P10 P11 P12 P13 R.
      P1 \<and> P2 \<and> P3 \<and> P4 \<and> P5 \<and> P6 \<and> P7 \<and> P8 \<and> P9 \<and> P10 \<and> P11 \<and> P12 \<and> P13 \<and> R \<Longrightarrow> R"
    by blast
  let ?w0 = "\<lparr>sink = 0::nat, delivered = [], calls = 0\<rparr>"
  let ?w1 = "\<lparr>sink = 0::nat, delivered = [], calls = 1\<rparr>"
  let ?w2 = "\<lparr>sink = 0::nat, delivered = [], calls = 2\<rparr>"
  let ?s1 = "\<lparr>sink = 2::nat, delivered = [''Hel'', ''lo''], calls = 1\<rparr>"
  let ?so = "WithStreamingFunc demo_sink (CallOptions_zero :: nat CallOptions)"
  let ?req = "Generate_request demo_llm (CallOptions_zero :: nat CallOptions)"
  let ?sreq = "Generate_request demo_llm ?so"
  let ?creq = "Generate_request demo_cut_llm ?so"
  let ?co = "(CallOptions_zero :: nat CallOptions)\<lparr>MaxTokens := defaultMaxTokens\<rparr>"
  let ?cso = "WithStreamingFunc demo_sink ?co"
  let ?hi = "map Chat_Generate_message demo_hi"
  let ?three = "map Chat_Generate_message (demo_hi @ demo_hi @ demo_hi)"
  let ?four = "map Chat_Generate_message (demo_hi @ demo_hi @ demo_hi @ demo_hi)"
  let ?five = "map Chat_Generate_message (demo_hi @ demo_hi @ demo_hi @ demo_hi @ demo_hi)"
  let ?chreq = "Chat_Generate_request demo_chat_llm ?co"
  let ?chsreq = "Chat_Generate_request demo_chat_llm ?cso"
  let ?chcreq = "Chat_Generate_request demo_cut_chat_llm ?cso"

  have pre_n: "\<exists>g. createCompletion demo_llm (?req\<lparr>req_Prompt := ''ab''\<rparr>) ?w0 = (Inr g, ?w1)"
    by (simp add: Generate_request_def createCompletion_def demo_defs)
  have k1: "createCompletion demo_llm (?req\<lparr>req_Prompt := ''fail''\<rparr>) ?w1
             = (Inl (ClientError ''boom''), ?w2)"
    using T [where llm = demo_llm and ?w1.0 = ?w1 and request = "?req\<lparr>req_Prompt := ''fail''\<rparr>"
          and msg = "''boom''", THEN c7]
    by (simp add: Generate_request_def demo_llm_def demo_client_def demo_completion_def)
  have n1: "Generate demo_llm ([''ab''] @ ''fail'' # [''c'']) [] demo_world
     = Some (Returns ([], Some (ClientError ''boom'')), ?w2)"
    using pre_n k1
    by (intro T [where ws = "[?w0, ?w1]", THEN c3, THEN mp])
       (simp add: CallOptions_zero_def demo_world_def)
  have k2: "createCompletion demo_llm (?req\<lparr>req_Prompt := ''none''\<rparr>) ?w1
             = (Inl ErrEmptyResponse, ?w2)"
    using T [where llm = demo_llm and ?w1.0 = ?w1 and request = "?req\<lparr>req_Prompt := ''none''\<rparr>"
          and resp = demo_no_choice, THEN c8]
    by (simp add: Generate_request_def demo_llm_def demo_client_def demo_completion_def
          demo_no_choice_def)
  have n2: "Generate demo_llm ([''ab''] @ ''none'' # [''c'']) [] demo_world
     = Some (Returns ([], Some ErrEmptyResponse), ?w2)"
    using pre_n k2
    by (intro T [where ws = "[?w0, ?w1]", THEN c3, THEN mp])
       (simp add: CallOptions_zero_def demo_world_def)

  have pre_s: "\<exists>g. createCompletionStream demo_llm (?sreq\<lparr>req_Prompt := ''ab''\<rparr>) ?so ?w0
                 = Some (Returns (Inr g), ?s1)"
    by (simp add: Generate_request_def loop_defs demo_defs)
  have pre_sc: "\<exists>g. createCompletionStream demo_cut_llm (?creq\<lparr>req_Prompt := ''ab''\<rparr>) ?so ?w0
                 = Some (Returns (Inr g), ?s1)"
    by (simp add: Generate_request_def loop_defs demo_defs cut_defs)
  have k3: "createCompletionStream demo_llm (?sreq\<lparr>req_Prompt := ''fail''\<rparr>) ?so ?s1
             = Some (Returns (Inl (ClientError ''boom'')),
                 \<lparr>sink = 2, delivered = [''Hel'', ''lo''], calls = 2\<rparr>)"
    using T [where llm = demo_llm and ?w1.0 = ?s1 and request = "?sreq\<lparr>req_Prompt := ''fail''\<rparr>"
          and msg = "''boom''" and options = "[WithStreamingFunc demo_sink]", THEN c9]
    by (simp add: Generate_request_def demo_llm_def demo_client_def demo_completion_stream_def)
  have s1: "Generate demo_llm ([''ab''] @ ''fail'' # [''c'']) [WithStreamingFunc demo_sink] demo_world
     = Some (Returns ([], Some (ClientError ''boom'')),
             \<lparr>sink = 2, delivered = [''Hel'', ''lo''], calls = 2\<rparr>)"
    using pre_s k3
    by (intro T [where ws = "[?w0, ?s1]", THEN c4, THEN mp])
       (simp add: CallOptions_zero_def WithStreamingFunc_def demo_world_def)
  have k4: "createCompletionStream demo_cut_llm (?creq\<lparr>req_Prompt := ''cut''\<rparr>) ?so ?s1
             = Some (Returns (Inl (ClientError ''reset'')),
                 \<lparr>sink = 3, delivered = [''Hel'', ''lo'', ''Hel''], calls = 2\<rparr>)"
    using T [where llm = demo_cut_llm and ?w1.0 = ?s1
          and request = "?creq\<lparr>req_Prompt := ''cut''\<rparr>"
          and options = "[WithStreamingFunc demo_sink]" and f = demo_sink
          and stream = "\<lambda>i. if i = 0 then RecvOK (demo_delta ''Hel'' []) else RecvErr ''reset''"
          and ss = "[2, 3]" and ds = "[demo_delta ''Hel'' []]" and msg = "''reset''",
          THEN c10, THEN mp, THEN conjunct1]
    by (simp add: Generate_request_def cut_defs demo_defs first_Text_def)
  have s2: "Generate demo_cut_llm ([''ab''] @ ''cut'' # [''c'']) [WithStreamingFunc demo_sink]
       demo_world
     = Some (Returns ([], Some (ClientError ''reset'')),
             \<lparr>sink = 3, delivered = [''Hel'', ''lo'', ''Hel''], calls = 2\<rparr>)"
    using pre_sc k4
    by (intro T [where ws = "[?w0, ?s1]", THEN c4, THEN mp])
       (simp add: CallOptions_zero_def WithStreamingFunc_def demo_world_def)
  have k5: "createCompletionStream demo_llm (?sreq\<lparr>req_Prompt := ''none''\<rparr>) ?so ?s1
             = Some (Returns (Inl ErrEmptyResponse),
                 \<lparr>sink = 3, delivered = [''Hel'', ''lo'', ''a''], calls = 2\<rparr>)"
    using T [where llm = demo_llm and ?w1.0 = ?s1
          and request = "?sreq\<lparr>req_Prompt := ''none''\<rparr>"
          and options = "[WithStreamingFunc demo_sink]" and f = demo_sink
          and stream = "stream_of [demo_delta ''a'' [], demo_no_choice]"
          and ss = "[2, 3]" and ds = "[demo_delta ''a'' []]" and resp = demo_no_choice,
          THEN c10, THEN mp, THEN conjunct2, THEN conjunct1]
    by (simp add: Generate_request_def demo_defs first_Text_def)
  have s3: "Generate demo_llm ([''ab''] @ ''none'' # [''c'']) [WithStreamingFunc demo_sink] demo_world
     = Some (Returns ([], Some ErrEmptyResponse),
             \<lparr>sink = 3, delivered = [''Hel'', ''lo'', ''a''], calls = 2\<rparr>)"
    using pre_s k5
    by (intro T [where ws = "[?w0, ?s1]", THEN c4, THEN mp])
       (simp add: CallOptions_zero_def WithStreamingFunc_def demo_world_def)
  have k6: "createCompletionStream demo_llm (?sreq\<lparr>req_Prompt := ''bad''\<rparr>) ?so ?s1
             = Some (Returns (Inl (OtherError ''refused'')),
                 \<lparr>sink = 4, delivered = [''Hel'', ''lo'', ''ok'', ''bad''], calls = 2\<rparr>)"
    using T [where llm = demo_llm and ?w1.0 = ?s1
          and request = "?sreq\<lparr>req_Prompt := ''bad''\<rparr>"
          and options = "[WithStreamingFunc demo_sink]" and f = demo_sink
          and stream = "stream_of [demo_delta ''ok'' [], demo_delta ''bad'' [],
                                   demo_delta ''more'' ''stop'']"
          and ss = "[2, 3]" and ds = "[demo_delta ''ok'' []]" and resp = "demo_delta ''bad'' []"
          and e = "OtherError ''refused''" and s' = 4,
          THEN c10, THEN mp, THEN conjunct2, THEN conjunct2]
    by (simp add: Generate_request_def demo_defs first_Text_def)
  have s4: "Generate demo_llm ([''ab''] @ ''bad'' # [''c'']) [WithStreamingFunc demo_sink] demo_world
     = Some (Returns ([], Some (OtherError ''refused'')),
             \<lparr>sink = 4, delivered = [''Hel'', ''lo'', ''ok'', ''bad''], calls = 2\<rparr>)"
    using pre_s k6
    by (intro T [where ws = "[?w0, ?s1]", THEN c4, THEN mp])
       (simp add: CallOptions_zero_def WithStreamingFunc_def demo_world_def)

  have pre_c: "\<exists>g. createChatCompletion demo_chat_llm (?chreq\<lparr>chat_req_Messages := ?hi\<rparr>) ?w0
                 = (Returns (Inr g), ?w1)"
    by (simp add: Chat_Generate_request_def createChatCompletion_def Let_def demo_hi_def
          Chat_Generate_message_def FinishReasonFunctionCall_def demo_defs)
  have k7: "createChatCompletion demo_chat_llm (?chreq\<lparr>chat_req_Messages := []\<rparr>) ?w1
             = (Returns (Inl (ClientError ''no messages'')), ?w2)"
    using T [where chat = demo_chat_llm and ?w1.0 = ?w1
          and chat_request = "?chreq\<lparr>chat_req_Messages := []\<rparr>" and msg = "''no messages''",
          THEN c11]
    by (simp add: Chat_Generate_request_def demo_chat_llm_def demo_client_def demo_chat_def)
  have c1: "Chat_Generate demo_chat_llm ([demo_hi] @ [] # [demo_hi]) [] demo_world
     = Some (Returns ([], Some (ClientError ''no messages'')), ?w2)"
    using pre_c k7
    by (intro T [where ws = "[?w0, ?w1]", THEN c5, THEN mp])
       (simp add: CallOptions_zero_def demo_world_def)
  have k8: "createChatCompletion demo_chat_llm (?chreq\<lparr>chat_req_Messages := ?three\<rparr>) ?w1
             = (Returns (Inl ErrEmptyResponse), ?w2)"
    using T [where chat = demo_chat_llm and ?w1.0 = ?w1
          and chat_request = "?chreq\<lparr>chat_req_Messages := ?three\<rparr>"
          and chat_resp = "\<lparr>chat_resp_Choices = [],
                  chat_resp_Usage = \<lparr>PromptTokens = 3, CompletionTokens = 0, TotalTokens = 3\<rparr>\<rparr>",
          THEN c12]
    by (simp add: Chat_Generate_request_def demo_chat_llm_def demo_client_def demo_chat_def
          demo_hi_def)
  have c2: "Chat_Generate demo_chat_llm ([demo_hi] @ (demo_hi @ demo_hi @ demo_hi) # [demo_hi]) []
       demo_world
     = Some (Returns ([], Some ErrEmptyResponse), ?w2)"
    using pre_c k8
    by (intro T [where ws = "[?w0, ?w1]", THEN c5, THEN mp])
       (simp add: CallOptions_zero_def demo_world_def)

  have pre_t: "\<exists>g. createChatCompletionStream demo_chat_llm
                     (?chsreq\<lparr>chat_req_Messages := ?hi\<rparr>) ?cso ?w0
                 = Some (Returns (Inr g), ?s1)"
    by (simp add: Chat_Generate_request_def loop_defs demo_hi_def Chat_Generate_message_def
          demo_defs)
  have pre_tc: "\<exists>g. createChatCompletionStream demo_cut_chat_llm
                     (?chcreq\<lparr>chat_req_Messages := ?hi\<rparr>) ?cso ?w0
                 = Some (Returns (Inr g), ?s1)"
    by (simp add: Chat_Generate_request_def loop_defs demo_hi_def Chat_Generate_message_def
          demo_defs cut_defs)
  have k9: "createChatCompletionStream demo_chat_llm (?chsreq\<lparr>chat_req_Messages := []\<rparr>) ?cso ?s1
             = Some (Returns (Inl (ClientError ''no messages'')),
                 \<lparr>sink = 2, delivered = [''Hel'', ''lo''], calls = 2\<rparr>)"
    using T [where chat = demo_chat_llm and ?w1.0 = ?s1
          and chat_request = "?chsreq\<lparr>chat_req_Messages := []\<rparr>" and msg = "''no messages''"
          and options = "[WithStreamingFunc demo_sink]", THEN c13]
    by (simp add: Chat_Generate_request_def demo_chat_llm_def demo_client_def demo_chat_stream_def)
  have t1: "Chat_Generate demo_chat_llm ([demo_hi] @ [] # [demo_hi]) [WithStreamingFunc demo_sink]
       demo_world
     = Some (Returns ([], Some (ClientError ''no messages'')),
             \<lparr>sink = 2, delivered = [''Hel'', ''lo''], calls = 2\<rparr>)"
    using pre_t k9
    by (intro T [where ws = "[?w0, ?s1]", THEN c6, THEN mp])
       (simp add: CallOptions_zero_def WithStreamingFunc_def demo_world_def)
  have k10: "createChatCompletionStream demo_cut_chat_llm
               (?chcreq\<lparr>chat_req_Messages := ?four\<rparr>) ?cso ?s1
             = Some (Returns (Inl (ClientError ''reset'')),
                 \<lparr>sink = 3, delivered = [''Hel'', ''lo'', ''Hel''], calls = 2\<rparr>)"
    using T [where chat = demo_cut_chat_llm and ?w1.0 = ?s1
          and chat_request = "?chcreq\<lparr>chat_req_Messages := ?four\<rparr>"
          and options = "[WithStreamingFunc demo_sink]" and f = demo_sink
          and chat_stream = "\<lambda>i. if i = 0 then RecvOK (demo_chat_delta ''Hel'' [])
                                 else RecvErr ''reset''"
          and ss = "[2, 3]" and deltas = "[demo_chat_delta ''Hel'' []]" and msg = "''reset''",
          THEN c14, THEN mp, THEN conjunct1]
    by (simp add: Chat_Generate_request_def cut_defs demo_defs demo_hi_def first_Content_def
          FinishReasonFunctionCall_def)
  have t2: "Chat_Generate demo_cut_chat_llm
       ([demo_hi] @ (demo_hi @ demo_hi @ demo_hi @ demo_hi) # [demo_hi])
       [WithStreamingFunc demo_sink] demo_world
     = Some (Returns ([], Some (ClientError ''reset'')),
             \<lparr>sink = 3, delivered = [''Hel'', ''lo'', ''Hel''], calls = 2\<rparr>)"
    using pre_tc k10
    by (intro T [where ws = "[?w0, ?s1]", THEN c6, THEN mp])
       (simp add: CallOptions_zero_def WithStreamingFunc_def demo_world_def)
  have k11: "createChatCompletionStream demo_chat_llm
               (?chsreq\<lparr>chat_req_Messages := ?three\<rparr>) ?cso ?s1
             = Some (Returns (Inl ErrEmptyResponse),
                 \<lparr>sink = 3, delivered = [''Hel'', ''lo'', ''a''], calls = 2\<rparr>)"
    using T [where chat = demo_chat_llm and ?w1.0 = ?s1
          and chat_request = "?chsreq\<lparr>chat_req_Messages := ?three\<rparr>"
          and options = "[WithStreamingFunc demo_sink]" and f = demo_sink
          and chat_stream = "stream_of [demo_chat_delta ''a'' [], \<lparr>stream_resp_Choices = []\<rparr>]"
          and ss = "[2, 3]" and deltas = "[demo_chat_delta ''a'' []]"
          and delta = "\<lparr>stream_resp_Choices = []\<rparr>",
          THEN c14, THEN mp, THEN conjunct2, THEN conjunct1]
    by (simp add: Chat_Generate_request_def demo_defs demo_hi_def first_Content_def
          FinishReasonFunctionCall_def)
  have t3: "Chat_Generate demo_chat_llm ([demo_hi] @ (demo_hi @ demo_hi @ demo_hi) # [demo_hi])
       [WithStreamingFunc demo_sink] demo_world
     = Some (Returns ([], Some ErrEmptyResponse),
             \<lparr>sink = 3, delivered = [''Hel'', ''lo'', ''a''], calls = 2\<rparr>)"
    using pre_t k11
    by (intro T [where ws = "[?w0, ?s1]", THEN c6, THEN mp])
       (simp add: CallOptions_zero_def WithStreamingFunc_def demo_world_def)
  have k12: "createChatCompletionStream demo_cut_chat_llm
               (?chcreq\<lparr>chat_req_Messages := ?five\<rparr>) ?cso ?s1
             = Some (Returns (Inl (OtherError ''refused'')),
                 \<lparr>sink = 4, delivered = [''Hel'', ''lo'', ''ok'', ''bad''], calls = 2\<rparr>)"
    using T [where chat = demo_cut_chat_llm and ?w1.0 = ?s1
          and chat_request = "?chcreq\<lparr>chat_req_Messages := ?five\<rparr>"
          and options = "[WithStreamingFunc demo_sink]" and f = demo_sink
          and chat_stream = "stream_of [demo_chat_delta ''ok'' [], demo_chat_delta ''bad'' []]"
          and ss = "[2, 3]" and deltas = "[demo_chat_delta ''ok'' []]"
          and delta = "demo_chat_delta ''bad'' []"
          and e = "OtherError ''refused''" and s' = 4,
          THEN c14, THEN mp, THEN conjunct2, THEN conjunct2]
    by (simp add: Chat_Generate_request_def cut_defs demo_defs demo_hi_def first_Content_def
          FinishReasonFunctionCall_def)
  have t4: "Chat_Generate demo_cut_chat_llm
       ([demo_hi] @ (demo_hi @ demo_hi @ demo_hi @ demo_hi @ demo_hi) # [demo_hi])
       [WithStreamingFunc demo_sink] demo_world
     = Some (Returns ([], Some (OtherError ''refused'')),
             \<lparr>sink = 4, delivered = [''Hel'', ''lo'', ''ok'', ''bad''], calls = 2\<rparr>)"
    using pre_tc k12
    by (intro T [where ws = "[?w0, ?s1]", THEN c6, THEN mp])
       (simp add: CallOptions_zero_def WithStreamingFunc_def demo_world_def)
  have "([] :: Generation list) = []"
    by (rule T [THEN conjunct1, THEN mp, OF n1])
  moreover have "([] :: Generation list) = []"
    by (rule T [THEN conjunct2, THEN conjunct1, THEN mp, OF c1])
  ultimately show ?thesis
    using n1 n2 s1 s2 s3 s4 c1 c2 t1 t2 t3 t4 by simp
qed

section \<open>Streaming\<close>

text \<open>
  What a run of the loop of \<^verbatim>\<open>createCompletionStream\<close> that ends with a record has
  done: from the \<open>i\<close>-th result on, the stream delivered responses \<open>ds\<close>, each with a
  choice, and then ended; the texts of their first choices were handed to the
  streaming function and appended to the text, and the finish reason is that of the
  last of them.
\<close>

lemma createCompletionStream_loop_record:
  assumes "createCompletionStream_loop stream opts i out finishReason w = Some y"
  shows "\<forall>g w'. y = (Returns (Inr g), w') \<longrightarrow>
     (\<exists>ds. (\<forall>j<length ds. stream (i + j) = RecvOK (ds ! j)) \<and>
           stream (i + length ds) = RecvEOF \<and>
           (\<forall>d\<in>set ds. resp_Choices d \<noteq> []) \<and>
           Text g = out @ concat (map first_Text ds) \<and>
           Message g = None \<and>
           GenerationInfo g =
             [''FinishReason'' \<mapsto> AnyString (last (finishReason # map first_FinishReason ds))] \<and>
           delivered w' = delivered w @ map first_Text ds \<and>
           calls w' = calls w)"
proof (induction stream opts i out finishReason w y
        rule: createCompletionStream_loop.raw_induct)
  case (1 loop stream opts i out finishReason w y)
  show ?case
  proof (cases "stream i")
    case RecvEOF
    with 1(2) have y: "y = (Returns (Inr \<lparr>Text = out, Message = None,
                 GenerationInfo = [''FinishReason'' \<mapsto> AnyString finishReason]\<rparr>), w)"
      by simp
    show ?thesis
    proof (intro allI impI)
      fix g w' assume "y = (Returns (Inr g), w')"
      with y have g: "g = \<lparr>Text = out, Message = None,
                 GenerationInfo = [''FinishReason'' \<mapsto> AnyString finishReason]\<rparr>" and w: "w' = w"
        by simp_all
      have "(\<forall>j<length ([]::CompletionResponse list). stream (i + j) = RecvOK ([] ! j)) \<and>
           stream (i + length ([]::CompletionResponse list)) = RecvEOF \<and>
           (\<forall>d\<in>set ([]::CompletionResponse list). resp_Choices d \<noteq> []) \<and>
           Text g = out @ concat (map first_Text []) \<and>
           Message g = None \<and>
           GenerationInfo g =
             [''FinishReason'' \<mapsto> AnyString (last (finishReason # map first_FinishReason []))] \<and>
           delivered w' = delivered w @ map first_Text [] \<and>
           calls w' = calls w"
        using RecvEOF g w by simp
      then show "\<exists>ds. (\<forall>j<length ds. stream (i + j) = RecvOK (ds ! j)) \<and>
           stream (i + length ds) = RecvEOF \<and>
           (\<forall>d\<in>set ds. resp_Choices d \<noteq> []) \<and>
           Text g = out @ concat (map first_Text ds) \<and>
           Message g = None \<and>
           GenerationInfo g =
             [''FinishReason'' \<mapsto> AnyString (last (finishReason # map first_FinishReason ds))] \<and>
           delivered w' = delivered w @ map first_Text ds \<and>
           calls w' = calls w"
        by (rule exI)
    qed
  next
    case (RecvErr e)
    with 1(2) show ?thesis by auto
  next
    case (RecvOK resp)
    show ?thesis
    proof (cases "resp_Choices resp")
      case Nil
      with RecvOK 1(2) show ?thesis by auto
    next
      case (Cons c cs)
      show ?thesis
      proof (cases "StreamingFunc opts")
        case None
        with RecvOK Cons 1(2) show ?thesis by auto
      next
        case (Some f)
        obtain err s' where fs: "f (sink w) (choice_Text c) = (err, s')"
          by (cases "f (sink w) (choice_Text c)")
        show ?thesis
        proof (cases err)
          case (Some e)
          with RecvOK Cons \<open>StreamingFunc opts = Some f\<close> fs 1(2) show ?thesis by auto
        next
          case None
          let ?w = "w\<lparr>sink := s', delivered := delivered w @ [choice_Text c]\<rparr>"
          from None RecvOK Cons Some fs 1(2)
          have "loop stream opts (i + 1) (out @ choice_Text c) (choice_FinishReason c) ?w
                  = Some y"
            by simp
          note step = 1(1)[OF this, rule_format]
          show ?thesis
          proof (intro allI impI)
            fix g w' assume "y = (Returns (Inr g), w')"
            from step[OF this] obtain ds where
              a: "\<forall>j<length ds. stream (i + 1 + j) = RecvOK (ds ! j)"
              and b: "stream (i + 1 + length ds) = RecvEOF"
              and c: "\<forall>d\<in>set ds. resp_Choices d \<noteq> []"
              and d: "Text g = (out @ choice_Text c) @ concat (map first_Text ds)"
              and e: "Message g = None"
              and f: "GenerationInfo g = [''FinishReason'' \<mapsto>
                        AnyString (last (choice_FinishReason c # map first_FinishReason ds))]"
              and g: "delivered w' = delivered ?w @ map first_Text ds"
              and h: "calls w' = calls ?w"
              by blast
            have ft: "first_Text resp = choice_Text c"
              and ff: "first_FinishReason resp = choice_FinishReason c"
              using Cons by (simp_all add: first_Text_def first_FinishReason_def)
            have a': "\<forall>j<length (resp # ds). stream (i + j) = RecvOK ((resp # ds) ! j)"
            proof (intro allI impI)
              fix j assume j: "j < length (resp # ds)"
              show "stream (i + j) = RecvOK ((resp # ds) ! j)"
              proof (cases j)
                case 0
                with RecvOK show ?thesis by simp
              next
                case (Suc k)
                with j have "k < length ds" by simp
                with a have "stream (i + 1 + k) = RecvOK (ds ! k)" by blast
                with Suc show ?thesis by simp
              qed
            qed
            have "(\<forall>j<length (resp # ds). stream (i + j) = RecvOK ((resp # ds) ! j)) \<and>
               stream (i + length (resp # ds)) = RecvEOF \<and>
               (\<forall>d\<in>set (resp # ds). resp_Choices d \<noteq> []) \<and>
               Text g = out @ concat (map first_Text (resp # ds)) \<and>
               Message g = None \<and>
               GenerationInfo g = [''FinishReason'' \<mapsto>
                  AnyString (last (finishReason # map first_FinishReason (resp # ds)))] \<and>
               delivered w' = delivered w @ map first_Text (resp # ds) \<and>
               calls w' = calls w"
              using a' b c d e f g h ft ff Cons by simp
            then show "\<exists>ds. (\<forall>j<length ds. stream (i + j) = RecvOK (ds ! j)) \<and>
               stream (i + length ds) = RecvEOF \<and>
               (\<forall>d\<in>set ds. resp_Choices d \<noteq> []) \<and>
               Text g = out @ concat (map first_Text ds) \<and>
               Message g = None \<and>
               GenerationInfo g = [''FinishReason'' \<mapsto>
                  AnyString (last (finishReason # map first_FinishReason ds))] \<and>
               delivered w' = delivered w @ map first_Text ds \<and>
               calls w' = calls w"
              by (rule exI)
          qed
        qed
      qed
    qed
  qed
qed fact

text \<open>The same for the loop of \<^verbatim>\<open>createChatCompletionStream\<close>; the text stays empty.\<close>

lemma createChatCompletionStream_loop_record:
  assumes "createChatCompletionStream_loop stream opts i tx finishReason functionCall w = Some y"
  shows "\<forall>g w'. y = (Returns (Inr g), w') \<longrightarrow>
     (\<exists>ds fc. (\<forall>j<length ds. stream (i + j) = RecvOK (ds ! j)) \<and>
           stream (i + length ds) = RecvEOF \<and>
           (\<forall>d\<in>set ds. stream_resp_Choices d \<noteq> []) \<and>
           Text g = [] \<and>
           Message g = Some \<lparr>Content = tx @ concat (map first_Content ds), FunctionCall = fc\<rparr> \<and>
           GenerationInfo g =
             [''FinishReason'' \<mapsto>
                AnyString (last (finishReason # map first_stream_FinishReason ds))] \<and>
           delivered w' = delivered w @ map first_Content ds \<and>
           calls w' = calls w)"
proof (induction stream opts i tx finishReason functionCall w y
        rule: createChatCompletionStream_loop.raw_induct)
  case (1 loop stream opts i tx finishReason functionCall w y)
  show ?case
  proof (cases "stream i")
    case RecvEOF
    with 1(2) have y: "y = (Returns (Inr \<lparr>Text = [],
                 Message = Some \<lparr>Content = tx, FunctionCall = functionCall\<rparr>,
                 GenerationInfo = [''FinishReason'' \<mapsto> AnyString finishReason]\<rparr>), w)"
      by simp
    show ?thesis
    proof (intro allI impI)
      fix g w' assume "y = (Returns (Inr g), w')"
      with y have g: "g = \<lparr>Text = [],
                 Message = Some \<lparr>Content = tx, FunctionCall = functionCall\<rparr>,
                 GenerationInfo = [''FinishReason'' \<mapsto> AnyString finishReason]\<rparr>" and w: "w' = w"
        by simp_all
      have "(\<forall>j<length ([]::ChatCompletionStreamResponse list). stream (i + j) = RecvOK ([] ! j)) \<and>
           stream (i + length ([]::ChatCompletionStreamResponse list)) = RecvEOF \<and>
           (\<forall>d\<in>set ([]::ChatCompletionStreamResponse list). stream_resp_Choices d \<noteq> []) \<and>
           Text g = [] \<and>
           Message g = Some \<lparr>Content = tx @ concat (map first_Content []),
                             FunctionCall = functionCall\<rparr> \<and>
           GenerationInfo g =
             [''FinishReason'' \<mapsto>
                AnyString (last (finishReason # map first_stream_FinishReason []))] \<and>
           delivered w' = delivered w @ map first_Content [] \<and>
           calls w' = calls w"
        using RecvEOF g w by simp
      then show "\<exists>ds fc. (\<forall>j<length ds. stream (i + j) = RecvOK (ds ! j)) \<and>
           stream (i + length ds) = RecvEOF \<and>
           (\<forall>d\<in>set ds. stream_resp_Choices d \<noteq> []) \<and>
           Text g = [] \<and>
           Message g = Some \<lparr>Content = tx @ concat (map first_Content ds), FunctionCall = fc\<rparr> \<and>
           GenerationInfo g =
             [''FinishReason'' \<mapsto>
                AnyString (last (finishReason # map first_stream_FinishReason ds))] \<and>
           delivered w' = delivered w @ map first_Content ds \<and>
           calls w' = calls w"
        by (intro exI)
    qed
  next
    case (RecvErr e)
    with 1(2) show ?thesis by auto
  next
    case (RecvOK resp)
    show ?thesis
    proof (cases "stream_resp_Choices resp")
      case Nil
      with RecvOK 1(2) show ?thesis by auto
    next
      case (Cons c cs)
      let ?t = "delta_Content (stream_choice_Delta c)"
      show ?thesis
      proof (cases "StreamingFunc opts")
        case None
        with RecvOK Cons 1(2) show ?thesis by auto
      next
        case (Some f)
        obtain err s' where fs: "f (sink w) ?t = (err, s')"
          by (cases "f (sink w) ?t")
        show ?thesis
        proof (cases err)
          case (Some e)
          with RecvOK Cons \<open>StreamingFunc opts = Some f\<close> fs 1(2) show ?thesis by auto
        next
          case None
          let ?w = "w\<lparr>sink := s', delivered := delivered w @ [?t]\<rparr>"
          have "y = (Panics, ?w) \<or>
                (\<exists>fc'. loop stream opts (i + 1) (tx @ ?t) (stream_choice_FinishReason c) fc' ?w
                   = Some y)"
            using None RecvOK Cons Some fs 1(2)
            by (auto split: if_splits option.splits)
          then show ?thesis
          proof
            assume "y = (Panics, ?w)"
            then show ?thesis by simp
          next
            assume "\<exists>fc'. loop stream opts (i + 1) (tx @ ?t) (stream_choice_FinishReason c) fc' ?w
                   = Some y"
            then obtain fc' where
              "loop stream opts (i + 1) (tx @ ?t) (stream_choice_FinishReason c) fc' ?w = Some y"
              by blast
            note step = 1(1)[OF this, rule_format]
            show ?thesis
            proof (intro allI impI)
              fix g w' assume "y = (Returns (Inr g), w')"
              from step[OF this] obtain ds fc where
                a: "\<forall>j<length ds. stream (i + 1 + j) = RecvOK (ds ! j)"
                and b: "stream (i + 1 + length ds) = RecvEOF"
                and c: "\<forall>d\<in>set ds. stream_resp_Choices d \<noteq> []"
                and d: "Text g = []"
                and e: "Message g = Some \<lparr>Content = (tx @ ?t) @ concat (map first_Content ds),
                                          FunctionCall = fc\<rparr>"
                and f: "GenerationInfo g = [''FinishReason'' \<mapsto>
                          AnyString (last (stream_choice_FinishReason c
                                       # map first_stream_FinishReason ds))]"
                and g: "delivered w' = delivered ?w @ map first_Content ds"
                and h: "calls w' = calls ?w"
                by blast
              have ft: "first_Content resp = ?t"
                and ff: "first_stream_FinishReason resp = stream_choice_FinishReason c"
                using Cons by (simp_all add: first_Content_def first_stream_FinishReason_def)
              have a': "\<forall>j<length (resp # ds). stream (i + j) = RecvOK ((resp # ds) ! j)"
              proof (intro allI impI)
                fix j assume j: "j < length (resp # ds)"
                show "stream (i + j) = RecvOK ((resp # ds) ! j)"
                proof (cases j)
                  case 0
                  with RecvOK show ?thesis by simp
                next
                  case (Suc k)
                  with j have "k < length ds" by simp
                  with a have "stream (i + 1 + k) = RecvOK (ds ! k)" by blast
                  with Suc show ?thesis by simp
                qed
              qed
              have "(\<forall>j<length (resp # ds). stream (i + j) = RecvOK ((resp # ds) ! j)) \<and>
                 stream (i + length (resp # ds)) = RecvEOF \<and>
                 (\<forall>d\<in>set (resp # ds). stream_resp_Choices d \<noteq> []) \<and>
                 Text g = [] \<and>
                 Message g = Some \<lparr>Content = tx @ concat (map first_Content (resp # ds)),
                                   FunctionCall = fc\<rparr> \<and>
                 GenerationInfo g = [''FinishReason'' \<mapsto>
                    AnyString (last (finishReason # map first_stream_FinishReason (resp # ds)))] \<and>
                 delivered w' = delivered w @ map first_Content (resp # ds) \<and>
                 calls w' = calls w"
                using a' b c d e f g h ft ff Cons by simp
              then show "\<exists>ds fc. (\<forall>j<length ds. stream (i + j) = RecvOK (ds ! j)) \<and>
                 stream (i + length ds) = RecvEOF \<and>
                 (\<forall>d\<in>set ds. stream_resp_Choices d \<noteq> []) \<and>
                 Text g = [] \<and>
                 Message g = Some \<lparr>Content = tx @ concat (map first_Content ds),
                                   FunctionCall = fc\<rparr> \<and>
                 GenerationInfo g = [''FinishReason'' \<mapsto>
                    AnyString (last (finishReason # map first_stream_FinishReason ds))] \<and>
                 delivered w' = delivered w @ map first_Content ds \<and>
                 calls w' = calls w"
                by (intro exI)
            qed
          qed
        qed
      qed
    qed
  qed
qed fact

lemma stream_yields_unique:
  assumes "stream_yields stream ds"
    and "\<forall>j<length ds'. stream j = RecvOK (ds' ! j)"
    and "stream (length ds') = RecvEOF"
  shows "ds' = ds"
proof -
  from assms(1) have a: "\<forall>j<length ds. stream j = RecvOK (ds ! j)"
    and b: "stream (length ds) = RecvEOF"
    by (simp_all add: stream_yields_def)
  have "length ds' = length ds"
  proof (rule ccontr)
    assume "length ds' \<noteq> length ds"
    then consider "length ds' < length ds" | "length ds < length ds'" by linarith
    then show False
    proof cases
      case 1
      with a have "stream (length ds') = RecvOK (ds ! length ds')" by blast
      with assms(3) show False by simp
    next
      case 2
      with assms(2) have "stream (length ds) = RecvOK (ds' ! length ds)" by blast
      with b show False by simp
    qed
  qed
  then show ?thesis
    using a assms(2) by (auto intro!: nth_equalityI)
qed

lemma stream_yields_stream_of: "stream_yields (stream_of ds) ds"
  by (simp add: stream_yields_def stream_of_def)

lemma createCompletionStream_record:
  assumes "createCompletionStream llm request opts w = Some (Returns (Inr g), w')"
  shows "\<exists>stream ds.
           CreateCompletionStream (client llm) (calls w) request = Inr stream \<and>
           stream_yields stream ds \<and>
           (\<forall>d\<in>set ds. resp_Choices d \<noteq> []) \<and>
           Text g = concat (map first_Text ds) \<and>
           Message g = None \<and>
           GenerationInfo g =
             [''FinishReason'' \<mapsto> AnyString (last ([] # map first_FinishReason ds))] \<and>
           delivered w' = delivered w @ map first_Text ds \<and>
           calls w' = calls w + 1"
proof (cases "CreateCompletionStream (client llm) (calls w) request")
  case (Inl e)
  with assms show ?thesis by (simp add: createCompletionStream_def)
next
  case (Inr stream)
  with assms have
    "createCompletionStream_loop stream opts 0 [] [] (w\<lparr>calls := calls w + 1\<rparr>)
       = Some (Returns (Inr g), w')"
    by (simp add: createCompletionStream_def)
  from createCompletionStream_loop_record [OF this, rule_format, OF refl]
  obtain ds where
    "\<forall>j<length ds. stream (0 + j) = RecvOK (ds ! j)"
    "stream (0 + length ds) = RecvEOF"
    "\<forall>d\<in>set ds. resp_Choices d \<noteq> []"
    "Text g = [] @ concat (map first_Text ds)"
    "Message g = None"
    "GenerationInfo g = [''FinishReason'' \<mapsto> AnyString (last ([] # map first_FinishReason ds))]"
    "delivered w' = delivered (w\<lparr>calls := calls w + 1\<rparr>) @ map first_Text ds"
    "calls w' = calls (w\<lparr>calls := calls w + 1\<rparr>)"
    by blast
  then have "CreateCompletionStream (client llm) (calls w) request = Inr stream \<and>
           stream_yields stream ds \<and>
           (\<forall>d\<in>set ds. resp_Choices d \<noteq> []) \<and>
           Text g = concat (map first_Text ds) \<and>
           Message g = None \<and>
           GenerationInfo g =
             [''FinishReason'' \<mapsto> AnyString (last ([] # map first_FinishReason ds))] \<and>
           delivered w' = delivered w @ map first_Text ds \<and>
           calls w' = calls w + 1"
    using Inr by (simp add: stream_yields_def)
  then show ?thesis by blast
qed

lemma createChatCompletionStream_record:
  assumes "createChatCompletionStream chat request opts w = Some (Returns (Inr g), w')"
  shows "\<exists>stream ds fc.
           CreateChatCompletionStream (chat_client chat) (calls w) request = Inr stream \<and>
           stream_yields stream ds \<and>
           (\<forall>d\<in>set ds. stream_resp_Choices d \<noteq> []) \<and>
           Text g = [] \<and>
           Message g = Some \<lparr>Content = concat (map first_Content ds), FunctionCall = fc\<rparr> \<and>
           GenerationInfo g =
             [''FinishReason'' \<mapsto> AnyString (last ([] # map first_stream_FinishReason ds))] \<and>
           delivered w' = delivered w @ map first_Content ds \<and>
           calls w' = calls w + 1"
proof (cases "CreateChatCompletionStream (chat_client chat) (calls w) request")
  case (Inl e)
  with assms show ?thesis by (simp add: createChatCompletionStream_def)
next
  case (Inr stream)
  with assms have
    "createChatCompletionStream_loop stream opts 0 [] [] None (w\<lparr>calls := calls w + 1\<rparr>)
       = Some (Returns (Inr g), w')"
    by (simp add: createChatCompletionStream_def)
  from createChatCompletionStream_loop_record [OF this, rule_format, OF refl]
  obtain ds fc where
    "\<forall>j<length ds. stream (0 + j) = RecvOK (ds ! j)"
    "stream (0 + length ds) = RecvEOF"
    "\<forall>d\<in>set ds. stream_resp_Choices d \<noteq> []"
    "Text g = []"
    "Message g = Some \<lparr>Content = [] @ concat (map first_Content ds), FunctionCall = fc\<rparr>"
    "GenerationInfo g =
       [''FinishReason'' \<mapsto> AnyString (last ([] # map first_stream_FinishReason ds))]"
    "delivered w' = delivered (w\<lparr>calls := calls w + 1\<rparr>) @ map first_Content ds"
    "calls w' = calls (w\<lparr>calls := calls w + 1\<rparr>)"
    by blast
  then have "CreateChatCompletionStream (chat_client chat) (calls w) request = Inr stream \<and>
           stream_yields stream ds \<and>
           (\<forall>d\<in>set ds. stream_resp_Choices d \<noteq> []) \<and>
           Text g = [] \<and>
           Message g = Some \<lparr>Content = concat (map first_Content ds), FunctionCall = fc\<rparr> \<and>
           GenerationInfo g =
             [''FinishReason'' \<mapsto> AnyString (last ([] # map first_stream_FinishReason ds))] \<and>
           delivered w' = delivered w @ map first_Content ds \<and>
           calls w' = calls w + 1"
    using Inr by (simp add: stream_yields_def)
  then show ?thesis by blast
qed

lemma demo_trail_request:
  "CreateCompletionStream (client demo_llm) (calls demo_world)
     ((Generate_request demo_llm (WithStreamingFunc demo_sink CallOptions_zero))
        \<lparr>req_Prompt := ''trail''\<rparr>)
   = Inr (stream_of [demo_delta ''Hel'' ''stop'', demo_delta ''lo'' []])"
  by (simp add: Generate_request_def demo_llm_def demo_client_def demo_completion_stream_def
        demo_world_def)

lemma demo_trail_run:
  "createCompletionStream demo_llm
     ((Generate_request demo_llm (WithStreamingFunc demo_sink CallOptions_zero))
        \<lparr>req_Prompt := ''trail''\<rparr>)
     (WithStreamingFunc demo_sink CallOptions_zero) demo_world
   = Some (Returns (Inr \<lparr>Text = ''Hello'', Message = None,
                          GenerationInfo = [''FinishReason'' \<mapsto> AnyString []]\<rparr>),
           \<lparr>sink = 2, delivered = [''Hel'', ''lo''], calls = 1\<rparr>)"
  by (simp add: Generate_request_def loop_defs demo_defs)

lemma demo_chat_two_request:
  "CreateChatCompletionStream (chat_client demo_chat_llm) (calls demo_world)
     ((Chat_Generate_request demo_chat_llm (WithStreamingFunc demo_sink CallOptions_zero))
        \<lparr>chat_req_Messages := [Chat_Generate_message (OtherMessage ChatMessageTypeSystem ''be brief''),
                               Chat_Generate_message (OtherMessage ChatMessageTypeHuman ''hi'')]\<rparr>)
   = Inr (stream_of [demo_chat_delta ''Hel'' ''stop'', demo_chat_delta ''lo'' []])"
  by (simp add: Chat_Generate_request_def demo_chat_llm_def demo_client_def demo_chat_stream_def
        demo_world_def)

lemma demo_chat_two_run:
  "createChatCompletionStream demo_chat_llm
     ((Chat_Generate_request demo_chat_llm (WithStreamingFunc demo_sink CallOptions_zero))
        \<lparr>chat_req_Messages := [Chat_Generate_message (OtherMessage ChatMessageTypeSystem ''be brief''),
                               Chat_Generate_message (OtherMessage ChatMessageTypeHuman ''hi'')]\<rparr>)
     (WithStreamingFunc demo_sink CallOptions_zero) demo_world
   = Some (Returns (Inr \<lparr>Text = [],
                          Message = Some \<lparr>Content = ''Hello'', FunctionCall = None\<rparr>,
                          GenerationInfo = [''FinishReason'' \<mapsto> AnyString []]\<rparr>),
           \<lparr>sink = 2, delivered = [''Hel'', ''lo''], calls = 1\<rparr>)"
  by (simp add: Chat_Generate_request_def loop_defs demo_defs)

text \<open>
  The text of a record that \<^verbatim>\<open>createCompletionStream\<close> returns is the concatenation,
  in the order of arrival, of the chunks handed to the streaming function during the
  call, and its \<^verbatim>\<open>GenerationInfo\<close> has the key \<open>FinishReason\<close> and no other, so no usage
  counter.
\<close>

theorem createCompletionStream_text_is_concatenation:
  assumes "createCompletionStream llm request opts w = Some (Returns (Inr g), w')"
  shows "take (length (delivered w)) (delivered w') = delivered w \<and>
         Text g = concat (drop (length (delivered w)) (delivered w')) \<and>
         dom (GenerationInfo g) = {''FinishReason''}"
proof -
  from createCompletionStream_record [OF assms] obtain ds where
    "Text g = concat (map first_Text ds)"
    "GenerationInfo g =
       [''FinishReason'' \<mapsto> AnyString (last ([] # map first_FinishReason ds))]"
    "delivered w' = delivered w @ map first_Text ds"
    by blast
  then show ?thesis by simp
qed

theorem createCompletionStream_text_is_concatenation_witness:
  "take (length (delivered demo_world)) [''Hel'', ''lo''] = delivered demo_world \<and>
   ''Hello'' = concat (drop (length (delivered demo_world)) [''Hel'', ''lo'']) \<and>
   dom [''FinishReason'' \<mapsto> AnyString []] = {''FinishReason''}"
  using createCompletionStream_text_is_concatenation [OF demo_trail_run] by simp

text \<open>
  For \<^verbatim>\<open>createChatCompletionStream\<close> the concatenation of the chunks is the content
  of the record's message; the record's \<^verbatim>\<open>Text\<close> is empty, whatever was streamed. Its
  \<^verbatim>\<open>GenerationInfo\<close> has the key \<open>FinishReason\<close> and no other.
\<close>

theorem createChatCompletionStream_content_is_concatenation:
  assumes "createChatCompletionStream chat request opts w = Some (Returns (Inr g), w')"
  shows "take (length (delivered w)) (delivered w') = delivered w \<and>
         map_option Content (Message g)
           = Some (concat (drop (length (delivered w)) (delivered w'))) \<and>
         Text g = [] \<and>
         dom (GenerationInfo g) = {''FinishReason''}"
proof -
  from createChatCompletionStream_record [OF assms] obtain ds fc where
    "Text g = []"
    "Message g = Some \<lparr>Content = concat (map first_Content ds), FunctionCall = fc\<rparr>"
    "GenerationInfo g =
       [''FinishReason'' \<mapsto> AnyString (last ([] # map first_stream_FinishReason ds))]"
    "delivered w' = delivered w @ map first_Content ds"
    by blast
  then show ?thesis by simp
qed

theorem createChatCompletionStream_content_is_concatenation_witness:
  "take (length (delivered demo_world)) [''Hel'', ''lo''] = delivered demo_world \<and>
   map_option Content (Some \<lparr>Content = ''Hello'', FunctionCall = None\<rparr>)
     = Some (concat (drop (length (delivered demo_world)) [''Hel'', ''lo''])) \<and>
   dom [''FinishReason'' \<mapsto> AnyString []] = {''FinishReason''}"
  using createChatCompletionStream_content_is_concatenation [OF demo_chat_two_run] by simp

text \<open>
  C1: the text of the record of a streaming call is not always the concatenation of
  the chunks delivered. \<^verbatim>\<open>createChatCompletionStream\<close> builds its record without the
  field \<^verbatim>\<open>Text\<close>: for a chat stream of the deltas \<open>Hel\<close> and \<open>lo\<close> the streaming function
  receives both chunks, the message's content is \<open>Hello\<close>, and the record's text is
  empty. (\<^verbatim>\<open>createChatCompletion\<close> sets \<^verbatim>\<open>Text\<close>, and \<^verbatim>\<open>Chat.Generate\<close> logs
  \<^verbatim>\<open>generation.Text\<close> of the streamed record.)
\<close>

theorem chat_stream_text_is_not_the_concatenation:
  "createChatCompletionStream demo_chat_llm
     ((Chat_Generate_request demo_chat_llm
         (WithStreamingFunc demo_sink (CallOptions_zero\<lparr>MaxTokens := defaultMaxTokens\<rparr>)))
        \<lparr>chat_req_Messages := [Chat_Generate_message (OtherMessage ChatMessageTypeHuman ''hi'')]\<rparr>)
     (WithStreamingFunc demo_sink (CallOptions_zero\<lparr>MaxTokens := defaultMaxTokens\<rparr>)) demo_world
   = Some (Returns (Inr \<lparr>Text = [],
                          Message = Some \<lparr>Content = ''Hello'', FunctionCall = None\<rparr>,
                          GenerationInfo = [''FinishReason'' \<mapsto> AnyString ''stop'']\<rparr>),
           \<lparr>sink = 2, delivered = [''Hel'', ''lo''], calls = 1\<rparr>) \<and>
   concat [''Hel'', ''lo''] = ''Hello''"
  by (simp add: Chat_Generate_request_def loop_defs demo_defs)

text \<open>
  C4: the text of a chat record does not always mirror the content of its message.
  For one message set, \<^verbatim>\<open>Chat.Generate\<close> without a streaming function returns a record
  whose text and whose message's content are both \<open>Hello\<close>; with a streaming function
  the content is \<open>Hello\<close> and the text is empty.
\<close>

theorem chat_stream_text_does_not_mirror_content:
  "Chat_Generate demo_chat_llm [[OtherMessage ChatMessageTypeHuman ''hi'']] [] demo_world
   = Some (Returns ([\<lparr>Text = ''Hello'',
                      Message = Some \<lparr>Content = ''Hello'', FunctionCall = None\<rparr>,
                      GenerationInfo =
                        [''CompletionTokens'' \<mapsto> AnyInt 1, ''PromptTokens'' \<mapsto> AnyInt 3,
                         ''TotalTokens'' \<mapsto> AnyInt 4,
                         ''FinishReason'' \<mapsto> AnyString ''stop'']\<rparr>], None),
           \<lparr>sink = 0, delivered = [], calls = 1\<rparr>) \<and>
   Chat_Generate demo_chat_llm [[OtherMessage ChatMessageTypeHuman ''hi'']]
       [WithStreamingFunc demo_sink] demo_world
   = Some (Returns ([\<lparr>Text = [],
                      Message = Some \<lparr>Content = ''Hello'', FunctionCall = None\<rparr>,
                      GenerationInfo = [''FinishReason'' \<mapsto> AnyString ''stop'']\<rparr>], None),
           \<lparr>sink = 2, delivered = [''Hel'', ''lo''], calls = 1\<rparr>)"
  by (simp add: Chat_Generate_def Let_def Chat_Generate_request_def createChatCompletion_def
        Chat_Generate_message_def loop_defs demo_defs)

text \<open>
  C3, as the code has it: the finish reason in the record of a streaming call that
  ends normally is the finish reason of the first choice of the last delta received,
  empty or not, and the empty string when the stream delivered no delta. It is not
  the last non-empty finish reason: the loops assign \<^verbatim>\<open>finishReason\<close> at every delta,
  so a last delta with an empty finish reason overwrites an earlier non-empty one.
\<close>

theorem stream_finish_reason_of_last_delta:
  "(CreateCompletionStream (client llm) (calls w) request = Inr stream \<and>
    stream_yields stream ds \<and>
    createCompletionStream llm request opts w = Some (Returns (Inr g), w') \<longrightarrow>
      GenerationInfo g ''FinishReason''
        = Some (AnyString (if ds = [] then [] else first_FinishReason (last ds)))) \<and>
   (CreateChatCompletionStream (chat_client chat) (calls w) chat_request = Inr chat_stream \<and>
    stream_yields chat_stream chat_ds \<and>
    createChatCompletionStream chat chat_request opts w = Some (Returns (Inr g), w') \<longrightarrow>
      GenerationInfo g ''FinishReason''
        = Some (AnyString
            (if chat_ds = [] then [] else first_stream_FinishReason (last chat_ds))))"
proof (intro conjI impI)
  assume a: "CreateCompletionStream (client llm) (calls w) request = Inr stream \<and>
    stream_yields stream ds \<and>
    createCompletionStream llm request opts w = Some (Returns (Inr g), w')"
  then obtain stream' ds' where
    s: "CreateCompletionStream (client llm) (calls w) request = Inr stream'"
    and y: "stream_yields stream' ds'"
    and i: "GenerationInfo g =
             [''FinishReason'' \<mapsto> AnyString (last ([] # map first_FinishReason ds'))]"
    using createCompletionStream_record by blast
  from a s have "stream' = stream" by simp
  with a y have "ds' = ds"
    using stream_yields_unique [of stream ds ds'] by (simp add: stream_yields_def)
  with i show "GenerationInfo g ''FinishReason''
        = Some (AnyString (if ds = [] then [] else first_FinishReason (last ds)))"
    by (simp add: last_map)
next
  assume a: "CreateChatCompletionStream (chat_client chat) (calls w) chat_request
      = Inr chat_stream \<and>
    stream_yields chat_stream chat_ds \<and>
    createChatCompletionStream chat chat_request opts w = Some (Returns (Inr g), w')"
  then obtain stream' ds' where
    s: "CreateChatCompletionStream (chat_client chat) (calls w) chat_request = Inr stream'"
    and y: "stream_yields stream' ds'"
    and i: "GenerationInfo g =
             [''FinishReason'' \<mapsto> AnyString (last ([] # map first_stream_FinishReason ds'))]"
    using createChatCompletionStream_record by blast
  from a s have "stream' = chat_stream" by simp
  with a y have "ds' = chat_ds"
    using stream_yields_unique [of chat_stream chat_ds ds'] by (simp add: stream_yields_def)
  with i show "GenerationInfo g ''FinishReason''
        = Some (AnyString
            (if chat_ds = [] then [] else first_stream_FinishReason (last chat_ds)))"
    by (simp add: last_map)
qed

theorem stream_finish_reason_of_last_delta_witness:
  "stream_yields (stream_of [demo_delta ''Hel'' ''stop'', demo_delta ''lo'' []])
     [demo_delta ''Hel'' ''stop'', demo_delta ''lo'' []] \<and>
   GenerationInfo \<lparr>Text = ''Hello'', Message = None,
                   GenerationInfo = [''FinishReason'' \<mapsto> AnyString []]\<rparr> ''FinishReason''
     = Some (AnyString (first_FinishReason (last [demo_delta ''Hel'' ''stop'', demo_delta ''lo'' []]))) \<and>
   stream_yields (stream_of [demo_chat_delta ''Hel'' ''stop'', demo_chat_delta ''lo'' []])
     [demo_chat_delta ''Hel'' ''stop'', demo_chat_delta ''lo'' []] \<and>
   GenerationInfo \<lparr>Text = [], Message = Some \<lparr>Content = ''Hello'', FunctionCall = None\<rparr>,
                   GenerationInfo = [''FinishReason'' \<mapsto> AnyString []]\<rparr> ''FinishReason''
     = Some (AnyString (first_stream_FinishReason
               (last [demo_chat_delta ''Hel'' ''stop'', demo_chat_delta ''lo'' []])))"
proof -
  have y1: "stream_yields (stream_of [demo_delta ''Hel'' ''stop'', demo_delta ''lo'' []])
     [demo_delta ''Hel'' ''stop'', demo_delta ''lo'' []]"
    by (rule stream_yields_stream_of)
  have y2: "stream_yields (stream_of [demo_chat_delta ''Hel'' ''stop'', demo_chat_delta ''lo'' []])
     [demo_chat_delta ''Hel'' ''stop'', demo_chat_delta ''lo'' []]"
    by (rule stream_yields_stream_of)
  from stream_finish_reason_of_last_delta
    [THEN conjunct1, rule_format, OF conjI [OF demo_trail_request conjI [OF y1 demo_trail_run]]]
  have c1: "GenerationInfo \<lparr>Text = ''Hello'', Message = None,
                   GenerationInfo = [''FinishReason'' \<mapsto> AnyString []]\<rparr> ''FinishReason''
     = Some (AnyString (first_FinishReason (last [demo_delta ''Hel'' ''stop'', demo_delta ''lo'' []])))"
    by simp
  from stream_finish_reason_of_last_delta
    [THEN conjunct2, rule_format,
      OF conjI [OF demo_chat_two_request conjI [OF y2 demo_chat_two_run]]]
  have c2: "GenerationInfo \<lparr>Text = [], Message = Some \<lparr>Content = ''Hello'', FunctionCall = None\<rparr>,
                   GenerationInfo = [''FinishReason'' \<mapsto> AnyString []]\<rparr> ''FinishReason''
     = Some (AnyString (first_stream_FinishReason
               (last [demo_chat_delta ''Hel'' ''stop'', demo_chat_delta ''lo'' []])))"
    by simp
  from y1 c1 y2 c2 show ?thesis by blast
qed

text \<open>
  The stream of the example prompt \<open>trail\<close> delivers a delta with the finish reason
  \<open>stop\<close> and then one with an empty finish reason. The last non-empty finish reason
  observed is \<open>stop\<close>; the record holds the empty string.
\<close>

theorem finish_reason_last_non_empty_counterexample:
  "createCompletionStream demo_llm
     ((Generate_request demo_llm (WithStreamingFunc demo_sink CallOptions_zero))
        \<lparr>req_Prompt := ''trail''\<rparr>)
     (WithStreamingFunc demo_sink CallOptions_zero) demo_world
   = Some (Returns (Inr \<lparr>Text = ''Hello'', Message = None,
                          GenerationInfo = [''FinishReason'' \<mapsto> AnyString []]\<rparr>),
           \<lparr>sink = 2, delivered = [''Hel'', ''lo''], calls = 1\<rparr>) \<and>
   CreateCompletionStream (client demo_llm) (calls demo_world)
     ((Generate_request demo_llm (WithStreamingFunc demo_sink CallOptions_zero))
        \<lparr>req_Prompt := ''trail''\<rparr>)
   = Inr (stream_of [demo_delta ''Hel'' ''stop'', demo_delta ''lo'' []]) \<and>
   spec_last_non_empty (map first_FinishReason [demo_delta ''Hel'' ''stop'', demo_delta ''lo'' []])
     = ''stop''"
  using demo_trail_request demo_trail_run
  by (simp add: spec_last_non_empty_def first_FinishReason_def demo_delta_def)

section \<open>Responses without choices\<close>

text \<open>
  A streaming call that returns a record has received, up to the end of the stream,
  only deltas with at least one choice.
\<close>

lemma completion_record_deltas_have_choices:
  assumes "createCompletionStream llm request opts w = Some (Returns (Inr g), w')"
    and "CreateCompletionStream (client llm) (calls w) request = Inr stream"
    and "\<forall>k<j. \<exists>r. stream k = RecvOK r"
    and "stream j = RecvOK resp"
  shows "resp_Choices resp \<noteq> []"
proof -
  from createCompletionStream_record [OF assms(1)] assms(2) obtain ds where
    y: "stream_yields stream ds" and c: "\<forall>d\<in>set ds. resp_Choices d \<noteq> []"
    by auto
  from y have a: "\<forall>k<length ds. stream k = RecvOK (ds ! k)" and b: "stream (length ds) = RecvEOF"
    by (simp_all add: stream_yields_def)
  have "j < length ds"
  proof (rule ccontr)
    assume "\<not> j < length ds"
    then consider "j = length ds" | "length ds < j" by linarith
    then show False
    proof cases
      case 1
      with b assms(4) show False by simp
    next
      case 2
      with assms(3) obtain r where "stream (length ds) = RecvOK r" by blast
      with b show False by simp
    qed
  qed
  with a assms(4) have "ds ! j = resp" by simp
  with \<open>j < length ds\<close> have "resp \<in> set ds" by (metis nth_mem)
  with c show ?thesis by blast
qed

lemma chat_record_deltas_have_choices:
  assumes "createChatCompletionStream chat request opts w = Some (Returns (Inr g), w')"
    and "CreateChatCompletionStream (chat_client chat) (calls w) request = Inr stream"
    and "\<forall>k<j. \<exists>r. stream k = RecvOK r"
    and "stream j = RecvOK resp"
  shows "stream_resp_Choices resp \<noteq> []"
proof -
  from createChatCompletionStream_record [OF assms(1)] assms(2) obtain ds where
    y: "stream_yields stream ds" and c: "\<forall>d\<in>set ds. stream_resp_Choices d \<noteq> []"
    by auto
  from y have a: "\<forall>k<length ds. stream k = RecvOK (ds ! k)" and b: "stream (length ds) = RecvEOF"
    by (simp_all add: stream_yields_def)
  have "j < length ds"
  proof (rule ccontr)
    assume "\<not> j < length ds"
    then consider "j = length ds" | "length ds < j" by linarith
    then show False
    proof cases
      case 1
      with b assms(4) show False by simp
    next
      case 2
      with assms(3) obtain r where "stream (length ds) = RecvOK r" by blast
      with b show False by simp
    qed
  qed
  with a assms(4) have "ds ! j = resp" by simp
  with \<open>j < length ds\<close> have "resp \<in> set ds" by (metis nth_mem)
  with c show ?thesis by blast
qed

text \<open>
  C8: a response without choices gives \<^verbatim>\<open>ErrEmptyResponse\<close>, in
  \<^verbatim>\<open>createCompletion\<close> and \<^verbatim>\<open>createChatCompletion\<close> and, whatever has been accumulated
  and wherever the stream stands, in the loops of \<^verbatim>\<open>createCompletionStream\<close> and
  \<^verbatim>\<open>createChatCompletionStream\<close> when \<^verbatim>\<open>Recv\<close> gives a delta without choices. And no
  record comes from a stream with such a delta: when a streaming call returns a
  record, every delta that the stream delivered (all results before it being
  deltas) has a choice.
\<close>

theorem zero_choices_is_ErrEmptyResponse:
  "(CreateCompletion (client llm) (calls w) request = Inr resp \<and> resp_Choices resp = [] \<longrightarrow>
      fst (createCompletion llm request w) = Inl ErrEmptyResponse) \<and>
   (CreateChatCompletion (chat_client chat) (calls w) chat_request = Inr chat_resp \<and>
    chat_resp_Choices chat_resp = [] \<longrightarrow>
      fst (createChatCompletion chat chat_request w) = Returns (Inl ErrEmptyResponse)) \<and>
   (stream i = RecvOK resp \<and> resp_Choices resp = [] \<longrightarrow>
      createCompletionStream_loop stream opts i out finishReason w
        = Some (Returns (Inl ErrEmptyResponse), w)) \<and>
   (chat_stream i = RecvOK delta \<and> stream_resp_Choices delta = [] \<longrightarrow>
      createChatCompletionStream_loop chat_stream opts i out finishReason functionCall w
        = Some (Returns (Inl ErrEmptyResponse), w)) \<and>
   (createCompletionStream llm request opts w = Some (Returns (Inr g), w') \<and>
    CreateCompletionStream (client llm) (calls w) request = Inr stream \<and>
    (\<forall>k<j. \<exists>r. stream k = RecvOK r) \<and> stream j = RecvOK resp \<longrightarrow>
      resp_Choices resp \<noteq> []) \<and>
   (createChatCompletionStream chat chat_request opts w = Some (Returns (Inr g), w') \<and>
    CreateChatCompletionStream (chat_client chat) (calls w) chat_request = Inr chat_stream \<and>
    (\<forall>k<j. \<exists>r. chat_stream k = RecvOK r) \<and> chat_stream j = RecvOK delta \<longrightarrow>
      stream_resp_Choices delta \<noteq> [])"
proof (intro conjI impI)
  assume "CreateCompletion (client llm) (calls w) request = Inr resp \<and> resp_Choices resp = []"
  then show "fst (createCompletion llm request w) = Inl ErrEmptyResponse"
    by (simp add: createCompletion_def)
next
  assume "CreateChatCompletion (chat_client chat) (calls w) chat_request = Inr chat_resp \<and>
    chat_resp_Choices chat_resp = []"
  then show "fst (createChatCompletion chat chat_request w) = Returns (Inl ErrEmptyResponse)"
    by (simp add: createChatCompletion_def)
next
  assume "stream i = RecvOK resp \<and> resp_Choices resp = []"
  then show "createCompletionStream_loop stream opts i out finishReason w
        = Some (Returns (Inl ErrEmptyResponse), w)"
    by (subst createCompletionStream_loop.simps) simp
next
  assume "chat_stream i = RecvOK delta \<and> stream_resp_Choices delta = []"
  then show "createChatCompletionStream_loop chat_stream opts i out finishReason functionCall w
        = Some (Returns (Inl ErrEmptyResponse), w)"
    by (subst createChatCompletionStream_loop.simps) simp
next
  assume "createCompletionStream llm request opts w = Some (Returns (Inr g), w') \<and>
    CreateCompletionStream (client llm) (calls w) request = Inr stream \<and>
    (\<forall>k<j. \<exists>r. stream k = RecvOK r) \<and> stream j = RecvOK resp"
  then show "resp_Choices resp \<noteq> []"
    using completion_record_deltas_have_choices by blast
next
  assume "createChatCompletionStream chat chat_request opts w = Some (Returns (Inr g), w') \<and>
    CreateChatCompletionStream (chat_client chat) (calls w) chat_request = Inr chat_stream \<and>
    (\<forall>k<j. \<exists>r. chat_stream k = RecvOK r) \<and> chat_stream j = RecvOK delta"
  then show "stream_resp_Choices delta \<noteq> []"
    using chat_record_deltas_have_choices by blast
qed

theorem zero_choices_is_ErrEmptyResponse_witness:
  "fst (createCompletion demo_llm
          ((Generate_request demo_llm CallOptions_zero)\<lparr>req_Prompt := ''none''\<rparr>) demo_world)
     = Inl ErrEmptyResponse \<and>
   fst (createChatCompletion demo_chat_llm
          ((Chat_Generate_request demo_chat_llm CallOptions_zero)
             \<lparr>chat_req_Messages :=
                replicate 3 (Chat_Generate_message (OtherMessage ChatMessageTypeHuman ''hi''))\<rparr>)
          demo_world)
     = Returns (Inl ErrEmptyResponse) \<and>
   createCompletionStream_loop (stream_of [demo_delta ''a'' [], demo_no_choice])
       (WithStreamingFunc demo_sink CallOptions_zero) 1 ''a'' []
       \<lparr>sink = 1, delivered = [''a''], calls = 1\<rparr>
     = Some (Returns (Inl ErrEmptyResponse), \<lparr>sink = 1, delivered = [''a''], calls = 1\<rparr>) \<and>
   createChatCompletionStream_loop
       (stream_of [demo_chat_delta ''a'' [], \<lparr>stream_resp_Choices = []\<rparr>])
       (WithStreamingFunc demo_sink CallOptions_zero) 1 ''a'' [] None
       \<lparr>sink = 1, delivered = [''a''], calls = 1\<rparr>
     = Some (Returns (Inl ErrEmptyResponse), \<lparr>sink = 1, delivered = [''a''], calls = 1\<rparr>) \<and>
   resp_Choices (demo_delta ''lo'' []) \<noteq> [] \<and>
   stream_resp_Choices (demo_chat_delta ''lo'' []) \<noteq> []"
proof -
  have a: "CreateCompletion (client demo_llm) (calls demo_world)
             ((Generate_request demo_llm CallOptions_zero)\<lparr>req_Prompt := ''none''\<rparr>)
           = Inr demo_no_choice \<and> resp_Choices demo_no_choice = []"
    by (simp add: demo_llm_def demo_client_def demo_completion_def demo_no_choice_def)
  have b: "CreateChatCompletion (chat_client demo_chat_llm) (calls demo_world)
             ((Chat_Generate_request demo_chat_llm CallOptions_zero)
                \<lparr>chat_req_Messages :=
                   replicate 3 (Chat_Generate_message (OtherMessage ChatMessageTypeHuman ''hi''))\<rparr>)
           = Inr \<lparr>chat_resp_Choices = [],
                  chat_resp_Usage = \<lparr>PromptTokens = 3, CompletionTokens = 0, TotalTokens = 3\<rparr>\<rparr> \<and>
           chat_resp_Choices \<lparr>chat_resp_Choices = [],
                  chat_resp_Usage = \<lparr>PromptTokens = 3, CompletionTokens = 0, TotalTokens = 3\<rparr>\<rparr> = []"
    by (simp add: demo_chat_llm_def demo_client_def demo_chat_def)
  have c: "stream_of [demo_delta ''a'' [], demo_no_choice] 1 = RecvOK demo_no_choice \<and>
           resp_Choices demo_no_choice = []"
    by (simp add: stream_of_def demo_no_choice_def)
  have d: "stream_of [demo_chat_delta ''a'' [], \<lparr>stream_resp_Choices = []\<rparr>] 1
             = RecvOK \<lparr>stream_resp_Choices = []\<rparr> \<and>
           stream_resp_Choices \<lparr>stream_resp_Choices = []\<rparr> = []"
    by (simp add: stream_of_def)
  have e: "createCompletionStream demo_llm
             ((Generate_request demo_llm (WithStreamingFunc demo_sink CallOptions_zero))
                \<lparr>req_Prompt := ''trail''\<rparr>)
             (WithStreamingFunc demo_sink CallOptions_zero) demo_world
           = Some (Returns (Inr \<lparr>Text = ''Hello'', Message = None,
                                  GenerationInfo = [''FinishReason'' \<mapsto> AnyString []]\<rparr>),
                   \<lparr>sink = 2, delivered = [''Hel'', ''lo''], calls = 1\<rparr>) \<and>
           CreateCompletionStream (client demo_llm) (calls demo_world)
             ((Generate_request demo_llm (WithStreamingFunc demo_sink CallOptions_zero))
                \<lparr>req_Prompt := ''trail''\<rparr>)
           = Inr (stream_of [demo_delta ''Hel'' ''stop'', demo_delta ''lo'' []]) \<and>
           (\<forall>k<1. \<exists>r. stream_of [demo_delta ''Hel'' ''stop'', demo_delta ''lo'' []] k = RecvOK r) \<and>
           stream_of [demo_delta ''Hel'' ''stop'', demo_delta ''lo'' []] 1
             = RecvOK (demo_delta ''lo'' [])"
    using demo_trail_request demo_trail_run by (simp add: stream_of_def)
  have f: "createChatCompletionStream demo_chat_llm
             ((Chat_Generate_request demo_chat_llm (WithStreamingFunc demo_sink CallOptions_zero))
                \<lparr>chat_req_Messages :=
                   [Chat_Generate_message (OtherMessage ChatMessageTypeSystem ''be brief''),
                    Chat_Generate_message (OtherMessage ChatMessageTypeHuman ''hi'')]\<rparr>)
             (WithStreamingFunc demo_sink CallOptions_zero) demo_world
           = Some (Returns (Inr \<lparr>Text = [],
                                  Message = Some \<lparr>Content = ''Hello'', FunctionCall = None\<rparr>,
                                  GenerationInfo = [''FinishReason'' \<mapsto> AnyString []]\<rparr>),
                   \<lparr>sink = 2, delivered = [''Hel'', ''lo''], calls = 1\<rparr>) \<and>
           CreateChatCompletionStream (chat_client demo_chat_llm) (calls demo_world)
             ((Chat_Generate_request demo_chat_llm (WithStreamingFunc demo_sink CallOptions_zero))
                \<lparr>chat_req_Messages :=
                   [Chat_Generate_message (OtherMessage ChatMessageTypeSystem ''be brief''),
                    Chat_Generate_message (OtherMessage ChatMessageTypeHuman ''hi'')]\<rparr>)
           = Inr (stream_of [demo_chat_delta ''Hel'' ''stop'', demo_chat_delta ''lo'' []]) \<and>
           (\<forall>k<1. \<exists>r. stream_of [demo_chat_delta ''Hel'' ''stop'', demo_chat_delta ''lo'' []] k
                         = RecvOK r) \<and>
           stream_of [demo_chat_delta ''Hel'' ''stop'', demo_chat_delta ''lo'' []] 1
             = RecvOK (demo_chat_delta ''lo'' [])"
    using demo_chat_two_request demo_chat_two_run by (simp add: stream_of_def)
  note zc = zero_choices_is_ErrEmptyResponse
  from zc [THEN conjunct1, rule_format, OF a]
    zc [THEN conjunct2, THEN conjunct1, rule_format, OF b]
    zc [where stream = "stream_of [demo_delta ''a'' [], demo_no_choice]" and i = 1,
      THEN conjunct2, THEN conjunct2, THEN conjunct1, rule_format, OF c]
    zc [where chat_stream = "stream_of [demo_chat_delta ''a'' [], \<lparr>stream_resp_Choices = []\<rparr>]"
        and i = 1,
      THEN conjunct2, THEN conjunct2, THEN conjunct2, THEN conjunct1, rule_format, OF d]
    zc [where stream = "stream_of [demo_delta ''Hel'' ''stop'', demo_delta ''lo'' []]" and j = 1,
      THEN conjunct2, THEN conjunct2, THEN conjunct2, THEN conjunct2, THEN conjunct1,
      rule_format, OF e]
    zc [where chat_stream = "stream_of [demo_chat_delta ''Hel'' ''stop'', demo_chat_delta ''lo'' []]"
        and j = 1,
      THEN conjunct2, THEN conjunct2, THEN conjunct2, THEN conjunct2, THEN conjunct2,
      rule_format, OF f]
  show ?thesis by blast
qed

section \<open>Parsing structured output\<close>

text \<open>
  Reading the members of an object whose names are distinct and whose values are all
  strings adds exactly these entries to the map; a member whose value is neither a
  string nor \<^verbatim>\<open>null\<close> leaves a type error.
\<close>

lemma Unmarshal_members_strings:
  assumes "distinct (map fst kvs)" and "\<forall>kv\<in>set kvs. \<exists>s. snd kv = JString s"
  shows "Unmarshal_members kvs m err = (m ++ string_entries (map_of kvs), err)"
  using assms
proof (induction kvs arbitrary: m)
  case Nil
  then show ?case by (simp add: string_entries_def)
next
  case (Cons kv kvs)
  obtain k v where kv: "kv = (k, v)" by (cases kv)
  with Cons.prems obtain s where s: "v = JString s" by auto
  from Cons.prems kv have fresh: "map_of kvs k = None"
    by (simp add: map_of_eq_None_iff)
  from Cons.prems have "distinct (map fst kvs)" "\<forall>kv\<in>set kvs. \<exists>s. snd kv = JString s"
    by simp_all
  then have "Unmarshal_members kvs (m(k \<mapsto> s)) err
               = (m(k \<mapsto> s) ++ string_entries (map_of kvs), err)"
    by (rule Cons.IH)
  moreover have "m(k \<mapsto> s) ++ string_entries (map_of kvs)
                   = m ++ string_entries (map_of ((k, JString s) # kvs))"
    using fresh by (auto simp: fun_eq_iff map_add_def string_entries_def split: option.splits)
  moreover have "Unmarshal_members (kv # kvs) m err = Unmarshal_members kvs (m(k \<mapsto> s)) err"
    by (simp add: kv s)
  ultimately have "Unmarshal_members (kv # kvs) m err
                     = (m ++ string_entries (map_of ((k, JString s) # kvs)), err)"
    by (simp only:)
  then show ?case
    by (simp only: kv s)
qed

lemma Unmarshal_members_error_kept:
  "\<exists>e'. snd (Unmarshal_members kvs m (Some e)) = Some e'"
  by (induction kvs arbitrary: m e) (auto split: json.splits)

lemma Unmarshal_members_type_error:
  assumes "\<exists>kv\<in>set kvs. snd kv \<noteq> JNull \<and> (\<forall>s. snd kv \<noteq> JString s)"
  shows "\<exists>e. snd (Unmarshal_members kvs m err) = Some e"
  using assms
proof (induction kvs arbitrary: m err)
  case Nil
  then show ?case by simp
next
  case (Cons kv kvs)
  obtain k v where kv: "kv = (k, v)" by (cases kv)
  show ?case
  proof (cases "v \<noteq> JNull \<and> (\<forall>s. v \<noteq> JString s)")
    case True
    then show ?thesis
      using Unmarshal_members_error_kept
      by (cases v; cases err) (simp_all add: kv)
  next
    case False
    with Cons.prems kv have "\<exists>kv\<in>set kvs. snd kv \<noteq> JNull \<and> (\<forall>s. snd kv \<noteq> JString s)"
      by auto
    from Cons.IH [OF this] False show ?thesis
      by (cases v) (auto simp: kv)
  qed
qed

lemma demo_texts_differ: "demo_text_strings \<noteq> demo_text"
  by (simp add: demo_text_def demo_text_strings_def)

text \<open>
  C9, as the code has it: let a text denote a JSON object with distinct member names,
  that is a mapping \<open>M\<close>, which holds every declared field name. When all values of
  \<open>M\<close> are strings, \<^verbatim>\<open>Parse\<close> succeeds on the text and returns \<open>M\<close> (restricting \<open>M\<close> to
  its string-valued entries changes nothing then). When a value of \<open>M\<close> is neither a
  string nor \<^verbatim>\<open>null\<close>, \<^verbatim>\<open>Parse\<close> fails with the decoder's error: the text is decoded into
  a \<^verbatim>\<open>map[string]string\<close>, which does not drop other values but rejects them.
\<close>

theorem Parse_round_trip_of_string_mappings:
  assumes "decode t = Some (JObject kvs)"
    and "distinct (map fst kvs)"
    and "map_of kvs = M"
    and "\<forall>rs\<in>set (ResponseJSONSchemas p). schema_Name rs \<in> dom M"
  shows "((\<forall>k v. M k = Some v \<longrightarrow> (\<exists>s. v = JString s)) \<longrightarrow>
            Parse decode p t = Inr (string_entries M)) \<and>
         ((\<exists>k v. M k = Some v \<and> v \<noteq> JNull \<and> (\<forall>s. v \<noteq> JString s)) \<longrightarrow>
            (\<exists>e. Parse decode p t = Inl (UnmarshalError e)))"
proof (intro conjI impI)
  assume strings: "\<forall>k v. M k = Some v \<longrightarrow> (\<exists>s. v = JString s)"
  have "\<forall>kv\<in>set kvs. \<exists>s. snd kv = JString s"
  proof
    fix kv assume "kv \<in> set kvs"
    then have "map_of kvs (fst kv) = Some (snd kv)"
      using assms(2) map_of_is_SomeI [of kvs "fst kv" "snd kv"] by simp
    with strings assms(3) show "\<exists>s. snd kv = JString s" by blast
  qed
  with assms(2) have u: "Unmarshal_members kvs Map.empty None = (string_entries (map_of kvs), None)"
    using Unmarshal_members_strings [of kvs Map.empty None] by simp
  have "filter (\<lambda>rs. string_entries M (schema_Name rs) = None) (ResponseJSONSchemas p) = []"
  proof -
    have "\<forall>rs\<in>set (ResponseJSONSchemas p). string_entries M (schema_Name rs) \<noteq> None"
    proof
      fix rs assume "rs \<in> set (ResponseJSONSchemas p)"
      with assms(4) obtain v where v: "M (schema_Name rs) = Some v" by blast
      with strings obtain s where "v = JString s" by blast
      with v show "string_entries M (schema_Name rs) \<noteq> None"
        by (simp add: string_entries_def)
    qed
    then show ?thesis by (simp add: filter_empty_conv)
  qed
  with u assms(1,3) show "Parse decode p t = Inr (string_entries M)"
    by (simp add: Parse_def parse_def Unmarshal_def)
next
  assume "\<exists>k v. M k = Some v \<and> v \<noteq> JNull \<and> (\<forall>s. v \<noteq> JString s)"
  then obtain k v where "M k = Some v" and bad: "v \<noteq> JNull" "\<forall>s. v \<noteq> JString s" by blast
  with assms(3) have "(k, v) \<in> set kvs" by (auto dest: map_of_SomeD)
  with bad have "\<exists>kv\<in>set kvs. snd kv \<noteq> JNull \<and> (\<forall>s. snd kv \<noteq> JString s)"
    by force
  from Unmarshal_members_type_error [OF this, of Map.empty None]
  obtain e where "snd (Unmarshal_members kvs Map.empty None) = Some e" by blast
  then obtain m' where "Unmarshal_members kvs Map.empty None = (m', Some e)"
    by (cases "Unmarshal_members kvs Map.empty None") auto
  with assms(1) have "Parse decode p t = Inl (UnmarshalError e)"
    by (simp add: Parse_def parse_def Unmarshal_def)
  then show "\<exists>e. Parse decode p t = Inl (UnmarshalError e)" by blast
qed

theorem Parse_round_trip_of_string_mappings_witness:
  "Parse demo_decode demo_parser demo_text_strings
     = Inr (string_entries (map_of [(''prompt'', JString ''a cat''), (''style'', JString ''oil'')])) \<and>
   string_entries (map_of [(''prompt'', JString ''a cat''), (''style'', JString ''oil'')]) ''prompt''
     = Some ''a cat'' \<and>
   (\<exists>e. Parse demo_decode demo_parser demo_text = Inl (UnmarshalError e))"
proof -
  let ?kvs = "[(''prompt'', JString ''a cat''), (''style'', JString ''oil'')]"
  let ?kvs' = "[(''prompt'', JString ''a cat''), (''steps'', JNumber ''20'')]"
  have s1: "demo_decode demo_text_strings = Some (JObject ?kvs)"
    by (simp add: demo_decode_def demo_texts_differ)
  have s2: "distinct (map fst ?kvs)" by simp
  have s3: "\<forall>rs\<in>set (ResponseJSONSchemas demo_parser). schema_Name rs \<in> dom (map_of ?kvs)"
    by (simp add: demo_parser_def)
  have s4: "\<forall>k v. map_of ?kvs k = Some v \<longrightarrow> (\<exists>s. v = JString s)"
    by (auto split: if_splits)
  have n1: "demo_decode demo_text = Some (JObject ?kvs')"
    by (simp add: demo_decode_def)
  have n2: "distinct (map fst ?kvs')" by simp
  have n3: "\<forall>rs\<in>set (ResponseJSONSchemas demo_parser). schema_Name rs \<in> dom (map_of ?kvs')"
    by (simp add: demo_parser_def)
  have n4: "\<exists>k v. map_of ?kvs' k = Some v \<and> v \<noteq> JNull \<and> (\<forall>s. v \<noteq> JString s)"
    by (rule exI [of _ "''steps''"]) simp
  from Parse_round_trip_of_string_mappings
    [where decode = demo_decode and t = demo_text_strings, OF s1 s2 refl s3,
      THEN conjunct1, THEN mp, OF s4]
  have a: "Parse demo_decode demo_parser demo_text_strings = Inr (string_entries (map_of ?kvs))" .
  from Parse_round_trip_of_string_mappings
    [where decode = demo_decode and t = demo_text, OF n1 n2 refl n3,
      THEN conjunct2, THEN mp, OF n4]
  have b: "\<exists>e. Parse demo_decode demo_parser demo_text = Inl (UnmarshalError e)" .
  have c: "string_entries (map_of ?kvs) ''prompt'' = Some ''a cat''"
    by (simp add: string_entries_def)
  from a b c show ?thesis by blast
qed

text \<open>
  The mapping of the first example text has the declared field \<open>prompt\<close> and, beside
  it, a number. \<^verbatim>\<open>Parse\<close> does not return the mapping restricted to \<open>prompt\<close>: it fails.
\<close>

theorem Parse_round_trip_counterexample:
  "demo_decode demo_text
     = Some (JObject [(''prompt'', JString ''a cat''), (''steps'', JNumber ''20'')]) \<and>
   map schema_Name (ResponseJSONSchemas demo_parser) = [''prompt''] \<and>
   map_of [(''prompt'', JString ''a cat''), (''steps'', JNumber ''20'')] ''prompt''
     = Some (JString ''a cat'') \<and>
   Parse demo_decode demo_parser demo_text = Inl (UnmarshalError (UnmarshalTypeError ''number'')) \<and>
   Parse demo_decode demo_parser demo_text
     \<noteq> Inr (string_entries (map_of [(''prompt'', JString ''a cat''), (''steps'', JNumber ''20'')]))"
  by (simp add: demo_decode_def demo_parser_def Parse_def parse_def Unmarshal_def)

section \<open>An error of the streaming function\<close>

text \<open>
  When the streaming function returns an error for a chunk, the loop of either
  streaming call returns that error at once: the chunk has been delivered, nothing
  more is received, and no record is built.
\<close>

theorem streaming_function_error_aborts:
  "(StreamingFunc opts = Some f \<and> stream i = RecvOK resp \<and> resp_Choices resp = c # cs \<and>
    f (sink w) (choice_Text c) = (Some err, s') \<longrightarrow>
      createCompletionStream_loop stream opts i out finishReason w
        = Some (Returns (Inl err),
                w\<lparr>sink := s', delivered := delivered w @ [choice_Text c]\<rparr>)) \<and>
   (StreamingFunc opts = Some f \<and> chat_stream i = RecvOK delta \<and>
    stream_resp_Choices delta = d # ds \<and>
    f (sink w) (delta_Content (stream_choice_Delta d)) = (Some err, s') \<longrightarrow>
      createChatCompletionStream_loop chat_stream opts i out finishReason functionCall w
        = Some (Returns (Inl err),
                w\<lparr>sink := s',
                  delivered := delivered w @ [delta_Content (stream_choice_Delta d)]\<rparr>))"
proof (intro conjI impI)
  assume "StreamingFunc opts = Some f \<and> stream i = RecvOK resp \<and> resp_Choices resp = c # cs \<and>
    f (sink w) (choice_Text c) = (Some err, s')"
  then show "createCompletionStream_loop stream opts i out finishReason w
        = Some (Returns (Inl err),
                w\<lparr>sink := s', delivered := delivered w @ [choice_Text c]\<rparr>)"
    by (subst createCompletionStream_loop.simps) simp
next
  assume "StreamingFunc opts = Some f \<and> chat_stream i = RecvOK delta \<and>
    stream_resp_Choices delta = d # ds \<and>
    f (sink w) (delta_Content (stream_choice_Delta d)) = (Some err, s')"
  then show "createChatCompletionStream_loop chat_stream opts i out finishReason functionCall w
        = Some (Returns (Inl err),
                w\<lparr>sink := s',
                  delivered := delivered w @ [delta_Content (stream_choice_Delta d)]\<rparr>)"
    by (subst createChatCompletionStream_loop.simps) simp
qed

theorem streaming_function_error_aborts_witness:
  "createCompletionStream_loop
       (stream_of [demo_delta ''ok'' [], demo_delta ''bad'' [], demo_delta ''more'' ''stop''])
       (WithStreamingFunc demo_sink CallOptions_zero) 1 ''ok'' []
       \<lparr>sink = 1, delivered = [''ok''], calls = 1\<rparr>
     = Some (Returns (Inl (OtherError ''refused'')),
             \<lparr>sink = 2, delivered = [''ok'', ''bad''], calls = 1\<rparr>) \<and>
   Generate demo_llm [''bad''] [WithStreamingFunc demo_sink] demo_world
     = Some (Returns ([], Some (OtherError ''refused'')),
             \<lparr>sink = 2, delivered = [''ok'', ''bad''], calls = 1\<rparr>)"
proof -
  have h: "StreamingFunc (WithStreamingFunc demo_sink CallOptions_zero) = Some demo_sink \<and>
     stream_of [demo_delta ''ok'' [], demo_delta ''bad'' [], demo_delta ''more'' ''stop''] 1
       = RecvOK (demo_delta ''bad'' []) \<and>
     resp_Choices (demo_delta ''bad'' []) = \<lparr>choice_Text = ''bad'', choice_FinishReason = []\<rparr> # [] \<and>
     demo_sink (sink \<lparr>sink = 1::nat, delivered = [''ok''], calls = 1\<rparr>)
         (choice_Text \<lparr>choice_Text = ''bad'', choice_FinishReason = []\<rparr>)
       = (Some (OtherError ''refused''), 2)"
    by (simp add: WithStreamingFunc_def stream_of_def demo_delta_def demo_sink_def)
  from streaming_function_error_aborts
    [where stream = "stream_of [demo_delta ''ok'' [], demo_delta ''bad'' [], demo_delta ''more'' ''stop'']"
       and i = 1 and f = demo_sink, THEN conjunct1, rule_format, OF h, of "''ok''" "[]"]
  have "createCompletionStream_loop
       (stream_of [demo_delta ''ok'' [], demo_delta ''bad'' [], demo_delta ''more'' ''stop''])
       (WithStreamingFunc demo_sink CallOptions_zero) 1 ''ok'' []
       \<lparr>sink = 1, delivered = [''ok''], calls = 1\<rparr>
     = Some (Returns (Inl (OtherError ''refused'')),
             \<lparr>sink = 2, delivered = [''ok'', ''bad''], calls = 1\<rparr>)"
    by simp
  moreover have "Generate demo_llm [''bad''] [WithStreamingFunc demo_sink] demo_world
     = Some (Returns ([], Some (OtherError ''refused'')),
             \<lparr>sink = 2, delivered = [''ok'', ''bad''], calls = 1\<rparr>)"
    by (simp add: Generate_def Let_def Generate_request_def loop_defs demo_defs)
  ultimately show ?thesis by simp
qed

section \<open>Missing fields\<close>

lemma Unmarshal_members_step:
  "\<exists>m' err'. Unmarshal_members ((k, v) # kvs) m err = Unmarshal_members kvs m' err' \<and>
     dom m' = insert k (dom m)"
  by (cases v) auto

lemma Unmarshal_members_dom:
  "dom (fst (Unmarshal_members kvs m err)) = dom m \<union> fst ` set kvs"
proof (induction kvs arbitrary: m err)
  case Nil
  then show ?case by simp
next
  case (Cons kv kvs)
  obtain k v where kv: "kv = (k, v)" by (cases kv)
  from Unmarshal_members_step [of k v kvs m err] obtain m' err' where
    a: "Unmarshal_members (kv # kvs) m err = Unmarshal_members kvs m' err'"
    and b: "dom m' = insert k (dom m)"
    unfolding kv by blast
  have "dom (fst (Unmarshal_members (kv # kvs) m err)) = dom m' \<union> fst ` set kvs"
    by (simp only: a Cons.IH)
  with b show ?case by (simp add: kv)
qed

lemma Unmarshal_members_no_error:
  assumes "\<forall>kv\<in>set kvs. snd kv = JNull \<or> (\<exists>s. snd kv = JString s)"
  shows "snd (Unmarshal_members kvs m err) = err"
  using assms by (induction kvs arbitrary: m) (auto split: json.splits)

text \<open>
  On a text that denotes an object whose values are strings or \<^verbatim>\<open>null\<close>, \<^verbatim>\<open>Parse\<close>
  succeeds exactly when every declared field name is a member name of the object;
  otherwise it fails with a \<^verbatim>\<open>ParseJSONError\<close> that carries the text and lists, in the
  order of the declaration, the declared names that the object lacks.
\<close>

theorem Parse_missing_fields:
  assumes "decode t = Some (JObject kvs)"
    and "\<forall>kv\<in>set kvs. snd kv = JNull \<or> (\<exists>s. snd kv = JString s)"
  shows "Parse decode p t =
           (if \<forall>rs\<in>set (ResponseJSONSchemas p). schema_Name rs \<in> fst ` set kvs
            then Inr (fst (Unmarshal_members kvs Map.empty None))
            else Inl (ParseJSONError t
                   (''output is missing the following fields '' @
                    format_v (filter (\<lambda>n. n \<notin> fst ` set kvs)
                                (map schema_Name (ResponseJSONSchemas p))))))"
proof -
  obtain parsed where u: "Unmarshal_members kvs Map.empty None = (parsed, None)"
    using Unmarshal_members_no_error [OF assms(2), of Map.empty None]
    by (cases "Unmarshal_members kvs Map.empty None") auto
  have "dom parsed = fst ` set kvs"
    using Unmarshal_members_dom [of kvs Map.empty None] u by simp
  then have d: "\<And>n. parsed n = None \<longleftrightarrow> n \<notin> fst ` set kvs"
    by (metis domIff)
  have m: "map schema_Name (filter (\<lambda>rs. parsed (schema_Name rs) = None) (ResponseJSONSchemas p))
         = filter (\<lambda>n. n \<notin> fst ` set kvs) (map schema_Name (ResponseJSONSchemas p))"
    by (simp add: filter_map comp_def d)
  have e: "(filter (\<lambda>n. n \<notin> fst ` set kvs) (map schema_Name (ResponseJSONSchemas p)) = [])
         \<longleftrightarrow> (\<forall>rs\<in>set (ResponseJSONSchemas p). schema_Name rs \<in> fst ` set kvs)"
    by (auto simp: filter_empty_conv)
  show ?thesis
    using assms(1) u e
    by (simp add: Parse_def parse_def Unmarshal_def Let_def m)
qed

theorem Parse_missing_fields_witness:
  "Parse demo_decode demo_parser_two demo_text_strings
     = Inl (ParseJSONError demo_text_strings
              ''output is missing the following fields [negativePrompt]'')"
proof -
  have 1: "demo_decode demo_text_strings
             = Some (JObject [(''prompt'', JString ''a cat''), (''style'', JString ''oil'')])"
    by (simp add: demo_decode_def demo_texts_differ)
  have 2: "\<forall>kv\<in>set [(''prompt'', JString ''a cat''), (''style'', JString ''oil'')].
             snd kv = JNull \<or> (\<exists>s. snd kv = JString s)"
    by simp
  from Parse_missing_fields [where decode = demo_decode, OF 1 2, of demo_parser_two]
  show ?thesis
    by (simp add: demo_parser_two_def format_v_def)
qed

section \<open>Requests and messages\<close>

text \<open>
  The provider's message for a message of the caller has its content, the role of
  the fixed table (system, assistant, user, user, function; no role for another type)
  and, for a value of \<^verbatim>\<open>AIChatMessage\<close>, its function call.
\<close>

theorem Chat_Generate_message_roles:
  "msg_Content (Chat_Generate_message m) = GetContent m \<and>
   msg_Role (Chat_Generate_message m) =
     (case GetType m of
        ChatMessageTypeSystem \<Rightarrow> ''system''
      | ChatMessageTypeAI \<Rightarrow> ''assistant''
      | ChatMessageTypeHuman \<Rightarrow> ''user''
      | ChatMessageTypeGeneric \<Rightarrow> ''user''
      | ChatMessageTypeFunction \<Rightarrow> ''function''
      | ChatMessageTypeOther t \<Rightarrow> []) \<and>
   msg_FunctionCall (Chat_Generate_message m) =
     (case m of AIMessage a \<Rightarrow> FunctionCall a | OtherMessage t c \<Rightarrow> None)"
  by (cases m)
    (auto simp: Chat_Generate_message_def Let_def ChatMessageRoleSystem_def
       ChatMessageRoleAssistant_def ChatMessageRoleUser_def ChatMessageRoleFunction_def
       split: ChatMessageType.splits option.splits)

lemma Chat_Generate_request_functions:
  "chat_req_Functions
     (foldl (\<lambda>request fn.
         request\<lparr>chat_req_Functions := chat_req_Functions request @
                    [\<lparr>fn_Name = fn_Name fn, fn_Description = fn_Description fn,
                      fn_Parameters = fn_Parameters fn\<rparr>],
                 chat_req_FunctionCall := Some FunctionCallBehaviorAuto\<rparr>) r fs)
     = chat_req_Functions r @ fs \<and>
   chat_req_FunctionCall
     (foldl (\<lambda>request fn.
         request\<lparr>chat_req_Functions := chat_req_Functions request @
                    [\<lparr>fn_Name = fn_Name fn, fn_Description = fn_Description fn,
                      fn_Parameters = fn_Parameters fn\<rparr>],
                 chat_req_FunctionCall := Some FunctionCallBehaviorAuto\<rparr>) r fs)
     = (if fs = [] then chat_req_FunctionCall r else Some FunctionCallBehaviorAuto) \<and>
   chat_req_Stream
     (foldl (\<lambda>request fn.
         request\<lparr>chat_req_Functions := chat_req_Functions request @
                    [\<lparr>fn_Name = fn_Name fn, fn_Description = fn_Description fn,
                      fn_Parameters = fn_Parameters fn\<rparr>],
                 chat_req_FunctionCall := Some FunctionCallBehaviorAuto\<rparr>) r fs)
     = chat_req_Stream r \<and>
   chat_req_Model
     (foldl (\<lambda>request fn.
         request\<lparr>chat_req_Functions := chat_req_Functions request @
                    [\<lparr>fn_Name = fn_Name fn, fn_Description = fn_Description fn,
                      fn_Parameters = fn_Parameters fn\<rparr>],
                 chat_req_FunctionCall := Some FunctionCallBehaviorAuto\<rparr>) r fs)
     = chat_req_Model r \<and>
   chat_req_MaxTokens
     (foldl (\<lambda>request fn.
         request\<lparr>chat_req_Functions := chat_req_Functions request @
                    [\<lparr>fn_Name = fn_Name fn, fn_Description = fn_Description fn,
                      fn_Parameters = fn_Parameters fn\<rparr>],
                 chat_req_FunctionCall := Some FunctionCallBehaviorAuto\<rparr>) r fs)
     = chat_req_MaxTokens r"
  by (induction fs arbitrary: r) simp_all

text \<open>
  The requests built from the call options: the streaming flag is set exactly when a
  streaming function was given, the model is the one of the options unless that is
  empty, and the chat request carries the declared functions, with the behaviour
  \<open>auto\<close> exactly when there is one.
\<close>

theorem request_of_call_options:
  "req_Stream (Generate_request llm opts) = (StreamingFunc opts \<noteq> None) \<and>
   req_Model (Generate_request llm opts) = (if Model opts = [] then model llm else Model opts) \<and>
   chat_req_Stream (Chat_Generate_request chat opts) = (StreamingFunc opts \<noteq> None) \<and>
   chat_req_Model (Chat_Generate_request chat opts)
     = (if Model opts = [] then chat_model chat else Model opts) \<and>
   chat_req_Functions (Chat_Generate_request chat opts) = Functions opts \<and>
   chat_req_FunctionCall (Chat_Generate_request chat opts)
     = (if Functions opts = [] then None else Some ''auto'')"
proof -
  have "chat_req_FunctionCall (Chat_Generate_request chat opts)
          = (if Functions opts = [] then None else Some FunctionCallBehaviorAuto)"
    by (simp add: Chat_Generate_request_def Chat_Generate_request_functions)
  then have "chat_req_FunctionCall (Chat_Generate_request chat opts)
          = (if Functions opts = [] then None else Some ''auto'')"
    by (simp add: FunctionCallBehaviorAuto_def)
  moreover have "req_Stream (Generate_request llm opts) = (StreamingFunc opts \<noteq> None) \<and>
      req_Model (Generate_request llm opts) = (if Model opts = [] then model llm else Model opts)"
    by (simp add: Generate_request_def split: option.splits)
  moreover have "chat_req_Stream (Chat_Generate_request chat opts) = (StreamingFunc opts \<noteq> None) \<and>
      chat_req_Model (Chat_Generate_request chat opts)
        = (if Model opts = [] then chat_model chat else Model opts) \<and>
      chat_req_Functions (Chat_Generate_request chat opts) = Functions opts"
    by (simp add: Chat_Generate_request_def Chat_Generate_request_functions split: option.splits)
  ultimately show ?thesis by simp
qed

end
